theory Spec2Isabelle
  imports Complex_Main "HOL-Library.Signed_Division"
begin

section \<open>Scri.cpp of GWFrames: radiative data at null infinity\<close>

text \<open>
  The embedding follows \<^verbatim>\<open>Code/Scri.cpp\<close>. A C++ \<^verbatim>\<open>double\<close> is read as a
  \<^typ>\<open>real\<close> and a \<^verbatim>\<open>std::complex<double>\<close> as a \<^typ>\<open>complex\<close>; infinities and
  NaN are outside the model. In \<open>Boost\<close> and \<open>Rapidity\<close>, where the
  branch taken depends on how a \<^verbatim>\<open>double\<close> rounds, every operation that the two
  functions write out goes through the rounding and the library functions of a
  \<open>double_arith\<close>, so that what is proved of the two thresholds and of the test of \<open>n\<close>
  holds for the arithmetic of the machine; the quaternion library and the arithmetic
  elsewhere, where values are only carried along, are exact. Where the program divides by zero or takes the root of a negative number, HOL
  has a value of its own (\<open>x / 0 = 0\<close>); the theorems below state such a result as the
  quotient or the root it is, and the closed statements are evaluated where the divisor
  is not zero. A C++ \<^verbatim>\<open>int\<close> is an \<^typ>\<open>int\<close>: the dimensions and degrees of this file
  are far from the 32-bit range, and the one integer division is the truncating
  \<open>sdiv\<close>. A \<^verbatim>\<open>throw\<close> is the \<open>Inl\<close> of a sum, a \<^verbatim>\<open>std::vector\<close> is a list, and an
  index past the end of a vector, undefined in C++, is HOL's unspecified \<open>xs ! i\<close>: the
  theorems assume the lengths that keep every index they speak of in range.
\<close>

subsection \<open>Errors (Errors.hpp) and constants\<close>

datatype error =
    GWFrames_ValueError
  | GWFrames_VectorSizeMismatch
  | GWFrames_BadWaveformInformation
  | GWFrames_NotYetImplemented

definition bindE :: "error + 'a \<Rightarrow> ('a \<Rightarrow> error + 'b) \<Rightarrow> error + 'b" where
  "bindE r f = (case r of Inl e \<Rightarrow> Inl e | Inr x \<Rightarrow> f x)"

text \<open>Running a loop body over a range: the first \<^verbatim>\<open>throw\<close> ends the loop.\<close>

fun sequenceE :: "(error + 'a) list \<Rightarrow> error + 'a list" where
  "sequenceE [] = Inr []"
| "sequenceE (r # rs) =
     (case r of Inl e \<Rightarrow> Inl e
      | Inr x \<Rightarrow> (case sequenceE rs of Inl e \<Rightarrow> Inl e | Inr xs \<Rightarrow> Inr (x # xs)))"

definition complexi :: complex where "complexi = Complex 0 1"
definition sqrt4pi :: real where "sqrt4pi = sqrt (4 * pi)"
definition sqrt8pi :: real where "sqrt8pi = sqrt (8 * pi)"
definition sqrt3 :: real where "sqrt3 = sqrt 3"
definition sqrt3over2 :: real where "sqrt3over2 = sqrt (3 / 2)"

subsection \<open>Quaternions (Quaternions.hpp)\<close>

text \<open>
  Modelled from the spec: the rotor/quaternion library is not part of the sources. Its
  operations are Hamilton's: product, conjugate, vector part, cross and dot product of
  the vector parts, norm, normalisation and exponential.
\<close>

datatype Quaternion = Quaternion real real real real

type_synonym ThreeVector = "real list"
type_synonym FourVector = "real list"

definition zHat :: Quaternion where "zHat = Quaternion 0 0 0 1"

fun Quaternion_of_vector :: "real list \<Rightarrow> Quaternion" where
  "Quaternion_of_vector q = Quaternion 0 (q ! 0) (q ! 1) (q ! 2)"

fun Quaternion_of_angles :: "real \<Rightarrow> real \<Rightarrow> Quaternion" where
  "Quaternion_of_angles vartheta varphi =
     Quaternion (cos (vartheta / 2) * cos (varphi / 2))
                (- sin (vartheta / 2) * sin (varphi / 2))
                (sin (vartheta / 2) * cos (varphi / 2))
                (cos (vartheta / 2) * sin (varphi / 2))"

fun qtimes :: "Quaternion \<Rightarrow> Quaternion \<Rightarrow> Quaternion" where
  "qtimes (Quaternion w x y z) (Quaternion w' x' y' z') =
     Quaternion (w * w' - x * x' - y * y' - z * z')
                (w * x' + x * w' + y * z' - z * y')
                (w * y' - x * z' + y * w' + z * x')
                (w * z' + x * y' - y * x' + z * w')"

fun qscale :: "real \<Rightarrow> Quaternion \<Rightarrow> Quaternion" where
  "qscale a (Quaternion w x y z) = Quaternion (a * w) (a * x) (a * y) (a * z)"

fun conjugate :: "Quaternion \<Rightarrow> Quaternion" where
  "conjugate (Quaternion w x y z) = Quaternion w (- x) (- y) (- z)"

fun vec :: "Quaternion \<Rightarrow> real list" where
  "vec (Quaternion w x y z) = [x, y, z]"

fun cross :: "Quaternion \<Rightarrow> Quaternion \<Rightarrow> Quaternion" where
  "cross (Quaternion w x y z) (Quaternion w' x' y' z') =
     Quaternion 0 (y * z' - z * y') (z * x' - x * z') (x * y' - y * x')"

fun dot :: "Quaternion \<Rightarrow> Quaternion \<Rightarrow> real" where
  "dot (Quaternion w x y z) (Quaternion w' x' y' z') = x * x' + y * y' + z * z'"

fun qabs :: "Quaternion \<Rightarrow> real" where
  "qabs (Quaternion w x y z) = sqrt (w * w + x * x + y * y + z * z)"

definition normalized :: "Quaternion \<Rightarrow> Quaternion" where
  "normalized q = qscale (1 / qabs q) q"

fun qexp :: "Quaternion \<Rightarrow> Quaternion" where
  "qexp (Quaternion w x y z) =
     (let b = sqrt (x * x + y * y + z * z)
      in if b = 0 then Quaternion (exp w) 0 0 0
         else Quaternion (exp w * cos b) (exp w * (sin b / b) * x)
                         (exp w * (sin b / b) * y) (exp w * (sin b / b) * z))"

definition vminus :: "real list \<Rightarrow> real list" where
  "vminus v = map uminus v"

subsection \<open>The arithmetic of double\<close>

text \<open>
  \<open>fl x\<close> is the \<^verbatim>\<open>double\<close> that the machine gives for the exact result \<open>x\<close> of an
  addition, subtraction, multiplication, division or square root, and for the literal
  \<open>x\<close>; \<open>d_exp\<close>, \<open>d_acosh\<close>, \<open>d_acos\<close>, \<open>d_atan\<close> and \<open>d_tan\<close> are the functions
  \<^verbatim>\<open>exp\<close>, \<^verbatim>\<open>acosh\<close>, \<^verbatim>\<open>acos\<close>, \<^verbatim>\<open>atan\<close> and \<^verbatim>\<open>tan\<close> of the C library. None of
  them is in the sources: they are parameters.
\<close>

record double_arith =
  fl :: "real \<Rightarrow> real"
  d_exp :: "real \<Rightarrow> real"
  d_acosh :: "real \<Rightarrow> real"
  d_acos :: "real \<Rightarrow> real"
  d_atan :: "real \<Rightarrow> real"
  d_tan :: "real \<Rightarrow> real"

definition dplus :: "double_arith \<Rightarrow> real \<Rightarrow> real \<Rightarrow> real" where
  "dplus A x y = fl A (x + y)"

definition dminus :: "double_arith \<Rightarrow> real \<Rightarrow> real \<Rightarrow> real" where
  "dminus A x y = fl A (x - y)"

definition dtimes :: "double_arith \<Rightarrow> real \<Rightarrow> real \<Rightarrow> real" where
  "dtimes A x y = fl A (x * y)"

definition ddivide :: "double_arith \<Rightarrow> real \<Rightarrow> real \<Rightarrow> real" where
  "ddivide A x y = fl A (x / y)"

definition dsqrt :: "double_arith \<Rightarrow> real \<Rightarrow> real" where
  "dsqrt A x = fl A (sqrt x)"

subsection \<open>The boost rotor\<close>

text \<open>
  \<open>norm3 A x\<close> is the expression \<^verbatim>\<open>std::sqrt(x[0]*x[0]+x[1]*x[1]+x[2]*x[2])\<close>, which
  the source writes out for \<open>magv\<close>, \<open>absv\<close> and \<open>absn\<close>.
\<close>

definition norm3 :: "double_arith \<Rightarrow> real list \<Rightarrow> real" where
  "norm3 A x =
     dsqrt A (dplus A (dplus A (dtimes A (x ! 0) (x ! 0)) (dtimes A (x ! 1) (x ! 1)))
                      (dtimes A (x ! 2) (x ! 2)))"

definition Rapidity :: "double_arith \<Rightarrow> real list \<Rightarrow> real" where
  "Rapidity A v =
     (let magv = norm3 A v
      in d_acosh A (ddivide A 1 (dsqrt A (dminus A 1 (dtimes A magv magv)))))"

definition Boost :: "double_arith \<Rightarrow> ThreeVector \<Rightarrow> ThreeVector \<Rightarrow> error + Quaternion" where
  "Boost A v n =
     (let alpha = Rapidity A v;
          absv = norm3 A v
      in if absv < fl A (1 / 10 ^ 14) \<or> \<bar>dminus A 1 (d_exp A alpha)\<bar> < fl A (1 / 10 ^ 14)
         then Inr (Quaternion 1 0 0 0)
         else
           let v = v[0 := ddivide A (v ! 0) absv];
               v = v[1 := ddivide A (v ! 1) absv];
               v = v[2 := ddivide A (v ! 2) absv];
               absn = norm3 A n
           in if absn = 0 then Inl GWFrames_ValueError
              else
                let n = n[0 := ddivide A (n ! 0) absn];
                    n = n[1 := ddivide A (n ! 1) absn];
                    n = n[2 := ddivide A (n ! 2) absn];
                    Theta = d_acos A (dplus A (dplus A (dtimes A (n ! 0) (v ! 0))
                                                       (dtimes A (n ! 1) (v ! 1)))
                                              (dtimes A (n ! 2) (v ! 2)));
                    ThetaPrime = dtimes A 2
                                   (d_atan A (dtimes A (d_exp A alpha)
                                                       (d_tan A (dtimes A 0.5 Theta))));
                    vn = cross (Quaternion_of_vector v) (Quaternion_of_vector n);
                    absvn = qabs vn
                in if absvn < fl A (1 / 10 ^ 14) then Inr (Quaternion 1 0 0 0)
                   else Inr (qexp (qscale (dtimes A 0.5 (dminus A ThetaPrime Theta))
                                          (normalized vn))))"

subsection \<open>DataGrid and Modes: the data\<close>

text \<open>
  The two classes of Scri.hpp. \<open>g_s\<close> and \<open>m_s\<close> are the members \<^verbatim>\<open>s\<close> of
  \<^verbatim>\<open>DataGrid\<close> and of \<^verbatim>\<open>Modes\<close>, \<open>g_data\<close> and \<open>m_data\<close> their members
  \<^verbatim>\<open>data\<close>; \<^verbatim>\<open>operator[]\<close> of either class is \<open>!\<close> on the data.
\<close>

record DataGrid =
  g_s :: int
  n_theta :: int
  n_phi :: int
  g_data :: "complex list"

record Modes =
  m_s :: int
  ellMax :: int
  m_data :: "complex list"

text \<open>
  What Scri.cpp calls and the sources do not hold, taken as parameters:
  \<^item> \<open>salm2map alm s Ntheta Nphi lmax i\<close> and \<open>map2salm f s Ntheta Nphi lmax i\<close>: entry
    \<open>i\<close> of the output buffer of \<^verbatim>\<open>spinsfast_salm2map\<close> and \<^verbatim>\<open>spinsfast_map2salm\<close>;
  \<^item> \<open>SWSH s R ell m\<close>: the value \<^verbatim>\<open>Y(ell,m)\<close> of \<^verbatim>\<open>SphericalFunctions::SWSH Y(s, R)\<close>;
  \<^item> \<open>spline_eval x y u\<close>: \<^verbatim>\<open>gsl_spline_eval\<close> at \<open>u\<close> of the cubic spline
    initialised on the abscissae \<open>x\<close> and the ordinates \<open>y\<close>;
  \<^item> \<open>DataGrid_size n\<close> and \<open>Modes_size n\<close>: the constructors \<^verbatim>\<open>DataGrid(const int size)\<close>
    and \<^verbatim>\<open>Modes(const int size)\<close>, and \<open>Modes_pow\<close>: the member \<^verbatim>\<open>Modes::pow\<close>,
    all three declared in Scri.hpp;
  \<^item> \<open>default_L\<close>: the default argument \<^verbatim>\<open>L\<close> of \<^verbatim>\<open>Modes(DataGrid D, const int L)\<close>;
  \<^item> \<open>arith\<close>: the arithmetic of \<^verbatim>\<open>double\<close> that \<open>Boost\<close> runs on.
\<close>

record externals =
  salm2map :: "complex list \<Rightarrow> int \<Rightarrow> int \<Rightarrow> int \<Rightarrow> int \<Rightarrow> nat \<Rightarrow> complex"
  map2salm :: "complex list \<Rightarrow> int \<Rightarrow> int \<Rightarrow> int \<Rightarrow> int \<Rightarrow> nat \<Rightarrow> complex"
  SWSH :: "int \<Rightarrow> Quaternion \<Rightarrow> int \<Rightarrow> int \<Rightarrow> complex"
  spline_eval :: "real list \<Rightarrow> real list \<Rightarrow> real \<Rightarrow> real"
  DataGrid_size :: "int \<Rightarrow> DataGrid"
  Modes_size :: "int \<Rightarrow> Modes"
  Modes_pow :: "Modes \<Rightarrow> int \<Rightarrow> error + Modes"
  default_L :: int
  arith :: double_arith

text \<open>
  Modelled from the spec: \<^verbatim>\<open>N_lm\<close> of the SphericalFunctions library, the closed-form
  coefficient count for a maximum degree.
\<close>

definition N_lm :: "int \<Rightarrow> int" where
  "N_lm L = L * (L + 2) + 1"

text \<open>
  The loops of the file. \<open>grid_points\<close> lists \<open>(i_theta, i_phi)\<close> in the order of the two
  nested grid loops, so that \<open>i_g\<close> is the position in the list; \<open>lm_list\<close> lists
  \<open>(ell, m)\<close> in the order of the two nested mode loops, so that \<open>i_m\<close> is the position
  in the list (\<open>lm_list_from ell0\<close> starts the outer loop at \<open>ell0\<close>). \<open>fill N xs\<close> is a
  buffer allocated with \<open>N\<close> zeros after a loop has written \<open>xs\<close> to its first entries.
  \<open>for_first N f\<close> is \<^verbatim>\<open>for(int i=0; i<N; ++i) c[i] = f(c[i])\<close>, and
  \<open>pointwise f c a\<close> is \<^verbatim>\<open>for(i=0; i<c.size(); ++i) c[i] = f(c[i], a[i])\<close>.
\<close>

definition grid_points :: "int \<Rightarrow> int \<Rightarrow> (int \<times> int) list" where
  "grid_points N_theta N_phi =
     concat (map (\<lambda>i_theta. map (\<lambda>i_phi. (i_theta, i_phi)) [0..N_phi - 1]) [0..N_theta - 1])"

definition lm_list_from :: "int \<Rightarrow> int \<Rightarrow> (int \<times> int) list" where
  "lm_list_from ell0 L = concat (map (\<lambda>ell. map (\<lambda>m. (ell, m)) [- ell..ell]) [ell0..L])"

definition lm_list :: "int \<Rightarrow> (int \<times> int) list" where
  "lm_list L = lm_list_from 0 L"

definition fill :: "int \<Rightarrow> complex list \<Rightarrow> complex list" where
  "fill N xs = xs @ replicate (nat N - length xs) 0"

definition for_first :: "int \<Rightarrow> (complex \<Rightarrow> complex) \<Rightarrow> complex list \<Rightarrow> complex list" where
  "for_first N f c = map f (take (nat N) c) @ drop (nat N) c"

definition pointwise ::
  "(complex \<Rightarrow> complex \<Rightarrow> complex) \<Rightarrow> complex list \<Rightarrow> complex list \<Rightarrow> complex list" where
  "pointwise f c a = map (\<lambda>i. f (c ! i) (a ! i)) [0..<length c]"

subsection \<open>DataGrid\<close>

definition DataGrid_of_data :: "int \<Rightarrow> int \<Rightarrow> int \<Rightarrow> complex list \<Rightarrow> error + DataGrid" where
  "DataGrid_of_data Spin N_theta N_phi D =
     (if N_theta * N_phi \<noteq> int (length D) then Inl GWFrames_VectorSizeMismatch
      else Inr \<lparr>g_s = Spin, n_theta = N_theta, n_phi = N_phi, g_data = D\<rparr>)"

definition DataGrid_of_Modes :: "externals \<Rightarrow> Modes \<Rightarrow> int \<Rightarrow> int \<Rightarrow> DataGrid" where
  "DataGrid_of_Modes E M N_theta N_phi =
     (let nt = max N_theta (2 * ellMax M + 1);
          np = max N_phi (2 * ellMax M + 1)
      in \<lparr>g_s = m_s M, n_theta = nt, n_phi = np,
          g_data = map (salm2map E (m_data M) (m_s M) nt np (ellMax M)) [0..<nat (np * nt)]\<rparr>)"

definition EvaluateAtPoint :: "externals \<Rightarrow> Modes \<Rightarrow> Quaternion \<Rightarrow> complex" where
  "EvaluateAtPoint E M R =
     fold (\<lambda>(i_m, (ell, m)) d. d + m_data M ! i_m * SWSH E (m_s M) R ell m)
          (enumerate 0 (lm_list (ellMax M))) 0"

text \<open>
  The body of the two boosted-grid constructors at one grid point: the rotor \<open>R_b * Rp\<close>
  at which the field is evaluated, or the error of \<open>Boost\<close>.
\<close>

definition boosted_rotor ::
  "externals \<Rightarrow> ThreeVector \<Rightarrow> int \<Rightarrow> int \<Rightarrow> int \<times> int \<Rightarrow> error + Quaternion" where
  "boosted_rotor E v nt np p =
     (let dtheta = pi / real_of_int (nt - 1);
          dphi = 2 * pi / real_of_int np;
          Rp = Quaternion_of_angles (dtheta * real_of_int (fst p)) (dphi * real_of_int (snd p))
      in bindE (Boost (arith E) (vminus v) (vec (qtimes (qtimes Rp zHat) (conjugate Rp))))
               (\<lambda>R_b. Inr (qtimes R_b Rp)))"

definition DataGrid_boosted ::
  "externals \<Rightarrow> Modes \<Rightarrow> ThreeVector \<Rightarrow> int \<Rightarrow> int \<Rightarrow> error + DataGrid" where
  "DataGrid_boosted E M v N_theta N_phi =
     (let nt = max N_theta (2 * ellMax M + 1);
          np = max N_phi (2 * ellMax M + 1)
      in bindE (sequenceE (map (\<lambda>p. bindE (boosted_rotor E v nt np p)
                                       (\<lambda>R. Inr (EvaluateAtPoint E M R)))
                               (grid_points nt np)))
               (\<lambda>D. Inr \<lparr>g_s = m_s M, n_theta = nt, n_phi = np, g_data = fill (np * nt) D\<rparr>))"

definition DataGrid_functor ::
  "externals \<Rightarrow> int \<Rightarrow> int \<Rightarrow> int \<Rightarrow> ThreeVector \<Rightarrow> (Quaternion \<Rightarrow> real)
     \<Rightarrow> error + DataGrid" where
  "DataGrid_functor E Spin N_theta N_phi v f =
     bindE (sequenceE (map (\<lambda>p. bindE (boosted_rotor E v N_theta N_phi p)
                                    (\<lambda>R. Inr (complex_of_real (f R))))
                            (grid_points N_theta N_phi)))
           (\<lambda>D. Inr \<lparr>g_s = Spin, n_theta = N_theta, n_phi = N_phi,
                     g_data = fill (N_phi * N_theta) D\<rparr>)"

text \<open>In the four operators \<open>B\<close> is \<^verbatim>\<open>*this\<close> and \<open>A\<close> the argument.\<close>

definition DataGrid_times :: "DataGrid \<Rightarrow> DataGrid \<Rightarrow> error + DataGrid" where
  "DataGrid_times B A =
     (if n_theta A \<noteq> n_theta B then Inl GWFrames_VectorSizeMismatch
      else if n_phi A \<noteq> n_phi B then Inl GWFrames_VectorSizeMismatch
      else Inr (B\<lparr>g_data := pointwise (\<lambda>c a. c * a) (g_data B) (g_data A),
                  g_s := g_s B + g_s A\<rparr>))"

definition DataGrid_divide :: "DataGrid \<Rightarrow> DataGrid \<Rightarrow> error + DataGrid" where
  "DataGrid_divide B A =
     (if n_theta A \<noteq> n_theta B then Inl GWFrames_VectorSizeMismatch
      else if n_phi A \<noteq> n_phi B then Inl GWFrames_VectorSizeMismatch
      else Inr (B\<lparr>g_data := pointwise (\<lambda>c a. c / a) (g_data B) (g_data A),
                  g_s := g_s B - g_s A\<rparr>))"

definition DataGrid_plus :: "DataGrid \<Rightarrow> DataGrid \<Rightarrow> error + DataGrid" where
  "DataGrid_plus B A =
     (if n_theta A \<noteq> n_theta B then Inl GWFrames_VectorSizeMismatch
      else if n_phi A \<noteq> n_phi B then Inl GWFrames_VectorSizeMismatch
      else Inr (B\<lparr>g_data := pointwise (\<lambda>c a. c + a) (g_data B) (g_data A)\<rparr>))"

definition DataGrid_minus :: "DataGrid \<Rightarrow> DataGrid \<Rightarrow> error + DataGrid" where
  "DataGrid_minus B A =
     (if n_theta A \<noteq> n_theta B then Inl GWFrames_VectorSizeMismatch
      else if n_phi A \<noteq> n_phi B then Inl GWFrames_VectorSizeMismatch
      else Inr (B\<lparr>g_data := pointwise (\<lambda>c a. c - a) (g_data B) (g_data A)\<rparr>))"

definition DataGrid_pow :: "DataGrid \<Rightarrow> int \<Rightarrow> DataGrid" where
  "DataGrid_pow c p = c\<lparr>g_data := for_first (n_theta c * n_phi c) (\<lambda>z. z powi p) (g_data c)\<rparr>"

text \<open>The free operators with a \<^verbatim>\<open>double\<close> on the left.\<close>

definition double_times_DataGrid :: "real \<Rightarrow> DataGrid \<Rightarrow> DataGrid" where
  "double_times_DataGrid a b =
     b\<lparr>g_data := for_first (n_theta b * n_phi b) (\<lambda>z. z * complex_of_real a) (g_data b)\<rparr>"

definition double_divide_DataGrid :: "real \<Rightarrow> DataGrid \<Rightarrow> DataGrid" where
  "double_divide_DataGrid a b =
     b\<lparr>g_data := for_first (n_theta b * n_phi b) (\<lambda>z. complex_of_real a / z) (g_data b)\<rparr>"

definition double_plus_DataGrid :: "real \<Rightarrow> DataGrid \<Rightarrow> DataGrid" where
  "double_plus_DataGrid a b =
     b\<lparr>g_data := for_first (n_theta b * n_phi b) (\<lambda>z. complex_of_real a + z) (g_data b)\<rparr>"

definition double_minus_DataGrid :: "real \<Rightarrow> DataGrid \<Rightarrow> DataGrid" where
  "double_minus_DataGrid a b =
     b\<lparr>g_data := for_first (n_theta b * n_phi b) (\<lambda>z. complex_of_real a - z) (g_data b)\<rparr>"

definition ConformalFactorGrid :: "ThreeVector \<Rightarrow> int \<Rightarrow> int \<Rightarrow> error + DataGrid" where
  "ConformalFactorGrid v nt np =
     (let dtheta = pi / real_of_int (nt - 1);
          dphi = 2 * pi / real_of_int np;
          gamma = 1 / sqrt (1 - v ! 0 * v ! 0 - v ! 1 * v ! 1 - v ! 2 * v ! 2);
          D = map (\<lambda>(i_theta, i_phi).
                     let theta = dtheta * real_of_int i_theta;
                         phi = dphi * real_of_int i_phi
                     in complex_of_real
                          (1 / (gamma * (1 - v ! 0 * cos phi * sin theta
                                           - v ! 1 * sin phi * sin theta
                                           - v ! 2 * cos theta))))
                  (grid_points nt np)
      in DataGrid_of_data 0 nt np (fill (nt * np) D))"

definition InverseConformalFactorGrid :: "ThreeVector \<Rightarrow> int \<Rightarrow> int \<Rightarrow> error + DataGrid" where
  "InverseConformalFactorGrid v nt np =
     (let dtheta = pi / real_of_int (nt - 1);
          dphi = 2 * pi / real_of_int np;
          gamma = 1 / sqrt (1 - v ! 0 * v ! 0 - v ! 1 * v ! 1 - v ! 2 * v ! 2);
          D = map (\<lambda>(i_theta, i_phi).
                     let theta = dtheta * real_of_int i_theta;
                         phi = dphi * real_of_int i_phi
                     in complex_of_real
                          (gamma * (1 - v ! 0 * cos phi * sin theta
                                      - v ! 1 * sin phi * sin theta
                                      - v ! 2 * cos theta)))
                  (grid_points nt np)
      in DataGrid_of_data 0 nt np (fill (nt * np) D))"

definition InverseConformalFactorFunctor :: "ThreeVector \<Rightarrow> Quaternion \<Rightarrow> real" where
  "InverseConformalFactorFunctor vi R =
     (let gamma = 1 / sqrt (1 - vi ! 0 * vi ! 0 - vi ! 1 * vi ! 1 - vi ! 2 * vi ! 2);
          v = Quaternion 0 (vi ! 0) (vi ! 1) (vi ! 2)
      in gamma * (1 - dot v (qtimes (qtimes R zHat) (conjugate R))))"

definition InverseConformalFactorBoostedGrid ::
  "externals \<Rightarrow> ThreeVector \<Rightarrow> int \<Rightarrow> int \<Rightarrow> error + DataGrid" where
  "InverseConformalFactorBoostedGrid E v nt np =
     DataGrid_functor E 0 nt np v (InverseConformalFactorFunctor v)"

subsection \<open>Modes\<close>

definition Modes_of_DataGrid :: "externals \<Rightarrow> DataGrid \<Rightarrow> int \<Rightarrow> Modes" where
  "Modes_of_DataGrid E D L =
     (let s = g_s D;
          eM = max (min ((n_theta D - 1) sdiv 2) ((n_phi D - 1) sdiv 2)) L
      in \<lparr>m_s = s, ellMax = eM,
          m_data = map (map2salm E (g_data D) s (n_theta D) (n_phi D) eM) [0..<nat (N_lm eM)]\<rparr>)"

definition Modes_bar :: "Modes \<Rightarrow> Modes" where
  "Modes_bar A = A\<lparr>m_data := map cnj (m_data A), m_s := - m_s A\<rparr>"

definition Modes_times :: "externals \<Rightarrow> Modes \<Rightarrow> Modes \<Rightarrow> error + Modes" where
  "Modes_times E this M =
     (let L = ellMax this + ellMax M
      in bindE (DataGrid_times (DataGrid_of_Modes E this (2 * L + 1) (2 * L + 1))
                               (DataGrid_of_Modes E M (2 * L + 1) (2 * L + 1)))
           (\<lambda>G. let A = Modes_of_DataGrid E G (max (ellMax this) (ellMax M))
                in Inr (A\<lparr>m_s := m_s this + m_s M\<rparr>)))"

definition Modes_divide :: "externals \<Rightarrow> Modes \<Rightarrow> Modes \<Rightarrow> error + Modes" where
  "Modes_divide E this M =
     (let L = ellMax this + ellMax M
      in bindE (DataGrid_divide (DataGrid_of_Modes E this (2 * L + 1) (2 * L + 1))
                                (DataGrid_of_Modes E M (2 * L + 1) (2 * L + 1)))
           (\<lambda>G. let A = Modes_of_DataGrid E G (max (ellMax this) (ellMax M))
                in Inr (A\<lparr>m_s := m_s this - m_s M\<rparr>)))"

definition Modes_plus :: "Modes \<Rightarrow> Modes \<Rightarrow> error + Modes" where
  "Modes_plus this M =
     (if m_s this \<noteq> m_s M then Inl GWFrames_BadWaveformInformation
      else
        let A = (if length (m_data this) \<ge> length (m_data M) then this else M);
            B = (if length (m_data this) < length (m_data M) then this else M)
        in Inr (A\<lparr>m_data := fold (\<lambda>i C. C[i := C ! i + m_data B ! i])
                                  [0..<length (m_data B)] (m_data A)\<rparr>))"

definition Modes_minus :: "externals \<Rightarrow> Modes \<Rightarrow> Modes \<Rightarrow> error + Modes" where
  "Modes_minus E this M =
     (if m_s this \<noteq> m_s M then Inl GWFrames_BadWaveformInformation
      else if length (m_data this) \<ge> length (m_data M)
      then Inr (this\<lparr>m_data := fold (\<lambda>i C. C[i := C ! i - m_data M ! i])
                                     [0..<length (m_data M)] (m_data this)\<rparr>)
      else
        let C = Modes_size E (int (length (m_data M)));
            C = C\<lparr>m_s := m_s M\<rparr>;
            C = C\<lparr>ellMax := ellMax M\<rparr>;
            D = fold (\<lambda>i C. C[i := m_data this ! i - m_data M ! i])
                     [0..<length (m_data this)] (m_data C);
            D = fold (\<lambda>i C. C[i := - m_data M ! i])
                     [length (m_data this)..<length (m_data M)] D
        in Inr (C\<lparr>m_data := D\<rparr>))"

text \<open>
  The loop shared by \<open>edth\<close>, \<open>edthbar\<close> and \<open>edth2edthbar2\<close>:
  \<^verbatim>\<open>for(int i_m=0, ell=0; ell<=ellMax; ++ell) { factor; for(m=-ell; m<=ell; ++m, ++i_m)
  B.data[i_m] *= factor; }\<close>
\<close>

definition scale_modes :: "(int \<Rightarrow> real) \<Rightarrow> int \<Rightarrow> complex list \<Rightarrow> complex list" where
  "scale_modes factor L B =
     fold (\<lambda>(i_m, (ell, m)) B. B[i_m := B ! i_m * complex_of_real (factor ell)])
          (enumerate 0 (lm_list L)) B"

definition Modes_edth :: "Modes \<Rightarrow> Modes" where
  "Modes_edth A =
     (let s = m_s A;
          ellMin = \<bar>s + 1\<bar>
      in A\<lparr>m_data := scale_modes
                         (\<lambda>ell. if ell < ellMin then 0
                                else sqrt (real_of_int (ell - s) * (real_of_int (ell + s) + 1) / 2))
                         (ellMax A) (m_data A),
           m_s := m_s A + 1\<rparr>)"

definition Modes_edthbar :: "Modes \<Rightarrow> Modes" where
  "Modes_edthbar A =
     (let s = m_s A;
          ellMin = \<bar>s - 1\<bar>
      in A\<lparr>m_data := scale_modes
                         (\<lambda>ell. if ell < ellMin then 0
                                else - sqrt (real_of_int (ell + s) * (real_of_int (ell - s) + 1) / 2))
                         (ellMax A) (m_data A),
           m_s := m_s A - 1\<rparr>)"

definition Modes_edth2edthbar2 :: "Modes \<Rightarrow> Modes" where
  "Modes_edth2edthbar2 A =
     A\<lparr>m_data := scale_modes (\<lambda>ell. real_of_int ((ell - 1) * ell * (ell + 1) * (ell + 2)))
                             (ellMax A) (m_data A)\<rparr>"

definition vFromOneOverK :: "Modes \<Rightarrow> ThreeVector" where
  "vFromOneOverK OneOverK =
     (let K = m_data OneOverK
      in [Re (complex_of_real sqrt3over2 * (K ! 3 - K ! 1) / K ! 0),
          Re (complexi * complex_of_real sqrt3over2 * (K ! 3 + K ! 1) / K ! 0),
          Re (- complex_of_real sqrt3 * K ! 2 / K ! 0)])"

subsection \<open>SliceOfScri and SliceModes\<close>

record 'd SliceOfScri =
  psi0 :: 'd
  psi1 :: 'd
  psi2 :: 'd
  psi3 :: 'd
  psi4 :: 'd
  sigma :: 'd
  sigmadot :: 'd

type_synonym SliceModes = "Modes SliceOfScri"
type_synonym SliceGrid = "DataGrid SliceOfScri"

definition SliceModes_EllMax :: "SliceModes \<Rightarrow> int" where
  "SliceModes_EllMax S =
     max (ellMax (psi0 S))
       (max (ellMax (psi1 S))
         (max (ellMax (psi2 S))
           (max (ellMax (psi3 S))
             (max (ellMax (psi4 S))
               (max (ellMax (sigma S)) (ellMax (sigmadot S)))))))"

definition SuperMomentum :: "externals \<Rightarrow> SliceModes \<Rightarrow> error + Modes" where
  "SuperMomentum E S =
     bindE (Modes_times E (sigma S) (Modes_bar (sigmadot S)))
       (\<lambda>ssb. bindE (Modes_plus (psi2 S) ssb)
         (\<lambda>a. Modes_plus a (Modes_edth (Modes_edth (Modes_bar (sigma S))))))"

text \<open>The four-momentum and the mass read off a supermomentum, as both callers do.\<close>

definition FourMomentum_of :: "Modes \<Rightarrow> FourVector" where
  "FourMomentum_of Psi =
     (let P = m_data Psi
      in [Re (P ! 0) / sqrt4pi,
          Re (P ! 1 - P ! 3) / (sqrt3 * sqrt8pi),
          - Re (complexi * (P ! 1 + P ! 3)) / (sqrt3 * sqrt8pi),
          Re (P ! 2) / (sqrt3 * sqrt4pi)])"

definition Mass_of :: "FourVector \<Rightarrow> real" where
  "Mass_of p = sqrt (p ! 0 * p ! 0 - p ! 1 * p ! 1 - p ! 2 * p ! 2 - p ! 3 * p ! 3)"

definition FourMomentum :: "externals \<Rightarrow> SliceModes \<Rightarrow> error + FourVector" where
  "FourMomentum E S = bindE (SuperMomentum E S) (\<lambda>Psi. Inr (FourMomentum_of Psi))"

definition Mass :: "externals \<Rightarrow> SliceModes \<Rightarrow> error + real" where
  "Mass E S = bindE (FourMomentum E S) (\<lambda>p. Inr (Mass_of p))"

definition BMSTransformationOnSlice ::
  "externals \<Rightarrow> SliceModes \<Rightarrow> real \<Rightarrow> ThreeVector \<Rightarrow> Modes \<Rightarrow> error + SliceGrid" where
  "BMSTransformationOnSlice E S u v delta =
     (let nt = 2 * SliceModes_EllMax S + 1;
          np = nt
      in
      bindE (InverseConformalFactorBoostedGrid E v nt np) (\<lambda>oneoverK_g.
      let oneoverKcubed_g = DataGrid_pow oneoverK_g 3 in
      bindE (DataGrid_boosted E (Modes_edth (Modes_edth delta)) v nt np) (\<lambda>ethethdelta_g.
      bindE (InverseConformalFactorGrid v nt np) (\<lambda>oneoverK_unboosted.
      bindE (DataGrid_divide (double_minus_DataGrid u (DataGrid_of_Modes E delta nt np))
                             oneoverK_unboosted) (\<lambda>uprime.
      bindE (DataGrid_boosted E (Modes_edth (Modes_of_DataGrid E uprime (default_L E))) v nt np)
        (\<lambda>ethuprime_g.
      bindE (DataGrid_times ethuprime_g oneoverK_g) (\<lambda>ethupok_g.
      bindE (DataGrid_boosted E (psi0 S) v nt np) (\<lambda>psi0_g.
      bindE (DataGrid_boosted E (psi1 S) v nt np) (\<lambda>psi1_g.
      bindE (DataGrid_boosted E (psi2 S) v nt np) (\<lambda>psi2_g.
      bindE (DataGrid_boosted E (psi3 S) v nt np) (\<lambda>psi3_g.
      bindE (DataGrid_boosted E (psi4 S) v nt np) (\<lambda>psi4_g.
      bindE (DataGrid_boosted E (sigma S) v nt np) (\<lambda>sigma_g.
      bindE (DataGrid_boosted E (sigmadot S) v nt np) (\<lambda>sigmadot_g.
      bindE (DataGrid_times oneoverKcubed_g psi4_g) (\<lambda>Grids_psi4.
      bindE (DataGrid_times ethupok_g psi4_g) (\<lambda>e4.
      bindE (DataGrid_minus psi3_g e4) (\<lambda>c3.
      bindE (DataGrid_times oneoverKcubed_g c3) (\<lambda>Grids_psi3.
      bindE (DataGrid_minus (double_times_DataGrid 2 psi3_g) e4) (\<lambda>b2.
      bindE (DataGrid_times ethupok_g b2) (\<lambda>eb2.
      bindE (DataGrid_minus psi2_g eb2) (\<lambda>c2.
      bindE (DataGrid_times oneoverKcubed_g c2) (\<lambda>Grids_psi2.
      bindE (DataGrid_minus (double_times_DataGrid 3 psi3_g) e4) (\<lambda>a1.
      bindE (DataGrid_times ethupok_g a1) (\<lambda>ea1.
      bindE (DataGrid_minus (double_times_DataGrid 3 psi2_g) ea1) (\<lambda>b1.
      bindE (DataGrid_times ethupok_g b1) (\<lambda>eb1.
      bindE (DataGrid_minus psi1_g eb1) (\<lambda>c1.
      bindE (DataGrid_times oneoverKcubed_g c1) (\<lambda>Grids_psi1.
      bindE (DataGrid_minus (double_times_DataGrid 4 psi3_g) e4) (\<lambda>z0.
      bindE (DataGrid_times ethupok_g z0) (\<lambda>ez0.
      bindE (DataGrid_minus (double_times_DataGrid 6 psi2_g) ez0) (\<lambda>a0.
      bindE (DataGrid_times ethupok_g a0) (\<lambda>ea0.
      bindE (DataGrid_minus (double_times_DataGrid 4 psi1_g) ea0) (\<lambda>b0.
      bindE (DataGrid_times ethupok_g b0) (\<lambda>eb0.
      bindE (DataGrid_minus psi0_g eb0) (\<lambda>c0.
      bindE (DataGrid_times oneoverKcubed_g c0) (\<lambda>Grids_psi0.
      bindE (DataGrid_minus sigma_g ethethdelta_g) (\<lambda>sd.
      bindE (DataGrid_times oneoverK_g sd) (\<lambda>Grids_sigma.
      bindE (DataGrid_times sigmadot_g (DataGrid_pow oneoverK_g 2)) (\<lambda>Grids_sigmadot.
      Inr \<lparr>psi0 = Grids_psi0, psi1 = Grids_psi1, psi2 = Grids_psi2, psi3 = Grids_psi3,
           psi4 = Grids_psi4, sigma = Grids_sigma, sigmadot = Grids_sigmadot\<rparr>
      )))))))))))))))))))))))))))))))))))))))"

text \<open>
  The per-slice Moreschi step. It takes the two reference arguments and gives the
  exception (it has no normal return) with the values the two arguments hold when
  the exception leaves the function.
\<close>

definition SliceModes_MoreschiIteration ::
  "externals \<Rightarrow> SliceModes \<Rightarrow> Modes \<times> Modes \<Rightarrow> error \<times> Modes \<times> Modes" where
  "SliceModes_MoreschiIteration E S args =
     (let OneOverK_ip1 = fst args; delta_ip1 = snd args
      in case SuperMomentum E S of
           Inl e \<Rightarrow> (e, OneOverK_ip1, delta_ip1)
         | Inr Psi \<Rightarrow>
             (case Mass E S of
                Inl e \<Rightarrow> (e, OneOverK_ip1, delta_ip1)
              | Inr M \<Rightarrow>
                  let OneOverK_ip1 = Modes_size E 4;
                      OneOverK_ip1 = OneOverK_ip1\<lparr>ellMax := 1\<rparr>;
                      K = m_data OneOverK_ip1;
                      K = K[0 := m_data Psi ! 0 / complex_of_real M];
                      K = K[1 := m_data Psi ! 1 / complex_of_real M];
                      K = K[2 := m_data Psi ! 2 / complex_of_real M];
                      K = K[3 := m_data Psi ! 3 / complex_of_real M];
                      OneOverK_ip1 = OneOverK_ip1\<lparr>m_data := K\<rparr>
                  in (GWFrames_NotYetImplemented, OneOverK_ip1, delta_ip1)))"

subsection \<open>Scri and SuperMomenta\<close>

record Scri =
  scri_t :: "real list"
  slices :: "SliceModes list"

record SuperMomenta =
  sm_t :: "real list"
  sm_Psi :: "Modes list"

text \<open>
  The blocks that \<open>Scri::BMSTransformation\<close> and \<open>SuperMomenta::BMSTransform\<close> have
  in common, in the order of the source: the extreme values of \<open>u\<close> over the first
  \<open>N\<close> grid points, the range check with the choice of the window of time indices, and
  the interpolation of one quantity to the time \<open>u\<close> of each grid point.
\<close>

definition u_range :: "DataGrid \<Rightarrow> int \<Rightarrow> real \<times> real" where
  "u_range u N =
     fold (\<lambda>i (uMin, uMax).
             let u_i = Re (g_data u ! i)
             in (if u_i < uMin then u_i else uMin, if u_i > uMax then u_i else uMax))
          [1..<nat N] (Re (g_data u ! 0), Re (g_data u ! 0))"

function iMax_loop :: "real list \<Rightarrow> real \<Rightarrow> int \<Rightarrow> int" where
  "iMax_loop t uMax iMax =
     (if t ! nat iMax > uMax \<and> iMax > 0 then iMax_loop t uMax (iMax - 1) else iMax)"
  by pat_completeness auto
termination
  by (relation "measure (\<lambda>(t, uMax, iMax). nat iMax)") auto

function iMin_loop :: "real list \<Rightarrow> real \<Rightarrow> int \<Rightarrow> int" where
  "iMin_loop t uMin iMin =
     (if t ! nat iMin < uMin \<and> iMin < int (length t) - 1 then iMin_loop t uMin (iMin + 1)
      else iMin)"
  by pat_completeness auto
termination
  by (relation "measure (\<lambda>(t, uMin, iMin). nat (int (length t) - 1 - iMin))") auto

declare iMax_loop.simps [simp del] iMin_loop.simps [simp del]

definition time_window :: "real list \<Rightarrow> real \<Rightarrow> real \<Rightarrow> error + int \<times> int" where
  "time_window t uMin uMax =
     (if uMin < t ! 0 \<or> uMax > last t then Inl GWFrames_ValueError
      else
        let iMax = iMax_loop t uMax (int (length t) - 1);
            iMin = iMin_loop t uMin 0;
            iMin = max 0 (iMin - 3);
            iMax = min (int (length t) - 1) (max (iMin + 7) (iMax + 3))
        in Inr (iMin, iMax))"

definition interpolate ::
  "externals \<Rightarrow> DataGrid \<Rightarrow> real list \<Rightarrow> DataGrid list \<Rightarrow> int \<Rightarrow> DataGrid \<Rightarrow> DataGrid" where
  "interpolate E u u_original transformed N G =
     G\<lparr>g_data :=
         fold (\<lambda>i_g D.
                 let u_i = Re (g_data u ! i_g);
                     re = map (\<lambda>s. Re (g_data s ! i_g)) transformed;
                     im = map (\<lambda>s. Im (g_data s ! i_g)) transformed
                 in D[i_g := Complex (spline_eval E u_original re u_i)
                                     (spline_eval E u_original im u_i)])
              [0..<nat N] (g_data G)\<rparr>"

text \<open>\<^verbatim>\<open>operator[]\<close> of a slice and the constructor \<^verbatim>\<open>SliceOfScri<DataGrid>(size)\<close>.\<close>

definition component :: "nat \<Rightarrow> 'd SliceOfScri \<Rightarrow> 'd" where
  "component i_D S =
     (if i_D = 0 then psi0 S else if i_D = 1 then psi1 S else if i_D = 2 then psi2 S
      else if i_D = 3 then psi3 S else if i_D = 4 then psi4 S
      else if i_D = 5 then sigma S else sigmadot S)"

definition SliceGrid_size :: "externals \<Rightarrow> int \<Rightarrow> SliceGrid" where
  "SliceGrid_size E n =
     \<lparr>psi0 = (DataGrid_size E n)\<lparr>g_s := 2\<rparr>,
      psi1 = (DataGrid_size E n)\<lparr>g_s := 1\<rparr>,
      psi2 = (DataGrid_size E n)\<lparr>g_s := 0\<rparr>,
      psi3 = (DataGrid_size E n)\<lparr>g_s := - 1\<rparr>,
      psi4 = (DataGrid_size E n)\<lparr>g_s := - 2\<rparr>,
      sigma = (DataGrid_size E n)\<lparr>g_s := 2\<rparr>,
      sigmadot = (DataGrid_size E n)\<lparr>g_s := 2\<rparr>\<rparr>"

definition Scri_BMSTransformation ::
  "externals \<Rightarrow> Scri \<Rightarrow> real \<Rightarrow> ThreeVector \<Rightarrow> Modes \<Rightarrow> error + SliceModes" where
  "Scri_BMSTransformation E scri u0 v delta =
     (let t = scri_t scri;
          nt = 2 * SliceModes_EllMax (slices scri ! 0) + 1;
          np = nt;
          u = double_plus_DataGrid u0 (DataGrid_of_Modes E delta nt np);
          (uMin, uMax) = u_range u (nt * np)
      in
      bindE (time_window t uMin uMax) (\<lambda>(iMin, iMax).
      let u_original = map (\<lambda>i. t ! nat i) [iMin..iMax] in
      bindE (sequenceE (map (\<lambda>i. BMSTransformationOnSlice E (slices scri ! nat i) (t ! nat i) v delta)
                            [iMin..iMax])) (\<lambda>transformedslices.
      let nt2 = n_theta (psi0 (transformedslices ! 0));
          np2 = n_phi (psi0 (transformedslices ! 0));
          BMStransformedGrid = SliceGrid_size E (nt2 * np2);
          new = (\<lambda>i_D. Modes_of_DataGrid E
                          (interpolate E u u_original (map (component i_D) transformedslices)
                                       (nt2 * np2) (component i_D BMStransformedGrid))
                          (default_L E))
      in Inr \<lparr>psi0 = new 0, psi1 = new 1, psi2 = new 2, psi3 = new 3, psi4 = new 4,
              sigma = new 5, sigmadot = new 6\<rparr>)))"

definition SuperMomenta_BMSTransform ::
  "externals \<Rightarrow> SuperMomenta \<Rightarrow> Modes \<Rightarrow> Modes \<Rightarrow> error + Modes" where
  "SuperMomenta_BMSTransform E SM OneOverK delta =
     (let t = sm_t SM;
          nt = 2 * ellMax (sm_Psi SM ! 0) + 1;
          np = nt;
          v = vFromOneOverK OneOverK;
          u = DataGrid_of_Modes E delta nt np;
          (uMin, uMax) = u_range u (nt * np)
      in
      bindE (time_window t uMin uMax) (\<lambda>(iMin, iMax).
      let u_original = map (\<lambda>i. t ! nat i) [iMin..iMax] in
      bindE (sequenceE (map (\<lambda>i.
               bindE (Modes_minus E (sm_Psi SM ! nat i) (Modes_edth2edthbar2 delta)) (\<lambda>A.
               bindE (Modes_pow E OneOverK 3) (\<lambda>K3.
               bindE (Modes_times E A K3) (\<lambda>B.
               DataGrid_boosted E B v nt np)))) [iMin..iMax])) (\<lambda>transformedslices.
      let nt2 = n_theta (transformedslices ! 0);
          np2 = n_phi (transformedslices ! 0);
          BMStransformedGrid = DataGrid_size E (nt2 * np2)
      in Inr (Modes_of_DataGrid E
                (interpolate E u u_original transformedslices (nt2 * np2) BMStransformedGrid)
                (default_L E)))))"

text \<open>
  The Moreschi step of the series. It takes the two reference arguments and gives the
  outcome with the values the two arguments hold at the end.
\<close>

definition SuperMomenta_MoreschiIteration ::
  "externals \<Rightarrow> SuperMomenta \<Rightarrow> Modes \<times> Modes \<Rightarrow> (error + unit) \<times> Modes \<times> Modes" where
  "SuperMomenta_MoreschiIteration E SM args =
     (let OneOverK = fst args; delta = snd args
      in case SuperMomenta_BMSTransform E SM OneOverK delta of
           Inl e \<Rightarrow> (Inl e, OneOverK, delta)
         | Inr Psi_i \<Rightarrow>
             let p = FourMomentum_of Psi_i;
                 M = Mass_of p;
                 eM = ellMax delta
             in case Modes_plus Psi_i
                       (Modes_of_DataGrid E
                          (double_divide_DataGrid M (DataGrid_pow (DataGrid_of_Modes E OneOverK 7 7) 3))
                          (default_L E)) of
                  Inl e \<Rightarrow> (Inl e, OneOverK, delta)
                | Inr deltaderiv \<Rightarrow>
                    let d = fold (\<lambda>(i_m, (ell, m)) d.
                                    let factor = 4 / ((real_of_int ell - 1) * real_of_int ell
                                                      * (real_of_int ell + 1) * (real_of_int ell + 2))
                                    in d[i_m := complex_of_real factor * m_data deltaderiv ! i_m])
                                 (enumerate 4 (lm_list_from 2 eM)) (m_data delta);
                        delta = delta\<lparr>m_data := d\<rparr>;
                        K = m_data OneOverK;
                        K = K[0 := m_data Psi_i ! 0 / complex_of_real M];
                        K = K[1 := - m_data Psi_i ! 1 / complex_of_real (3 * M)];
                        K = K[2 := - m_data Psi_i ! 2 / complex_of_real (3 * M)];
                        K = K[3 := - m_data Psi_i ! 3 / complex_of_real (3 * M)];
                        OneOverK = OneOverK\<lparr>m_data := K\<rparr>
                    in (Inr (), OneOverK, delta))"

subsection \<open>A test environment\<close>

text \<open>
  The external functions at which closed statements are evaluated. \<open>exact_arith\<close> does
  not round. \<open>coarse_arith\<close> rounds the values between 1/2 and 2 to the multiples of
  \<open>2^-52\<close>, the spacing of the doubles from 1 to 2, and no other value. In
  \<open>unit_externals\<close> both transform kernels and the harmonic evaluator answer 1 at every
  entry and the spline answers 0; the sized constructors give zeros with spin 0 (a grid
  of \<open>n\<close> points is square), the power of a \<open>Modes\<close> is a single coefficient of degree
  0, and the arithmetic is exact.
\<close>

definition exact_arith :: double_arith where
  "exact_arith =
     \<lparr>fl = (\<lambda>x. x), d_exp = exp, d_acosh = arcosh, d_acos = arccos, d_atan = arctan,
      d_tan = tan\<rparr>"

definition coarse_arith :: double_arith where
  "coarse_arith =
     exact_arith
       \<lparr>fl := (\<lambda>x. if 1 / 2 < x \<and> x < 2 then real_of_int \<lfloor>x * 2 ^ 52 + 1 / 2\<rfloor> / 2 ^ 52
                   else x)\<rparr>"

definition unit_externals :: externals where
  "unit_externals =
     \<lparr>salm2map = (\<lambda>alm s Ntheta Nphi lmax i. 1),
      map2salm = (\<lambda>f s Ntheta Nphi lmax i. 1),
      SWSH = (\<lambda>s R ell m. 1),
      spline_eval = (\<lambda>x y u. 0),
      DataGrid_size = (\<lambda>n. \<lparr>g_s = 0, n_theta = \<lfloor>sqrt (real_of_int n)\<rfloor>,
                              n_phi = \<lfloor>sqrt (real_of_int n)\<rfloor>, g_data = replicate (nat n) 0\<rparr>),
      Modes_size = (\<lambda>n. \<lparr>m_s = 0, ellMax = 0, m_data = replicate (nat n) 0\<rparr>),
      Modes_pow = (\<lambda>M p. Inr \<lparr>m_s = m_s M, ellMax = 0, m_data = [1]\<rparr>),
      default_L = - 1,
      arith = exact_arith\<rparr>"

text \<open>
  A slice of seven fields of \<open>ellMax = 2\<close>, each with nine zero coefficients, with the
  spins 2, 1, 0, -1, -2, 2, 2 that the constructor of \<open>SliceOfScri\<close> sets.
\<close>

definition test_slice :: SliceModes where
  "test_slice =
     \<lparr>psi0 = \<lparr>m_s = 2, ellMax = 2, m_data = replicate 9 0\<rparr>,
      psi1 = \<lparr>m_s = 1, ellMax = 2, m_data = replicate 9 0\<rparr>,
      psi2 = \<lparr>m_s = 0, ellMax = 2, m_data = replicate 9 0\<rparr>,
      psi3 = \<lparr>m_s = - 1, ellMax = 2, m_data = replicate 9 0\<rparr>,
      psi4 = \<lparr>m_s = - 2, ellMax = 2, m_data = replicate 9 0\<rparr>,
      sigma = \<lparr>m_s = 2, ellMax = 2, m_data = replicate 9 0\<rparr>,
      sigmadot = \<lparr>m_s = 2, ellMax = 2, m_data = replicate 9 0\<rparr>\<rparr>"

text \<open>The same slice with a field of spin 1 in the place of \<open>psi2\<close>.\<close>

definition spin_one_slice :: SliceModes where
  "spin_one_slice = test_slice\<lparr>psi2 := \<lparr>m_s = 1, ellMax = 2, m_data = replicate 9 0\<rparr>\<rparr>"

text \<open>
  A series of three slices at the times 0, 1, 2 whose supermomentum has \<open>ellMax = 1\<close>,
  with the frame estimate \<open>1/K = (1, 0, 0, 0)\<close>, of velocity zero, and \<open>delta = 0\<close>.
\<close>

definition test_momenta :: SuperMomenta where
  "test_momenta =
     \<lparr>sm_t = [0, 1, 2],
      sm_Psi = [\<lparr>m_s = 0, ellMax = 1, m_data = [0, 0, 0, 0]\<rparr>,
                \<lparr>m_s = 0, ellMax = 1, m_data = [0, 0, 0, 0]\<rparr>,
                \<lparr>m_s = 0, ellMax = 1, m_data = [0, 0, 0, 0]\<rparr>]\<rparr>"

definition test_OneOverK :: Modes where
  "test_OneOverK = \<lparr>m_s = 0, ellMax = 1, m_data = [1, 0, 0, 0]\<rparr>"

definition test_delta :: Modes where
  "test_delta = \<lparr>m_s = 0, ellMax = 1, m_data = [0, 0, 0, 0]\<rparr>"

text \<open>
  A slice of \<open>ellMax = 2\<close> whose seven fields have the one non-zero coefficient 1, 2, 3,
  4, 5, 6, 7 at degree 0, a supertranslation of \<open>ellMax = 2\<close> with one coefficient of degree
  2, and a supertranslation of \<open>ellMax = 3\<close>, of higher degree than both slices.
\<close>

definition cascade_slice :: SliceModes where
  "cascade_slice =
     \<lparr>psi0 = \<lparr>m_s = 2, ellMax = 2, m_data = [1, 0, 0, 0, 0, 0, 0, 0, 0]\<rparr>,
      psi1 = \<lparr>m_s = 1, ellMax = 2, m_data = [2, 0, 0, 0, 0, 0, 0, 0, 0]\<rparr>,
      psi2 = \<lparr>m_s = 0, ellMax = 2, m_data = [3, 0, 0, 0, 0, 0, 0, 0, 0]\<rparr>,
      psi3 = \<lparr>m_s = - 1, ellMax = 2, m_data = [4, 0, 0, 0, 0, 0, 0, 0, 0]\<rparr>,
      psi4 = \<lparr>m_s = - 2, ellMax = 2, m_data = [5, 0, 0, 0, 0, 0, 0, 0, 0]\<rparr>,
      sigma = \<lparr>m_s = 2, ellMax = 2, m_data = [6, 0, 0, 0, 0, 0, 0, 0, 0]\<rparr>,
      sigmadot = \<lparr>m_s = 2, ellMax = 2, m_data = [7, 0, 0, 0, 0, 0, 0, 0, 0]\<rparr>\<rparr>"

definition cascade_delta :: Modes where
  "cascade_delta = \<lparr>m_s = 0, ellMax = 2, m_data = [0, 0, 0, 0, 1, 0, 0, 0, 0]\<rparr>"

definition fine_delta :: Modes where
  "fine_delta = \<lparr>m_s = 0, ellMax = 3, m_data = replicate 16 0\<rparr>"

subsection \<open>The supermomentum in the words of the specification\<close>

text \<open>
  The combination that the specification writes for \<open>SuperMomentum()\<close>, with the
  operators of the program:
  \<open>psi2 + sigma * bar(edthbar(sigmadot)) + edth(edth(bar(sigma)))\<close>.
\<close>

definition SuperMomentum_as_specified :: "externals \<Rightarrow> SliceModes \<Rightarrow> error + Modes" where
  "SuperMomentum_as_specified E S =
     bindE (Modes_times E (sigma S) (Modes_bar (Modes_edthbar (sigmadot S))))
       (\<lambda>ssb. bindE (Modes_plus (psi2 S) ssb)
         (\<lambda>a. Modes_plus a (Modes_edth (Modes_edth (Modes_bar (sigma S))))))"

section \<open>Properties\<close>

subsection \<open>Boost\<close>

lemma exact_arith_fields [simp]:
  "fl exact_arith x = x" "d_exp exact_arith = exp" "d_acosh exact_arith = arcosh"
  "d_acos exact_arith = arccos" "d_atan exact_arith = arctan" "d_tan exact_arith = tan"
  by (simp_all add: exact_arith_def)

lemma exact_arith_operations [simp]:
  "dplus exact_arith x y = x + y" "dminus exact_arith x y = x - y"
  "dtimes exact_arith x y = x * y" "ddivide exact_arith x y = x / y"
  "dsqrt exact_arith x = sqrt x"
  by (simp_all add: dplus_def dminus_def dtimes_def ddivide_def dsqrt_def)

lemma norm3_exact:
  "norm3 exact_arith x = sqrt (x ! 0 * x ! 0 + x ! 1 * x ! 1 + x ! 2 * x ! 2)"
  by (simp add: norm3_def)

lemma coarse_arith_fields [simp]:
  "d_exp coarse_arith = exp" "d_acosh coarse_arith = arcosh"
  by (simp_all add: coarse_arith_def exact_arith_def)

lemma fl_coarse_outside: "x \<le> 1 / 2 \<Longrightarrow> fl coarse_arith x = x"
  by (simp add: coarse_arith_def)

lemma fl_coarse_one: "fl coarse_arith 1 = 1"
  by (simp add: coarse_arith_def)

lemma fl_coarse_below_one:
  assumes "0 \<le> d" and "d * 2 ^ 52 \<le> 1 / 2"
  shows "fl coarse_arith (1 - d) = 1"
proof -
  have d: "d \<le> 1 / 4"
  proof -
    have "d * 1 \<le> d * 2 ^ 52" using assms(1) by (intro mult_left_mono) simp_all
    with assms(2) show ?thesis by simp
  qed
  have "\<lfloor>(1 - d) * 2 ^ 52 + 1 / 2\<rfloor> = (2 ^ 52 :: int)"
  proof (rule floor_unique)
    show "real_of_int (2 ^ 52) \<le> (1 - d) * 2 ^ 52 + 1 / 2"
      using assms(2) by (simp add: algebra_simps)
    show "(1 - d) * 2 ^ 52 + 1 / 2 < real_of_int (2 ^ 52) + 1"
      using assms(1) by (simp add: algebra_simps)
  qed
  moreover have "1 / 2 < 1 - d \<and> 1 - d < 2" using d assms(1) by simp
  ultimately show ?thesis by (simp add: coarse_arith_def)
qed

lemma sqrt_9_25: "sqrt (9 / 25) = (3 / 5 :: real)"
  by (rule real_sqrt_unique) (simp_all add: power2_eq_square)

lemma sqrt_16_25: "sqrt (16 / 25) = (4 / 5 :: real)"
  by (rule real_sqrt_unique) (simp_all add: power2_eq_square)

lemma norm3_three_fifths: "norm3 exact_arith [3 / 5, 0, 0] = 3 / 5"
  by (simp add: norm3_exact sqrt_9_25)

lemma Rapidity_exact_three_fifths:
  assumes "norm3 exact_arith v = 3 / 5"
  shows "Rapidity exact_arith v = ln 2"
proof -
  have s3: "sqrt ((5 / 4)\<^sup>2 - 1) = (3 / 4 :: real)"
    by (rule real_sqrt_unique) (simp_all add: power2_eq_square)
  have "Rapidity exact_arith v = arcosh (5 / 4 :: real)"
    by (simp add: Rapidity_def Let_def assms sqrt_16_25)
  also have "\<dots> = ln (5 / 4 + sqrt ((5 / 4)\<^sup>2 - 1))"
    by (rule arcosh_real_def) simp
  also have "\<dots> = ln 2" by (simp add: s3)
  finally show ?thesis .
qed

lemma Rapidity_three_fifths: "Rapidity exact_arith [3 / 5, 0, 0] = ln 2"
  using norm3_three_fifths by (rule Rapidity_exact_three_fifths)

lemma norm3_coarse_small:
  assumes "0 \<le> e" and "e \<le> 1 / 2"
  shows "norm3 coarse_arith [e, 0, 0] = e"
proof -
  have ee: "e * e \<le> 1 / 2"
  proof -
    have "e * e \<le> (1 / 2) * (1 / 2)" using assms by (intro mult_mono) simp_all
    then show ?thesis by simp
  qed
  have 1: "dtimes coarse_arith e e = e * e"
    unfolding dtimes_def using ee by (rule fl_coarse_outside)
  have 2: "dtimes coarse_arith 0 0 = 0"
    unfolding dtimes_def by (simp add: fl_coarse_outside)
  have 3: "dplus coarse_arith (e * e) 0 = e * e"
    unfolding dplus_def using ee by (simp add: fl_coarse_outside)
  have 4: "dsqrt coarse_arith (e * e) = e"
    unfolding dsqrt_def using assms by (simp add: fl_coarse_outside)
  have "norm3 coarse_arith [e, 0, 0]
          = dsqrt coarse_arith (dplus coarse_arith (dplus coarse_arith (dtimes coarse_arith e e)
                                  (dtimes coarse_arith 0 0)) (dtimes coarse_arith 0 0))"
    by (simp add: norm3_def)
  also have "\<dots> = e" by (simp only: 1 2 3 4)
  finally show ?thesis .
qed

lemma Rapidity_coarse_small:
  assumes "0 \<le> e" and "e \<le> 1 / 2" and "e * e * 2 ^ 52 \<le> 1 / 2"
  shows "Rapidity coarse_arith [e, 0, 0] = 0"
proof -
  have ee: "e * e \<le> 1 / 2"
  proof -
    have "e * e \<le> (1 / 2) * (1 / 2)" using assms by (intro mult_mono) simp_all
    then show ?thesis by simp
  qed
  have 1: "dtimes coarse_arith e e = e * e"
    unfolding dtimes_def using ee by (rule fl_coarse_outside)
  have 2: "dminus coarse_arith 1 (e * e) = 1"
    unfolding dminus_def using assms by (intro fl_coarse_below_one) simp_all
  have 3: "dsqrt coarse_arith 1 = 1"
    unfolding dsqrt_def by (simp add: fl_coarse_one)
  have 4: "ddivide coarse_arith 1 1 = 1"
    unfolding ddivide_def by (simp add: fl_coarse_one)
  have "Rapidity coarse_arith [e, 0, 0]
          = arcosh (ddivide coarse_arith 1
                     (dsqrt coarse_arith (dminus coarse_arith 1 (dtimes coarse_arith e e))))"
    by (simp add: Rapidity_def Let_def norm3_coarse_small [OF assms(1,2)])
  also have "\<dots> = 0" by (simp only: 1 2 3 4 arcosh_1)
  finally show ?thesis .
qed

text \<open>
  C6, as the code has it, in every arithmetic of \<open>double\<close>: \<open>Boost\<close> answers the
  identity rotor whenever the computed \<open>|v|\<close> is below \<open>1e-14\<close> or the computed
  \<open>|1 - e^alpha|\<close> is below \<open>1e-14\<close>, whatever \<open>n\<close> is, the zero vector included; when
  neither holds and the computed \<open>|n|\<close> is 0, it fails with the value error; and the
  computed \<open>|n|\<close> of the zero vector is 0 as soon as 0 rounds to 0.
\<close>

theorem Boost_small_velocity_before_zero_normal:
  "(norm3 A v < fl A (1 / 10 ^ 14) \<or> \<bar>dminus A 1 (d_exp A (Rapidity A v))\<bar> < fl A (1 / 10 ^ 14)
    \<longrightarrow> Boost A v n = Inr (Quaternion 1 0 0 0))
   \<and> (\<not> (norm3 A v < fl A (1 / 10 ^ 14)
          \<or> \<bar>dminus A 1 (d_exp A (Rapidity A v))\<bar> < fl A (1 / 10 ^ 14))
        \<and> norm3 A n = 0
    \<longrightarrow> Boost A v n = Inl GWFrames_ValueError)
   \<and> (fl A 0 = 0 \<and> n ! 0 = 0 \<and> n ! 1 = 0 \<and> n ! 2 = 0 \<longrightarrow> norm3 A n = 0)"
  by (simp add: Boost_def Let_def norm3_def dplus_def dtimes_def dsqrt_def)

text \<open>
  All branches are taken. In exact arithmetic: the zero velocity with a unit normal,
  and the velocity \<open>(3/5, 0, 0)\<close>, of rapidity \<open>ln 2\<close>, with the zero normal. In the
  arithmetic that rounds near 1: the velocity \<open>(1e-9, 0, 0)\<close>, whose norm is not below
  \<open>1e-14\<close>, has \<open>1 - |v|^2\<close> rounded to 1 and the rapidity 0, so that the second test
  alone returns the identity rotor, with the zero normal too.
\<close>

theorem Boost_small_velocity_before_zero_normal_witness:
  "Boost exact_arith [0, 0, 0] [1, 0, 0] = Inr (Quaternion 1 0 0 0)
   \<and> \<not> norm3 coarse_arith [1 / 10 ^ 9, 0, 0] < fl coarse_arith (1 / 10 ^ 14)
   \<and> Boost coarse_arith [1 / 10 ^ 9, 0, 0] [0, 0, 0] = Inr (Quaternion 1 0 0 0)
   \<and> Boost exact_arith [3 / 5, 0, 0] [0, 0, 0] = Inl GWFrames_ValueError
   \<and> norm3 exact_arith [0, 0, 0] = 0"
proof -
  have a: "norm3 exact_arith [0, 0, 0] < fl exact_arith (1 / 10 ^ 14)"
    by (simp add: norm3_exact)
  have small: "fl coarse_arith (1 / 10 ^ 14) = 1 / 10 ^ 14"
    by (rule fl_coarse_outside) simp
  have zero: "fl coarse_arith 0 = 0"
    by (rule fl_coarse_outside) simp
  have n9: "norm3 coarse_arith [1 / 10 ^ 9, 0, 0] = 1 / 10 ^ 9"
    by (rule norm3_coarse_small) simp_all
  have r9: "Rapidity coarse_arith [1 / 10 ^ 9, 0, 0] = 0"
    by (rule Rapidity_coarse_small) simp_all
  have g1: "\<not> norm3 coarse_arith [1 / 10 ^ 9, 0, 0] < fl coarse_arith (1 / 10 ^ 14)"
    unfolding n9 small by simp
  have g2: "\<bar>dminus coarse_arith 1 (d_exp coarse_arith (Rapidity coarse_arith [1 / 10 ^ 9, 0, 0]))\<bar>
              < fl coarse_arith (1 / 10 ^ 14)"
    unfolding r9 small by (simp add: dminus_def zero)
  have b: "\<not> (norm3 exact_arith [3 / 5, 0, 0] < fl exact_arith (1 / 10 ^ 14)
       \<or> \<bar>dminus exact_arith 1 (d_exp exact_arith (Rapidity exact_arith [3 / 5, 0, 0]))\<bar>
           < fl exact_arith (1 / 10 ^ 14))"
    by (simp add: Rapidity_three_fifths norm3_three_fifths)
  have c: "fl exact_arith 0 = 0 \<and> [0, 0, 0::real] ! 0 = 0 \<and> [0, 0, 0::real] ! 1 = 0
             \<and> [0, 0, 0::real] ! 2 = 0"
    by simp
  from a Boost_small_velocity_before_zero_normal [of exact_arith "[0, 0, 0]" "[1, 0, 0]"]
  have 1: "Boost exact_arith [0, 0, 0] [1, 0, 0] = Inr (Quaternion 1 0 0 0)" by blast
  from g2 Boost_small_velocity_before_zero_normal [of coarse_arith "[1 / 10 ^ 9, 0, 0]" "[0, 0, 0]"]
  have 2: "Boost coarse_arith [1 / 10 ^ 9, 0, 0] [0, 0, 0] = Inr (Quaternion 1 0 0 0)" by blast
  from c Boost_small_velocity_before_zero_normal [of exact_arith "[3 / 5, 0, 0]" "[0, 0, 0]"]
  have 3: "norm3 exact_arith [0, 0, 0] = 0" by blast
  from b 3 Boost_small_velocity_before_zero_normal [of exact_arith "[3 / 5, 0, 0]" "[0, 0, 0]"]
  have 4: "Boost exact_arith [3 / 5, 0, 0] [0, 0, 0] = Inl GWFrames_ValueError" by blast
  from 1 g1 2 3 4 show ?thesis by blast
qed

text \<open>
  C6 as stated fails: the velocity \<open>(0, 0, 0)\<close> has \<open>|v| < 1\<close>, the normal is the zero
  vector, and \<open>Boost\<close> returns the identity rotor instead of the value error.
\<close>

theorem Boost_zero_velocity_zero_normal_no_error:
  "norm3 exact_arith [0, 0, 0] < 1
   \<and> Boost exact_arith [0, 0, 0] [0, 0, 0] = Inr (Quaternion 1 0 0 0)
   \<and> Boost exact_arith [0, 0, 0] [0, 0, 0] \<noteq> Inl GWFrames_ValueError"
  by (simp add: Boost_def Let_def norm3_exact)

subsection \<open>The degree of a spectral field made from a grid\<close>

lemma sdiv_nonneg_2: "0 \<le> (a::int) \<Longrightarrow> a sdiv 2 = a div 2"
  by (cases "a = 0") (simp_all add: signed_divide_int_def)

text \<open>
  C3, as the code has it: for a grid with at least one point in each direction,
  \<open>Modes(D, L)\<close> has \<open>ellMax = max(min(floor((n_theta-1)/2), floor((n_phi-1)/2)), L)\<close>:
  the smaller of the two per-direction floors, raised to the requested minimum.
\<close>

theorem Modes_of_DataGrid_ellMax_min:
  "1 \<le> n_theta D \<Longrightarrow> 1 \<le> n_phi D \<Longrightarrow>
   ellMax (Modes_of_DataGrid E D L) = max (min ((n_theta D - 1) div 2) ((n_phi D - 1) div 2)) L"
  by (simp add: Modes_of_DataGrid_def Let_def sdiv_nonneg_2)

theorem Modes_of_DataGrid_ellMax_min_witness:
  "(1::int) \<le> 3 \<and> (1::int) \<le> 7
   \<and> ellMax (Modes_of_DataGrid unit_externals
               \<lparr>g_s = 0, n_theta = 3, n_phi = 7, g_data = replicate 21 0\<rparr> 0) = 1"
  using Modes_of_DataGrid_ellMax_min
          [of "\<lparr>g_s = 0, n_theta = 3, n_phi = 7, g_data = replicate 21 0\<rparr>" unit_externals 0]
  by simp

text \<open>
  C3 as stated fails on a 3 x 7 grid with requested minimum 0: the maximum of the two
  floors is 3, the constructor sets \<open>ellMax = 1\<close>.
\<close>

theorem Modes_of_DataGrid_ellMax_not_max:
  "ellMax (Modes_of_DataGrid unit_externals
             \<lparr>g_s = 0, n_theta = 3, n_phi = 7, g_data = replicate 21 0\<rparr> 0) = 1
   \<and> max (max ((3 - 1) div 2) ((7 - 1) div 2)) 0 = (3::int)"
  by (simp add: Modes_of_DataGrid_def Let_def sdiv_nonneg_2)

subsection \<open>Products and quotients of spectral fields\<close>

lemma DataGrid_of_Modes_dims:
  "n_theta (DataGrid_of_Modes E M a b) = max a (2 * ellMax M + 1)"
  "n_phi (DataGrid_of_Modes E M a b) = max b (2 * ellMax M + 1)"
  "g_s (DataGrid_of_Modes E M a b) = m_s M"
  "length (g_data (DataGrid_of_Modes E M a b))
     = nat (max b (2 * ellMax M + 1) * max a (2 * ellMax M + 1))"
  by (simp_all add: DataGrid_of_Modes_def Let_def)

text \<open>
  C10, as the code has it: for \<open>A\<close> and \<open>B\<close> of non-negative \<open>ellMax\<close>, the grids of the
  two operands have resolution \<open>2*(A.EllMax()+B.EllMax())+1\<close>, and \<open>A*B\<close> and \<open>A/B\<close>
  return a field of spin \<open>A.spin + B.spin\<close> and \<open>A.spin - B.spin\<close> whose \<open>ellMax\<close> is
  the sum \<open>A.EllMax() + B.EllMax()\<close>: the second argument of \<open>Modes(D, L)\<close> is a lower
  bound, so nothing is truncated at the larger input degree.
\<close>

theorem Modes_times_divide_ellMax_sum:
  assumes "0 \<le> ellMax A" and "0 \<le> ellMax B"
  shows "n_theta (DataGrid_of_Modes E A (2 * (ellMax A + ellMax B) + 1) (2 * (ellMax A + ellMax B) + 1))
           = 2 * (ellMax A + ellMax B) + 1
       \<and> n_theta (DataGrid_of_Modes E B (2 * (ellMax A + ellMax B) + 1) (2 * (ellMax A + ellMax B) + 1))
           = 2 * (ellMax A + ellMax B) + 1
       \<and> (\<exists>C. Modes_times E A B = Inr C \<and> m_s C = m_s A + m_s B
              \<and> ellMax C = ellMax A + ellMax B)
       \<and> (\<exists>C. Modes_divide E A B = Inr C \<and> m_s C = m_s A - m_s B
              \<and> ellMax C = ellMax A + ellMax B)"
  using assms
  by (simp add: Modes_times_def Modes_divide_def Let_def bindE_def DataGrid_times_def
      DataGrid_divide_def DataGrid_of_Modes_dims Modes_of_DataGrid_def sdiv_nonneg_2 max_def)

theorem Modes_times_divide_ellMax_sum_witness:
  "(\<exists>C. Modes_times unit_externals \<lparr>m_s = 2, ellMax = 1, m_data = [0, 0, 0, 0]\<rparr>
                       \<lparr>m_s = - 2, ellMax = 1, m_data = [0, 0, 0, 0]\<rparr> = Inr C
        \<and> m_s C = 0 \<and> ellMax C = 2)
   \<and> (\<exists>C. Modes_divide unit_externals \<lparr>m_s = 2, ellMax = 1, m_data = [0, 0, 0, 0]\<rparr>
                       \<lparr>m_s = - 2, ellMax = 1, m_data = [0, 0, 0, 0]\<rparr> = Inr C
        \<and> m_s C = 4 \<and> ellMax C = 2)"
  using Modes_times_divide_ellMax_sum
          [of "\<lparr>m_s = 2, ellMax = 1, m_data = [0, 0, 0, 0]\<rparr>"
              "\<lparr>m_s = - 2, ellMax = 1, m_data = [0, 0, 0, 0]\<rparr>" unit_externals]
  by simp

text \<open>
  C10 as stated fails for two fields of \<open>ellMax = 1\<close>: the product has \<open>ellMax = 2\<close>,
  not \<open>max(1, 1) = 1\<close>, and holds all nine coefficients of the grid transform.
\<close>

theorem Modes_times_ellMax_not_max:
  "Modes_times unit_externals \<lparr>m_s = 2, ellMax = 1, m_data = [0, 0, 0, 0]\<rparr>
                              \<lparr>m_s = - 2, ellMax = 1, m_data = [0, 0, 0, 0]\<rparr>
     = Inr \<lparr>m_s = 0, ellMax = 2, m_data = [1, 1, 1, 1, 1, 1, 1, 1, 1]\<rparr>
   \<and> (2::int) \<noteq> max 1 1"
  by (simp add: Modes_times_def Let_def bindE_def DataGrid_times_def DataGrid_of_Modes_def
      Modes_of_DataGrid_def sdiv_nonneg_2 N_lm_def unit_externals_def upt_rec)

subsection \<open>Sums and differences: the spin check\<close>

lemma DataGrid_times_divide_spin:
  "DataGrid_times B A = Inr C \<Longrightarrow> g_s C = g_s B + g_s A"
  "DataGrid_divide B A = Inr D \<Longrightarrow> g_s D = g_s B - g_s A"
  by (auto simp add: DataGrid_times_def DataGrid_divide_def split: if_splits)

lemma Modes_plus_minus_spin_mismatch:
  "m_s A \<noteq> m_s B \<Longrightarrow> Modes_plus A B = Inl GWFrames_BadWaveformInformation"
  "m_s A \<noteq> m_s B \<Longrightarrow> Modes_minus E A B = Inl GWFrames_BadWaveformInformation"
  by (simp_all add: Modes_plus_def Modes_minus_def)

text \<open>
  C5 at two grids on the same 2 x 1 grid, of spin 0 and of spin 1: \<open>operator+\<close> and
  \<open>operator-\<close> of \<open>DataGrid\<close> test the two dimensions only and return a grid with the
  spin of the left operand, where the claim has them raise.
\<close>

theorem DataGrid_plus_minus_ignore_spin:
  "DataGrid_plus \<lparr>g_s = 0, n_theta = 2, n_phi = 1, g_data = [1, 1]\<rparr>
                 \<lparr>g_s = 1, n_theta = 2, n_phi = 1, g_data = [1, 1]\<rparr>
     = Inr \<lparr>g_s = 0, n_theta = 2, n_phi = 1, g_data = [2, 2]\<rparr>
   \<and> DataGrid_minus \<lparr>g_s = 0, n_theta = 2, n_phi = 1, g_data = [1, 1]\<rparr>
                    \<lparr>g_s = 1, n_theta = 2, n_phi = 1, g_data = [1, 1]\<rparr>
     = Inr \<lparr>g_s = 0, n_theta = 2, n_phi = 1, g_data = [0, 0]\<rparr>"
  by (simp add: DataGrid_plus_def DataGrid_minus_def pointwise_def upt_rec)

subsection \<open>The mode loops and the operators edth and edthbar\<close>

lemma fold_enumerate_update:
  "fold (\<lambda>(i, x) B. B[i := g x (B ! i)]) (enumerate n xs) B ! j
     = (if n \<le> j \<and> j < n + length xs \<and> j < length B then g (xs ! (j - n)) (B ! j) else B ! j)"
proof (induction xs arbitrary: n B)
  case Nil
  then show ?case by auto
next
  case (Cons x xs)
  let ?f = "\<lambda>(i, x) B. B[i := g x (B ! i)]"
  let ?B = "B[n := g x (B ! n)]"
  have "fold ?f (enumerate n (x # xs)) B ! j = fold ?f (enumerate (Suc n) xs) ?B ! j"
    by simp
  also have "\<dots> = (if Suc n \<le> j \<and> j < Suc n + length xs \<and> j < length ?B
                      then g (xs ! (j - Suc n)) (?B ! j) else ?B ! j)"
    by (rule Cons.IH)
  also have "\<dots> = (if n \<le> j \<and> j < n + length (x # xs) \<and> j < length B
                      then g ((x # xs) ! (j - n)) (B ! j) else B ! j)"
    by (cases "j = n") (auto simp add: nth_Cons' list_update_beyond)
  finally show ?case .
qed

lemma length_fold_enumerate_update:
  "length (fold (\<lambda>(i, x) B. B[i := g x (B ! i)]) (enumerate n xs) B) = length B"
  by (induction xs arbitrary: n B) simp_all

lemma lm_list_from_step:
  "a \<le> L + 1 \<Longrightarrow>
   lm_list_from a (L + 1) = lm_list_from a L @ map (\<lambda>m. (L + 1, m)) [- (L + 1)..L + 1]"
  by (simp add: lm_list_from_def upto_rec2 [of a "L + 1"])

lemma length_lm_list: "- 1 \<le> L \<Longrightarrow> length (lm_list L) = nat ((L + 1) * (L + 1))"
proof (induction L rule: int_ge_induct)
  case base
  then show ?case by (simp add: lm_list_def lm_list_from_def)
next
  case (step i)
  have "length (lm_list (i + 1)) = length (lm_list i) + nat (2 * (i + 1) + 1)"
    using step.hyps by (simp add: lm_list_def lm_list_from_step)
  also have "\<dots> = nat ((i + 1) * (i + 1)) + nat (2 * (i + 1) + 1)"
    by (simp add: step.IH)
  also have "\<dots> = nat ((i + 1) * (i + 1) + (2 * (i + 1) + 1))"
    using step.hyps by (intro nat_add_distrib [symmetric]) simp_all
  also have "(i + 1) * (i + 1) + (2 * (i + 1) + 1) = (i + 1 + 1) * (i + 1 + 1)"
    by (simp add: algebra_simps)
  finally show ?case .
qed

lemma lm_list_nth:
  assumes "0 \<le> ell" and "ell \<le> L" and "- ell \<le> m" and "m \<le> ell"
  shows "lm_list L ! nat (ell * ell + ell + m) = (ell, m)"
  using assms(2)
proof (induction L rule: int_ge_induct)
  case base
  have split: "lm_list ell = lm_list (ell - 1) @ map (\<lambda>m. (ell, m)) [- ell..ell]"
    using lm_list_from_step [of 0 "ell - 1"] assms(1) by (simp add: lm_list_def)
  have len: "length (lm_list (ell - 1)) = nat (ell * ell)"
    using length_lm_list [of "ell - 1"] assms(1) by simp
  have idx: "nat (ell * ell + ell + m) = nat (ell * ell) + nat (ell + m)"
    using assms by (simp add: nat_add_distrib add.assoc)
  have "[- ell..ell] ! nat (ell + m) = - ell + int (nat (ell + m))"
    by (rule nth_upto) (use assms in simp)
  then have "[- ell..ell] ! nat (ell + m) = m" using assms by simp
  moreover have "nat (ell + m) < length [- ell..ell]" using assms by simp
  ultimately show ?case
    by (simp add: split idx len nth_append)
next
  case (step i)
  have "ell * ell + ell + m < (i + 1) * (i + 1)"
  proof -
    have "ell * ell + ell + m \<le> ell * ell + 2 * ell" using assms by simp
    also have "\<dots> < (ell + 1) * (ell + 1)" by (simp add: algebra_simps)
    also have "\<dots> \<le> (i + 1) * (i + 1)"
      using step.hyps assms(1) by (intro mult_mono) simp_all
    finally show ?thesis .
  qed
  then have "nat (ell * ell + ell + m) < length (lm_list i)"
    using length_lm_list [of i] step.hyps assms(1) by simp
  moreover have "lm_list (i + 1) = lm_list i @ map (\<lambda>m. (i + 1, m)) [- (i + 1)..i + 1]"
    using lm_list_from_step [of 0 i] step.hyps assms(1) by (simp add: lm_list_def)
  ultimately show ?case by (simp add: nth_append step.IH)
qed

lemma scale_modes_nth:
  assumes "0 \<le> ell" and "ell \<le> L" and "- ell \<le> m" and "m \<le> ell"
    and "nat (ell * ell + ell + m) < length B"
  shows "scale_modes factor L B ! nat (ell * ell + ell + m)
           = B ! nat (ell * ell + ell + m) * complex_of_real (factor ell)"
proof -
  let ?g = "\<lambda>(x::int \<times> int) (z::complex). z * complex_of_real (factor (fst x))"
  have eq: "(\<lambda>(i_m, (ell, m)) B. B[i_m := B ! i_m * complex_of_real (factor ell)])
              = (\<lambda>(i, x) B. B[i := ?g x (B ! i)])"
    by (auto simp add: fun_eq_iff)
  have "ell * ell + ell + m < (L + 1) * (L + 1)"
  proof -
    have "ell * ell + ell + m \<le> ell * ell + 2 * ell" using assms by simp
    also have "\<dots> < (ell + 1) * (ell + 1)" by (simp add: algebra_simps)
    also have "\<dots> \<le> (L + 1) * (L + 1)"
      using assms by (intro mult_mono) simp_all
    finally show ?thesis .
  qed
  then have lt: "nat (ell * ell + ell + m) < length (lm_list L)"
    using length_lm_list [of L] assms by simp
  show ?thesis
    unfolding scale_modes_def eq
    using fold_enumerate_update [of ?g 0 "lm_list L" B "nat (ell * ell + ell + m)"]
    by (simp add: lt assms(5) lm_list_nth [OF assms(1-4)])
qed

lemma length_scale_modes: "length (scale_modes factor L B) = length B"
proof -
  let ?g = "\<lambda>(x::int \<times> int) (z::complex). z * complex_of_real (factor (fst x))"
  have eq: "(\<lambda>(i_m, (ell, m)) B. B[i_m := B ! i_m * complex_of_real (factor ell)])
              = (\<lambda>(i, x) B. B[i := ?g x (B ! i)])"
    by (auto simp add: fun_eq_iff)
  show ?thesis unfolding scale_modes_def eq
    using length_fold_enumerate_update [of ?g 0 "lm_list L" B] by simp
qed

text \<open>
  C9: for a field of spin \<open>s\<close> whose data has the length of its \<open>ellMax\<close>, and every
  degree \<open>ell \<le> ellMax\<close> and order \<open>m\<close>, the coefficient \<open>(ell, m)\<close>, at index
  \<open>ell*ell + ell + m\<close>, is multiplied by \<open>sqrt((ell-s)*(ell+s+1)/2)\<close> by \<open>edth\<close> when
  \<open>ell \<ge> |s+1|\<close> and by 0 otherwise, and by \<open>-sqrt((ell+s)*(ell-s+1)/2)\<close> by
  \<open>edthbar\<close> when \<open>ell \<ge> |s-1|\<close> and by 0 otherwise; the spin becomes \<open>s+1\<close> and
  \<open>s-1\<close>.
\<close>

theorem edth_edthbar_mode_factors:
  assumes "0 \<le> ell" and "ell \<le> ellMax A" and "- ell \<le> m" and "m \<le> ell"
    and "length (m_data A) = nat (N_lm (ellMax A))"
  shows "m_data (Modes_edth A) ! nat (ell * ell + ell + m)
           = m_data A ! nat (ell * ell + ell + m)
             * complex_of_real (if \<bar>m_s A + 1\<bar> \<le> ell
                                then sqrt (real_of_int ((ell - m_s A) * (ell + m_s A + 1)) / 2)
                                else 0)
       \<and> m_s (Modes_edth A) = m_s A + 1
       \<and> m_data (Modes_edthbar A) ! nat (ell * ell + ell + m)
           = m_data A ! nat (ell * ell + ell + m)
             * complex_of_real (if \<bar>m_s A - 1\<bar> \<le> ell
                                then - sqrt (real_of_int ((ell + m_s A) * (ell - m_s A + 1)) / 2)
                                else 0)
       \<and> m_s (Modes_edthbar A) = m_s A - 1"
proof -
  have "ell * ell + ell + m < (ellMax A + 1) * (ellMax A + 1)"
  proof -
    have "ell * ell + ell + m \<le> ell * ell + 2 * ell" using assms by simp
    also have "\<dots> < (ell + 1) * (ell + 1)" by (simp add: algebra_simps)
    also have "\<dots> \<le> (ellMax A + 1) * (ellMax A + 1)"
      using assms by (intro mult_mono) simp_all
    finally show ?thesis .
  qed
  moreover have "N_lm (ellMax A) = (ellMax A + 1) * (ellMax A + 1)"
    by (simp add: N_lm_def algebra_simps)
  ultimately have lt: "nat (ell * ell + ell + m) < length (m_data A)"
    using assms by simp
  show ?thesis
    using scale_modes_nth [OF assms(1-4) lt]
    by (simp add: Modes_edth_def Modes_edthbar_def Let_def algebra_simps)
qed


theorem edth_edthbar_mode_factors_witness:
  "m_data (Modes_edth \<lparr>m_s = 0, ellMax = 2, m_data = [1, 2, 3, 4, 5, 6, 7, 8, 9]\<rparr>) ! 6
     = 7 * complex_of_real (sqrt 3)
   \<and> m_s (Modes_edth \<lparr>m_s = 0, ellMax = 2, m_data = [1, 2, 3, 4, 5, 6, 7, 8, 9]\<rparr>) = 1
   \<and> m_data (Modes_edthbar \<lparr>m_s = 0, ellMax = 2, m_data = [1, 2, 3, 4, 5, 6, 7, 8, 9]\<rparr>) ! 6
     = 7 * complex_of_real (- sqrt 3)
   \<and> m_s (Modes_edthbar \<lparr>m_s = 0, ellMax = 2, m_data = [1, 2, 3, 4, 5, 6, 7, 8, 9]\<rparr>) = - 1"
  using edth_edthbar_mode_factors
          [of 2 "\<lparr>m_s = 0, ellMax = 2, m_data = [1, 2, 3, 4, 5, 6, 7, 8, 9]\<rparr>" 0]
  by (simp add: N_lm_def)

subsection \<open>The supermomentum of a slice\<close>

lemma Modes_times_defined:
  assumes "0 \<le> ellMax A" and "0 \<le> ellMax B"
  shows "\<exists>C. Modes_times E A B = Inr C \<and> m_s C = m_s A + m_s B
              \<and> ellMax C = ellMax A + ellMax B"
  using assms
  by (simp add: Modes_times_def Let_def bindE_def DataGrid_times_def
      DataGrid_of_Modes_dims Modes_of_DataGrid_def sdiv_nonneg_2 max_def)

lemma Modes_plus_defined:
  "m_s A = m_s B \<Longrightarrow> \<exists>C. Modes_plus A B = Inr C \<and> m_s C = m_s A"
  by (simp add: Modes_plus_def Let_def)

lemma Modes_simple_fields [simp]:
  "m_s (Modes_bar A) = - m_s A" "ellMax (Modes_bar A) = ellMax A"
  "m_s (Modes_edth A) = m_s A + 1" "ellMax (Modes_edth A) = ellMax A"
  "m_s (Modes_edthbar A) = m_s A - 1" "ellMax (Modes_edthbar A) = ellMax A"
  "m_s (Modes_edth2edthbar2 A) = m_s A" "ellMax (Modes_edth2edthbar2 A) = ellMax A"
  by (simp_all add: Modes_bar_def Modes_edth_def Modes_edthbar_def Modes_edth2edthbar2_def Let_def)

lemma SuperMomentum_defined:
  assumes "m_s (psi2 S) = 0" and "m_s (sigma S) = 2" and "m_s (sigmadot S) = 2"
    and "0 \<le> ellMax (sigma S)" and "0 \<le> ellMax (sigmadot S)"
  shows "\<exists>ssb a Psi.
           Modes_times E (sigma S) (Modes_bar (sigmadot S)) = Inr ssb
         \<and> Modes_plus (psi2 S) ssb = Inr a
         \<and> Modes_plus a (Modes_edth (Modes_edth (Modes_bar (sigma S)))) = Inr Psi
         \<and> SuperMomentum E S = Inr Psi \<and> m_s Psi = 0"
proof -
  obtain ssb where ssb: "Modes_times E (sigma S) (Modes_bar (sigmadot S)) = Inr ssb"
      and s1: "m_s ssb = 0"
    using Modes_times_defined [of "sigma S" "Modes_bar (sigmadot S)" E] assms by auto
  obtain a where a: "Modes_plus (psi2 S) ssb = Inr a" and s2: "m_s a = 0"
    using Modes_plus_defined [of "psi2 S" ssb] assms(1) s1 by auto
  obtain Psi where Psi: "Modes_plus a (Modes_edth (Modes_edth (Modes_bar (sigma S)))) = Inr Psi"
      and s3: "m_s Psi = 0"
    using Modes_plus_defined [of a "Modes_edth (Modes_edth (Modes_bar (sigma S)))"] assms(2) s2
    by auto
  have "SuperMomentum E S = Inr Psi"
    by (simp add: SuperMomentum_def bindE_def ssb a Psi)
  with ssb a Psi s3 show ?thesis by blast
qed

lemma SuperMomentum_as_specified_raises:
  assumes "m_s (psi2 S) = 0" and "m_s (sigma S) = 2" and "m_s (sigmadot S) = 2"
    and "0 \<le> ellMax (sigma S)" and "0 \<le> ellMax (sigmadot S)"
  shows "SuperMomentum_as_specified E S = Inl GWFrames_BadWaveformInformation"
proof -
  obtain ssb where ssb: "Modes_times E (sigma S) (Modes_bar (Modes_edthbar (sigmadot S))) = Inr ssb"
      and s1: "m_s ssb = 1"
    using Modes_times_defined [of "sigma S" "Modes_bar (Modes_edthbar (sigmadot S))" E] assms
    by auto
  have "Modes_plus (psi2 S) ssb = Inl GWFrames_BadWaveformInformation"
    using assms(1) s1 by (simp add: Modes_plus_def)
  then show ?thesis
    by (simp add: SuperMomentum_as_specified_def bindE_def ssb)
qed

text \<open>
  C2, as the code has it: on a slice whose \<open>psi2\<close>, \<open>sigma\<close> and \<open>sigmadot\<close> have the
  spins 0, 2 and 2, \<open>SuperMomentum()\<close> raises nothing and returns
  \<open>psi2 + sigma * bar(sigmadot) + edth(edth(bar(sigma)))\<close>, a field of spin 0: the middle
  term is the shear times the conjugate of its time derivative, with no \<open>edthbar\<close>.
\<close>

theorem SuperMomentum_combination:
  assumes "m_s (psi2 S) = 0" and "m_s (sigma S) = 2" and "m_s (sigmadot S) = 2"
    and "0 \<le> ellMax (sigma S)" and "0 \<le> ellMax (sigmadot S)"
  shows "\<exists>ssb a Psi.
           Modes_times E (sigma S) (Modes_bar (sigmadot S)) = Inr ssb
         \<and> Modes_plus (psi2 S) ssb = Inr a
         \<and> Modes_plus a (Modes_edth (Modes_edth (Modes_bar (sigma S)))) = Inr Psi
         \<and> SuperMomentum E S = Inr Psi \<and> m_s Psi = 0"
  using assms by (rule SuperMomentum_defined)

lemma test_slice_fields [simp]:
  "m_s (psi2 test_slice) = 0" "m_s (sigma test_slice) = 2" "m_s (sigmadot test_slice) = 2"
  "ellMax (sigma test_slice) = 2" "ellMax (sigmadot test_slice) = 2"
  by (simp_all add: test_slice_def)

theorem SuperMomentum_combination_witness:
  "m_s (psi2 test_slice) = 0 \<and> m_s (sigma test_slice) = 2 \<and> m_s (sigmadot test_slice) = 2
   \<and> 0 \<le> ellMax (sigma test_slice) \<and> 0 \<le> ellMax (sigmadot test_slice)
   \<and> (\<exists>ssb a Psi.
           Modes_times unit_externals (sigma test_slice) (Modes_bar (sigmadot test_slice)) = Inr ssb
         \<and> Modes_plus (psi2 test_slice) ssb = Inr a
         \<and> Modes_plus a (Modes_edth (Modes_edth (Modes_bar (sigma test_slice)))) = Inr Psi
         \<and> SuperMomentum unit_externals test_slice = Inr Psi \<and> m_s Psi = 0)"
  using SuperMomentum_combination [of test_slice unit_externals] by simp

text \<open>
  C2 as stated fails on the slice of zero fields of \<open>ellMax = 2\<close>: with \<open>edthbar\<close> in the middle
  term that term has spin 1, so the sum with \<open>psi2\<close> raises, and \<open>SuperMomentum()\<close>
  returns a field.
\<close>

theorem SuperMomentum_not_as_specified:
  "SuperMomentum_as_specified unit_externals test_slice = Inl GWFrames_BadWaveformInformation
   \<and> SuperMomentum unit_externals test_slice
       \<noteq> SuperMomentum_as_specified unit_externals test_slice"
proof -
  have a: "SuperMomentum_as_specified unit_externals test_slice
             = Inl GWFrames_BadWaveformInformation"
    by (rule SuperMomentum_as_specified_raises) simp_all
  obtain Psi where "SuperMomentum unit_externals test_slice = Inr Psi"
    using SuperMomentum_defined [of test_slice unit_externals] by auto
  with a show ?thesis by simp
qed

subsection \<open>The per-slice Moreschi step\<close>

lemma unit_externals_fields:
  "salm2map unit_externals alm s nt np lmax i = 1"
  "map2salm unit_externals f s nt np lmax i = 1"
  "SWSH unit_externals s R ell m = 1"
  "spline_eval unit_externals x y u = 0"
  "DataGrid_size unit_externals n
     = \<lparr>g_s = 0, n_theta = \<lfloor>sqrt (real_of_int n)\<rfloor>, n_phi = \<lfloor>sqrt (real_of_int n)\<rfloor>,
        g_data = replicate (nat n) 0\<rparr>"
  "Modes_size unit_externals n = \<lparr>m_s = 0, ellMax = 0, m_data = replicate (nat n) 0\<rparr>"
  "Modes_pow unit_externals M p = Inr \<lparr>m_s = m_s M, ellMax = 0, m_data = [1]\<rparr>"
  "default_L unit_externals = - 1"
  "arith unit_externals = exact_arith"
  by (simp_all add: unit_externals_def)

lemma Mass_of_SuperMomentum:
  "SuperMomentum E S = Inr Psi \<Longrightarrow> Mass E S = Inr (Mass_of (FourMomentum_of Psi))"
  by (simp add: Mass_def FourMomentum_def bindE_def)

lemma Mass_of_SuperMomentum_error:
  "SuperMomentum E S = Inl e \<Longrightarrow> Mass E S = Inl e"
  by (simp add: Mass_def FourMomentum_def bindE_def)

text \<open>
  C4, as the code has it: \<open>SliceModes::MoreschiIteration\<close> never changes \<open>delta_ip1\<close>.
  When \<open>SuperMomentum()\<close> raises, that error leaves with both arguments as they were
  at entry. Otherwise the not-yet-implemented error leaves after \<open>OneOverK_ip1\<close> has
  been replaced by \<open>Modes(4)\<close> with \<open>ellMax = 1\<close> and the coefficients
  \<open>Psi[0..3]/M\<close>.
\<close>

theorem SliceModes_MoreschiIteration_outputs:
  "snd (snd (SliceModes_MoreschiIteration E S (OneOverK_ip1, delta_ip1))) = delta_ip1
   \<and> (SuperMomentum E S = Inl e \<longrightarrow>
        SliceModes_MoreschiIteration E S (OneOverK_ip1, delta_ip1)
          = (e, OneOverK_ip1, delta_ip1))
   \<and> (SuperMomentum E S = Inr Psi \<longrightarrow>
        SliceModes_MoreschiIteration E S (OneOverK_ip1, delta_ip1)
          = (GWFrames_NotYetImplemented,
             (Modes_size E 4)
               \<lparr>ellMax := 1,
                m_data := (m_data (Modes_size E 4))
                  [0 := m_data Psi ! 0 / complex_of_real (Mass_of (FourMomentum_of Psi)),
                   1 := m_data Psi ! 1 / complex_of_real (Mass_of (FourMomentum_of Psi)),
                   2 := m_data Psi ! 2 / complex_of_real (Mass_of (FourMomentum_of Psi)),
                   3 := m_data Psi ! 3 / complex_of_real (Mass_of (FourMomentum_of Psi))]\<rparr>,
             delta_ip1))"
proof (cases "SuperMomentum E S")
  case (Inl e')
  then show ?thesis
    by (simp add: SliceModes_MoreschiIteration_def Let_def)
next
  case (Inr Psi')
  then show ?thesis
    by (simp add: SliceModes_MoreschiIteration_def Let_def Mass_of_SuperMomentum)
qed

lemma SuperMomentum_spin_one_slice:
  "SuperMomentum E spin_one_slice = Inl GWFrames_BadWaveformInformation"
proof -
  obtain ssb where ssb: "Modes_times E (sigma spin_one_slice) (Modes_bar (sigmadot spin_one_slice)) = Inr ssb"
      and s1: "m_s ssb = 0"
    using Modes_times_defined [of "sigma spin_one_slice" "Modes_bar (sigmadot spin_one_slice)" E]
    by (auto simp add: spin_one_slice_def test_slice_def)
  have "Modes_plus (psi2 spin_one_slice) ssb = Inl GWFrames_BadWaveformInformation"
    using s1 by (simp add: Modes_plus_def spin_one_slice_def)
  then show ?thesis
    by (simp add: SuperMomentum_def bindE_def ssb)
qed

theorem SliceModes_MoreschiIteration_outputs_witness:
  "SliceModes_MoreschiIteration unit_externals spin_one_slice
       (\<lparr>m_s = 0, ellMax = 0, m_data = []\<rparr>, \<lparr>m_s = 0, ellMax = 0, m_data = []\<rparr>)
     = (GWFrames_BadWaveformInformation,
        \<lparr>m_s = 0, ellMax = 0, m_data = []\<rparr>, \<lparr>m_s = 0, ellMax = 0, m_data = []\<rparr>)
   \<and> fst (SliceModes_MoreschiIteration unit_externals test_slice
       (\<lparr>m_s = 0, ellMax = 0, m_data = []\<rparr>, \<lparr>m_s = 0, ellMax = 0, m_data = []\<rparr>))
     = GWFrames_NotYetImplemented
   \<and> ellMax (fst (snd (SliceModes_MoreschiIteration unit_externals test_slice
       (\<lparr>m_s = 0, ellMax = 0, m_data = []\<rparr>, \<lparr>m_s = 0, ellMax = 0, m_data = []\<rparr>)))) = 1
   \<and> snd (snd (SliceModes_MoreschiIteration unit_externals test_slice
       (\<lparr>m_s = 0, ellMax = 0, m_data = []\<rparr>, \<lparr>m_s = 0, ellMax = 0, m_data = []\<rparr>)))
     = \<lparr>m_s = 0, ellMax = 0, m_data = []\<rparr>"
proof -
  obtain Psi where Psi: "SuperMomentum unit_externals test_slice = Inr Psi"
    using SuperMomentum_defined [of test_slice unit_externals] by auto
  note a = SliceModes_MoreschiIteration_outputs
             [of unit_externals spin_one_slice "\<lparr>m_s = 0, ellMax = 0, m_data = []\<rparr>"
                 "\<lparr>m_s = 0, ellMax = 0, m_data = []\<rparr>" GWFrames_BadWaveformInformation]
  note b = SliceModes_MoreschiIteration_outputs
             [of unit_externals test_slice "\<lparr>m_s = 0, ellMax = 0, m_data = []\<rparr>"
                 "\<lparr>m_s = 0, ellMax = 0, m_data = []\<rparr>" _ Psi]
  show ?thesis
    using a b by (simp add: SuperMomentum_spin_one_slice Psi)
qed

text \<open>
  C4 as stated fails on the slice of zero fields of \<open>ellMax = 2\<close> with two empty fields as
  arguments: the not-yet-implemented error is raised and \<open>OneOverK_ip1\<close> is no
  longer the empty field it was at entry.
\<close>

theorem SliceModes_MoreschiIteration_overwrites_OneOverK:
  "fst (SliceModes_MoreschiIteration unit_externals test_slice
       (\<lparr>m_s = 0, ellMax = 0, m_data = []\<rparr>, \<lparr>m_s = 0, ellMax = 0, m_data = []\<rparr>))
     = GWFrames_NotYetImplemented
   \<and> fst (snd (SliceModes_MoreschiIteration unit_externals test_slice
       (\<lparr>m_s = 0, ellMax = 0, m_data = []\<rparr>, \<lparr>m_s = 0, ellMax = 0, m_data = []\<rparr>)))
     \<noteq> \<lparr>m_s = 0, ellMax = 0, m_data = []\<rparr>"
proof -
  obtain Psi where Psi: "SuperMomentum unit_externals test_slice = Inr Psi"
    using SuperMomentum_defined [of test_slice unit_externals] by auto
  show ?thesis
    by (simp add: SliceModes_MoreschiIteration_def Let_def Psi Mass_of_SuperMomentum
        unit_externals_fields)
qed

subsection \<open>The window of time slices\<close>

lemma iMax_loop_bounds: "0 \<le> k \<Longrightarrow> 0 \<le> iMax_loop t uMax k \<and> iMax_loop t uMax k \<le> k"
proof (induction t uMax k rule: iMax_loop.induct)
  case (1 t uMax iMax)
  show ?case
  proof (cases "t ! nat iMax > uMax \<and> iMax > 0")
    case True
    then have "0 \<le> iMax_loop t uMax (iMax - 1) \<and> iMax_loop t uMax (iMax - 1) \<le> iMax - 1"
      using "1.IH" by simp
    then show ?thesis using True by (subst (1 2) iMax_loop.simps) simp
  next
    case False
    then show ?thesis using "1.prems" by (subst (1 2) iMax_loop.simps) auto
  qed
qed

lemma iMax_loop_stop:
  "t ! 0 \<le> uMax \<Longrightarrow> 0 \<le> k \<Longrightarrow> t ! nat (iMax_loop t uMax k) \<le> uMax"
proof (induction t uMax k rule: iMax_loop.induct)
  case (1 t uMax iMax)
  show ?case
  proof (cases "t ! nat iMax > uMax \<and> iMax > 0")
    case True
    then have "t ! nat (iMax_loop t uMax (iMax - 1)) \<le> uMax"
      using "1.IH" "1.prems" by simp
    then show ?thesis using True by (subst iMax_loop.simps) simp
  next
    case False
    have "t ! nat iMax \<le> uMax"
    proof (cases "iMax > 0")
      case True
      with False show ?thesis by simp
    next
      case False
      with "1.prems" have "iMax = 0" by simp
      with "1.prems" show ?thesis by simp
    qed
    then show ?thesis using False by (subst iMax_loop.simps) auto
  qed
qed

lemma iMax_loop_above:
  "iMax_loop t uMax k < j \<Longrightarrow> j \<le> k \<Longrightarrow> uMax < t ! nat j"
proof (induction t uMax k rule: iMax_loop.induct)
  case (1 t uMax iMax)
  show ?case
  proof (cases "t ! nat iMax > uMax \<and> iMax > 0")
    case True
    then have eq: "iMax_loop t uMax iMax = iMax_loop t uMax (iMax - 1)"
      by (subst iMax_loop.simps) simp
    show ?thesis
    proof (cases "j = iMax")
      case True
      with \<open>t ! nat iMax > uMax \<and> iMax > 0\<close> show ?thesis by simp
    next
      case False
      with "1.prems" have "j \<le> iMax - 1" by simp
      with "1.IH" True "1.prems"(1) eq show ?thesis by simp
    qed
  next
    case False
    then have "iMax_loop t uMax iMax = iMax" by (subst iMax_loop.simps) auto
    with "1.prems" show ?thesis by simp
  qed
qed

lemma iMin_loop_bounds:
  "k \<le> int (length t) - 1 \<Longrightarrow> k \<le> iMin_loop t uMin k \<and> iMin_loop t uMin k \<le> int (length t) - 1"
proof (induction t uMin k rule: iMin_loop.induct)
  case (1 t uMin iMin)
  show ?case
  proof (cases "t ! nat iMin < uMin \<and> iMin < int (length t) - 1")
    case True
    then have "iMin + 1 \<le> iMin_loop t uMin (iMin + 1)
               \<and> iMin_loop t uMin (iMin + 1) \<le> int (length t) - 1"
      using "1.IH" by simp
    then show ?thesis using True by (subst (1 2) iMin_loop.simps) simp
  next
    case False
    then show ?thesis using "1.prems" by (subst (1 2) iMin_loop.simps) auto
  qed
qed

lemma iMin_loop_stop:
  "uMin \<le> t ! nat (int (length t) - 1) \<Longrightarrow> k \<le> int (length t) - 1 \<Longrightarrow>
   uMin \<le> t ! nat (iMin_loop t uMin k)"
proof (induction t uMin k rule: iMin_loop.induct)
  case (1 t uMin iMin)
  show ?case
  proof (cases "t ! nat iMin < uMin \<and> iMin < int (length t) - 1")
    case True
    then have "uMin \<le> t ! nat (iMin_loop t uMin (iMin + 1))"
      using "1.IH" "1.prems" by simp
    then show ?thesis using True by (subst iMin_loop.simps) simp
  next
    case False
    have "uMin \<le> t ! nat iMin"
    proof (cases "iMin < int (length t) - 1")
      case True
      with False show ?thesis by simp
    next
      case False
      with "1.prems" have "iMin = int (length t) - 1" by simp
      with "1.prems" show ?thesis by simp
    qed
    then show ?thesis using False by (subst iMin_loop.simps) auto
  qed
qed

lemma iMin_loop_below:
  "k \<le> j \<Longrightarrow> j < iMin_loop t uMin k \<Longrightarrow> t ! nat j < uMin"
proof (induction t uMin k rule: iMin_loop.induct)
  case (1 t uMin iMin)
  show ?case
  proof (cases "t ! nat iMin < uMin \<and> iMin < int (length t) - 1")
    case True
    then have eq: "iMin_loop t uMin iMin = iMin_loop t uMin (iMin + 1)"
      by (subst iMin_loop.simps) simp
    show ?thesis
    proof (cases "j = iMin")
      case True
      with \<open>t ! nat iMin < uMin \<and> iMin < int (length t) - 1\<close> show ?thesis by simp
    next
      case False
      with "1.prems" have "iMin + 1 \<le> j" by simp
      with "1.IH" True "1.prems"(2) eq show ?thesis by simp
    qed
  next
    case False
    then have "iMin_loop t uMin iMin = iMin" by (subst iMin_loop.simps) auto
    with "1.prems" show ?thesis by simp
  qed
qed

text \<open>
  C7, as the code has it. When the series is not empty and the range \<open>[uMin, uMax]\<close>
  passes the check, the two loops stop at \<open>a\<close>, the first index whose time is at least
  \<open>uMin\<close>, and at \<open>b\<close>, the last index whose time is at most \<open>uMax\<close>; the window is
  \<open>iMin = max(0, a-3)\<close> and \<open>iMax = min(NTimes-1, max(iMin+7, b+3))\<close>, a margin of 3
  on each side clipped to \<open>[0, NTimes-1]\<close>. It holds at least 8 slices when
  \<open>iMin + 7 \<le> NTimes - 1\<close>; otherwise the clip at the last slice cuts it short, and
  it ends at \<open>NTimes - 1\<close>.
\<close>

theorem time_window_margins:
  assumes "t \<noteq> []" and "t ! 0 \<le> uMin" and "uMin \<le> uMax" and "uMax \<le> last t"
  shows "\<exists>iMin iMax.
           time_window t uMin uMax = Inr (iMin, iMax)
         \<and> iMin = max 0 (iMin_loop t uMin 0 - 3)
         \<and> iMax = min (int (length t) - 1)
                       (max (iMin + 7) (iMax_loop t uMax (int (length t) - 1) + 3))
         \<and> uMin \<le> t ! nat (iMin_loop t uMin 0)
         \<and> (\<forall>j. 0 \<le> j \<and> j < iMin_loop t uMin 0 \<longrightarrow> t ! nat j < uMin)
         \<and> t ! nat (iMax_loop t uMax (int (length t) - 1)) \<le> uMax
         \<and> (\<forall>j. iMax_loop t uMax (int (length t) - 1) < j \<and> j \<le> int (length t) - 1
                \<longrightarrow> uMax < t ! nat j)
         \<and> 0 \<le> iMin \<and> iMin \<le> iMax \<and> iMax \<le> int (length t) - 1
         \<and> (iMin + 7 \<le> int (length t) - 1 \<longrightarrow> 8 \<le> iMax - iMin + 1)
         \<and> (int (length t) - 1 < iMin + 7 \<longrightarrow> iMax = int (length t) - 1)"
proof -
  let ?N = "int (length t)"
  let ?a = "iMin_loop t uMin 0"
  let ?b = "iMax_loop t uMax (?N - 1)"
  have N: "0 \<le> ?N - 1" using assms(1) by (cases t) simp_all
  have "nat (?N - 1) = length t - Suc 0" by arith
  then have last: "last t = t ! nat (?N - 1)"
    using assms(1) by (simp add: last_conv_nth)
  have tw: "time_window t uMin uMax
              = Inr (max 0 (?a - 3), min (?N - 1) (max (max 0 (?a - 3) + 7) (?b + 3)))"
    using assms by (simp add: time_window_def Let_def)
  have a: "0 \<le> ?a \<and> ?a \<le> ?N - 1" using iMin_loop_bounds [OF N] .
  have b: "0 \<le> ?b \<and> ?b \<le> ?N - 1" using iMax_loop_bounds [OF N] .
  have a1: "uMin \<le> t ! nat ?a"
    using iMin_loop_stop [of uMin t 0] assms last N by simp
  have a2: "\<forall>j. 0 \<le> j \<and> j < ?a \<longrightarrow> t ! nat j < uMin"
    using iMin_loop_below by blast
  have b1: "t ! nat ?b \<le> uMax"
    using iMax_loop_stop [of t uMax "?N - 1"] assms N by simp
  have b2: "\<forall>j. ?b < j \<and> j \<le> ?N - 1 \<longrightarrow> uMax < t ! nat j"
    using iMax_loop_above by blast
  let ?iMin = "max 0 (?a - 3)"
  let ?iMax = "min (?N - 1) (max (?iMin + 7) (?b + 3))"
  have c1: "0 \<le> ?iMin" by simp
  have c2: "?iMin \<le> ?iMax" using a N by linarith
  have c3: "?iMax \<le> ?N - 1" by simp
  have c4: "?iMin + 7 \<le> ?N - 1 \<longrightarrow> 8 \<le> ?iMax - ?iMin + 1" by linarith
  have c5: "?N - 1 < ?iMin + 7 \<longrightarrow> ?iMax = ?N - 1" by linarith
  from tw a1 a2 b1 b2 c1 c2 c3 c4 c5 show ?thesis by blast
qed

theorem time_window_margins_witness:
  "[0, 1, 2, 3, 4, 5, 6, 7, 8, 9] \<noteq> ([] :: real list)
   \<and> [0, 1, 2, 3, 4, 5, 6, 7, 8, 9] ! 0 \<le> (4::real) \<and> (4::real) \<le> 5
   \<and> (5::real) \<le> last [0, 1, 2, 3, 4, 5, 6, 7, 8, 9]
   \<and> time_window [0, 1, 2, 3, 4, 5, 6, 7, 8, 9] 4 5 = Inr (1, 8)
   \<and> (\<exists>iMin iMax. time_window [0, 1, 2, 3, 4, 5, 6, 7, 8, 9] 4 5 = Inr (iMin, iMax)
         \<and> 0 \<le> iMin \<and> iMin \<le> iMax \<and> iMax \<le> 9)"
proof -
  let ?t = "[0, 1, 2, 3, 4, 5, 6, 7, 8, 9] :: real list"
  have h1: "?t \<noteq> []" by simp
  have h2: "?t ! 0 \<le> 4" by simp
  have h3: "(4::real) \<le> 5" by simp
  have h4: "5 \<le> last ?t" by simp
  have e: "time_window ?t 4 5 = Inr (1, 8)"
    by (simp add: time_window_def Let_def iMin_loop.simps iMax_loop.simps)
  from time_window_margins [OF h1 h2 h3 h4]
  obtain iMin iMax where "time_window ?t 4 5 = Inr (iMin, iMax)"
    and "0 \<le> iMin" and "iMin \<le> iMax" and "iMax \<le> int (length ?t) - 1"
    by blast
  then have "\<exists>iMin iMax. time_window ?t 4 5 = Inr (iMin, iMax)
         \<and> 0 \<le> iMin \<and> iMin \<le> iMax \<and> iMax \<le> 9"
    by auto
  with h1 h2 h3 h4 e show ?thesis by blast
qed

text \<open>
  C7 as stated fails at the end of a series of ten slices: for \<open>uMin = uMax = 9\<close>, the
  last time, the check passes and the window is \<open>[6, 9]\<close>, four slices and not seven.
\<close>

theorem time_window_end_of_series:
  "\<not> ((9::real) < [0, 1, 2, 3, 4, 5, 6, 7, 8, 9] ! 0
        \<or> (9::real) > last [0, 1, 2, 3, 4, 5, 6, 7, 8, 9])
   \<and> time_window [0, 1, 2, 3, 4, 5, 6, 7, 8, 9] 9 9 = Inr (6, 9)
   \<and> \<not> (7 \<le> (9::int) - 6 + 1)"
  by (simp add: time_window_def Let_def iMin_loop.simps iMax_loop.simps)

subsection \<open>The Moreschi step of the series\<close>

lemma unit_externals_kernels:
  "salm2map unit_externals = (\<lambda>alm s Ntheta Nphi lmax i. 1)"
  "map2salm unit_externals = (\<lambda>f s Ntheta Nphi lmax i. 1)"
  "SWSH unit_externals = (\<lambda>s R ell m. 1)"
  "spline_eval unit_externals = (\<lambda>x y u. 0)"
  by (simp_all add: unit_externals_def)

lemma bindE_simps [simp]: "bindE (Inl e) f = Inl e" "bindE (Inr x) f = f x"
  by (simp_all add: bindE_def)

lemma sqrt_9: "sqrt 9 = 3"
  by (rule real_sqrt_unique) simp_all

lemma sequenceE_Inr: "sequenceE (map (\<lambda>x. Inr (f x)) xs) = Inr (map f xs)"
  by (induction xs) simp_all

lemma Boost_zero_velocity:
  "Boost exact_arith (vminus [0, 0, 0]) n = Inr (Quaternion 1 0 0 0)"
  by (simp add: Boost_def vminus_def Let_def norm3_exact)

lemma DataGrid_boosted_zero_velocity:
  "arith E = exact_arith \<Longrightarrow>
   \<exists>D. DataGrid_boosted E M [0, 0, 0] a b
         = Inr \<lparr>g_s = m_s M, n_theta = max a (2 * ellMax M + 1),
                n_phi = max b (2 * ellMax M + 1), g_data = D\<rparr>"
  by (simp add: DataGrid_boosted_def boosted_rotor_def Boost_zero_velocity bindE_def Let_def
      sequenceE_Inr)

lemma Modes_of_DataGrid_unit:
  "Modes_of_DataGrid unit_externals D L
     = \<lparr>m_s = g_s D,
        ellMax = max (min ((n_theta D - 1) sdiv 2) ((n_phi D - 1) sdiv 2)) L,
        m_data = replicate
                   (nat (N_lm (max (min ((n_theta D - 1) sdiv 2) ((n_phi D - 1) sdiv 2)) L))) 1\<rparr>"
  by (simp add: Modes_of_DataGrid_def Let_def unit_externals_kernels map_replicate_const)

lemma interpolate_dims [simp]:
  "n_theta (interpolate E u x tr N G) = n_theta G"
  "n_phi (interpolate E u x tr N G) = n_phi G"
  "g_s (interpolate E u x tr N G) = g_s G"
  by (simp_all add: interpolate_def)

lemma vFromOneOverK_test: "vFromOneOverK test_OneOverK = [0, 0, 0]"
  by (simp add: vFromOneOverK_def test_OneOverK_def Let_def)

lemma u_range_test:
  "u_range (DataGrid_of_Modes unit_externals test_delta 3 3) (3 * 3) = (1, 1)"
  by (simp add: u_range_def DataGrid_of_Modes_def test_delta_def Let_def unit_externals_kernels
      upt_rec)

lemma time_window_test: "time_window [0, 1, 2] 1 1 = Inr (0, 2)"
  by (simp add: time_window_def Let_def iMin_loop.simps iMax_loop.simps)

lemma Modes_minus_defined:
  "m_s A = m_s B \<Longrightarrow> length (m_data B) \<le> length (m_data A) \<Longrightarrow>
   \<exists>C. Modes_minus E A B = Inr C \<and> m_s C = m_s A \<and> ellMax C = ellMax A"
  by (simp add: Modes_minus_def)

lemma length_Modes_edth2edthbar2 [simp]:
  "length (m_data (Modes_edth2edthbar2 A)) = length (m_data A)"
  by (simp add: Modes_edth2edthbar2_def length_scale_modes)

lemma slice_test:
  "\<exists>D. bindE (Modes_minus unit_externals \<lparr>m_s = 0, ellMax = 1, m_data = [0, 0, 0, 0]\<rparr>
                     (Modes_edth2edthbar2 test_delta)) (\<lambda>A.
        bindE (Modes_pow unit_externals test_OneOverK 3) (\<lambda>K3.
        bindE (Modes_times unit_externals A K3) (\<lambda>B.
        DataGrid_boosted unit_externals B [0, 0, 0] 3 3)))
      = Inr \<lparr>g_s = 0, n_theta = 3, n_phi = 3, g_data = D\<rparr>"
proof -
  let ?P = "\<lparr>m_s = 0, ellMax = 1, m_data = [0, 0, 0, 0::complex]\<rparr>"
  have "m_s ?P = m_s (Modes_edth2edthbar2 test_delta)"
    and "length (m_data (Modes_edth2edthbar2 test_delta)) \<le> length (m_data ?P)"
    by (simp_all add: test_delta_def)
  then obtain A where A: "Modes_minus unit_externals ?P (Modes_edth2edthbar2 test_delta) = Inr A"
    and A1: "m_s A = 0" and A2: "ellMax A = 1"
    using Modes_minus_defined [of ?P "Modes_edth2edthbar2 test_delta" unit_externals] by auto
  have K3: "Modes_pow unit_externals test_OneOverK 3 = Inr \<lparr>m_s = 0, ellMax = 0, m_data = [1]\<rparr>"
    by (simp add: unit_externals_fields test_OneOverK_def)
  obtain B where B: "Modes_times unit_externals A \<lparr>m_s = 0, ellMax = 0, m_data = [1]\<rparr> = Inr B"
    and B1: "m_s B = 0" and B2: "ellMax B = 1"
    using Modes_times_defined [of A "\<lparr>m_s = 0, ellMax = 0, m_data = [1]\<rparr>" unit_externals] A1 A2
    by auto
  obtain D where "DataGrid_boosted unit_externals B [0, 0, 0] 3 3
         = Inr \<lparr>g_s = 0, n_theta = 3, n_phi = 3, g_data = D\<rparr>"
    using DataGrid_boosted_zero_velocity [of unit_externals B 3 3] B1 B2
    by (auto simp add: unit_externals_fields)
  then show ?thesis by (simp add: bindE_def A K3 B)
qed

lemma BMSTransform_test:
  "SuperMomenta_BMSTransform unit_externals test_momenta test_OneOverK test_delta
     = Inr \<lparr>m_s = 0, ellMax = 1, m_data = [1, 1, 1, 1]\<rparr>"
proof -
  let ?P = "\<lparr>m_s = 0, ellMax = 1, m_data = [0, 0, 0, 0::complex]\<rparr>"
  obtain D where D: "bindE (Modes_minus unit_externals ?P
                     (Modes_edth2edthbar2 test_delta)) (\<lambda>A.
        bindE (Modes_pow unit_externals test_OneOverK 3) (\<lambda>K3.
        bindE (Modes_times unit_externals A K3) (\<lambda>B.
        DataGrid_boosted unit_externals B [0, 0, 0] 3 3)))
      = Inr \<lparr>g_s = 0, n_theta = 3, n_phi = 3, g_data = D\<rparr>"
    using slice_test by blast
  let ?G = "\<lparr>g_s = 0, n_theta = 3, n_phi = 3, g_data = D\<rparr>"
  have upto: "[0..2::int] = [0, 1, 2]" by (simp add: upto_rec1)
  have nt: "2 * ellMax (sm_Psi test_momenta ! 0) + 1 = 3" by (simp add: test_momenta_def)
  have t: "sm_t test_momenta = [0, 1, 2]" by (simp add: test_momenta_def)
  have psi: "sm_Psi test_momenta ! nat i = ?P" if "i \<in> set [0..2]" for i :: int
    using that by (auto simp add: test_momenta_def upto nth_Cons')
  have slices:
    "map (\<lambda>i. bindE (Modes_minus unit_externals (sm_Psi test_momenta ! nat i)
                         (Modes_edth2edthbar2 test_delta)) (\<lambda>A.
               bindE (Modes_pow unit_externals test_OneOverK 3) (\<lambda>K3.
               bindE (Modes_times unit_externals A K3) (\<lambda>B.
               DataGrid_boosted unit_externals B [0, 0, 0] 3 3)))) [0..2]
       = map (\<lambda>i. Inr ?G) [0..2]"
    by (rule map_cong) (simp_all only: psi D)
  show ?thesis
    unfolding SuperMomenta_BMSTransform_def
    apply (simp only: Let_def nt t vFromOneOverK_test u_range_test prod.case time_window_test
        bindE_simps slices sequenceE_Inr)
    apply (simp add: upto Modes_of_DataGrid_unit unit_externals_fields sqrt_9 sdiv_nonneg_2
        N_lm_def eval_nat_numeral)
    done
qed

text \<open>
  C1, as the code has it: when \<open>BMSTransform\<close> returns \<open>Psi_i\<close>, the step returns and
  \<open>OneOverK\<close> has at least four coefficients, then after the call
  \<open>1/K[0] = Psi_i[0]/M\<close> and, for the three components of degree 1,
  \<open>1/K[i] = -Psi_i[i]/(3*M)\<close>: the sign is flipped and the coefficient is divided by
  three times the mass \<open>M\<close> read off \<open>Psi_i\<close>.
\<close>

theorem SuperMomenta_MoreschiIteration_OneOverK:
  assumes "SuperMomenta_BMSTransform E SM OneOverK delta = Inr Psi_i"
    and "SuperMomenta_MoreschiIteration E SM (OneOverK, delta) = (Inr (), OneOverK', delta')"
    and "4 \<le> length (m_data OneOverK)"
  shows "m_data OneOverK' ! 0
           = m_data Psi_i ! 0 / complex_of_real (Mass_of (FourMomentum_of Psi_i))
       \<and> m_data OneOverK' ! 1
           = - m_data Psi_i ! 1 / complex_of_real (3 * Mass_of (FourMomentum_of Psi_i))
       \<and> m_data OneOverK' ! 2
           = - m_data Psi_i ! 2 / complex_of_real (3 * Mass_of (FourMomentum_of Psi_i))
       \<and> m_data OneOverK' ! 3
           = - m_data Psi_i ! 3 / complex_of_real (3 * Mass_of (FourMomentum_of Psi_i))"
proof -
  let ?M = "Mass_of (FourMomentum_of Psi_i)"
  let ?K = "(m_data OneOverK)
              [0 := m_data Psi_i ! 0 / complex_of_real ?M,
               1 := - m_data Psi_i ! 1 / complex_of_real (3 * ?M),
               2 := - m_data Psi_i ! 2 / complex_of_real (3 * ?M),
               3 := - m_data Psi_i ! 3 / complex_of_real (3 * ?M)]"
  have "OneOverK' = OneOverK\<lparr>m_data := ?K\<rparr>"
    using assms(2)
    by (simp add: SuperMomenta_MoreschiIteration_def assms(1) Let_def split: sum.splits)
  then have K: "m_data OneOverK' = ?K" by simp
  have len: "0 < length (m_data OneOverK)" "1 < length (m_data OneOverK)"
    "2 < length (m_data OneOverK)" "3 < length (m_data OneOverK)"
    using assms(3) by arith+
  show ?thesis unfolding K using len by (simp add: nth_list_update)
qed

lemma Mass_test:
  "Mass_of (FourMomentum_of \<lparr>m_s = 0, ellMax = 1, m_data = [1, 1, 1, 1]\<rparr>) = sqrt (1 / (6 * pi))"
proof -
  have "Mass_of (FourMomentum_of \<lparr>m_s = 0, ellMax = 1, m_data = [1, 1, 1, 1]\<rparr>)
          = sqrt (1 / sqrt4pi * (1 / sqrt4pi) - 1 / (sqrt3 * sqrt4pi) * (1 / (sqrt3 * sqrt4pi)))"
    by (simp add: Mass_of_def FourMomentum_of_def Let_def complexi_def)
  also have "1 / sqrt4pi * (1 / sqrt4pi) = 1 / (4 * pi)"
    by (simp add: sqrt4pi_def)
  also have "1 / (sqrt3 * sqrt4pi) * (1 / (sqrt3 * sqrt4pi)) = 1 / (12 * pi)"
    by (simp add: sqrt4pi_def sqrt3_def algebra_simps)
  also have "1 / (4 * pi) - 1 / (12 * pi) = 1 / (6 * pi)"
    by (simp add: field_simps)
  finally show ?thesis .
qed

lemma MoreschiIteration_test:
  "SuperMomenta_MoreschiIteration unit_externals test_momenta (test_OneOverK, test_delta)
     = (Inr (),
        test_OneOverK
          \<lparr>m_data := [1 / complex_of_real (sqrt (1 / (6 * pi))),
                      - 1 / complex_of_real (3 * sqrt (1 / (6 * pi))),
                      - 1 / complex_of_real (3 * sqrt (1 / (6 * pi))),
                      - 1 / complex_of_real (3 * sqrt (1 / (6 * pi)))]\<rparr>,
        test_delta)"
proof -
  let ?Psi = "\<lparr>m_s = 0, ellMax = 1, m_data = [1, 1, 1, 1::complex]\<rparr>"
  let ?D = "Modes_of_DataGrid unit_externals
              (double_divide_DataGrid (Mass_of (FourMomentum_of ?Psi))
                 (DataGrid_pow (DataGrid_of_Modes unit_externals test_OneOverK 7 7) 3))
              (default_L unit_externals)"
  have "m_s ?Psi = m_s ?D"
    by (simp add: Modes_of_DataGrid_unit double_divide_DataGrid_def DataGrid_pow_def
        DataGrid_of_Modes_dims test_OneOverK_def)
  then obtain dd where dd: "Modes_plus ?Psi ?D = Inr dd"
    using Modes_plus_defined [of ?Psi ?D] by blast
  have nil: "lm_list_from 2 (ellMax test_delta) = []"
    by (simp add: lm_list_from_def test_delta_def)
  have d: "test_delta\<lparr>m_data := m_data test_delta\<rparr> = test_delta" by simp
  show ?thesis
    unfolding SuperMomenta_MoreschiIteration_def
    apply (simp only: fst_conv snd_conv BMSTransform_test sum.case Let_def dd nil)
    apply (simp add: Mass_test enumerate_simps d)
    apply (simp add: test_OneOverK_def)
    done
qed

theorem SuperMomenta_MoreschiIteration_OneOverK_witness:
  "SuperMomenta_BMSTransform unit_externals test_momenta test_OneOverK test_delta
     = Inr \<lparr>m_s = 0, ellMax = 1, m_data = [1, 1, 1, 1]\<rparr>
   \<and> 4 \<le> length (m_data test_OneOverK)
   \<and> m_data (fst (snd (SuperMomenta_MoreschiIteration unit_externals test_momenta
                         (test_OneOverK, test_delta)))) ! 1
       = - 1 / complex_of_real (3 * sqrt (1 / (6 * pi)))"
proof -
  have h3: "4 \<le> length (m_data test_OneOverK)" by (simp add: test_OneOverK_def)
  note w = SuperMomenta_MoreschiIteration_OneOverK [OF BMSTransform_test MoreschiIteration_test h3]
  show ?thesis
    using w h3 by (simp add: BMSTransform_test MoreschiIteration_test Mass_test)
qed

text \<open>
  C1 as stated fails on the test series: \<open>BMSTransform\<close> returns the supermomentum
  \<open>(1, 1, 1, 1)\<close>, of mass \<open>M = sqrt(1/(6 pi))\<close>, the step returns, and \<open>1/K[1]\<close> is
  \<open>-1/(3 M)\<close>, which is not \<open>-Psi_i[1]/M\<close>.
\<close>

theorem SuperMomenta_MoreschiIteration_divides_by_3M:
  "SuperMomenta_BMSTransform unit_externals test_momenta test_OneOverK test_delta
     = Inr \<lparr>m_s = 0, ellMax = 1, m_data = [1, 1, 1, 1]\<rparr>
   \<and> fst (SuperMomenta_MoreschiIteration unit_externals test_momenta
            (test_OneOverK, test_delta)) = Inr ()
   \<and> m_data (fst (snd (SuperMomenta_MoreschiIteration unit_externals test_momenta
                         (test_OneOverK, test_delta)))) ! 1
       \<noteq> - (m_data \<lparr>m_s = 0, ellMax = 1, m_data = [1, 1, 1, 1]\<rparr> ! 1)
           / complex_of_real (Mass_of (FourMomentum_of
                                \<lparr>m_s = 0, ellMax = 1, m_data = [1, 1, 1, 1]\<rparr>))"
proof -
  have pos: "0 < sqrt (1 / (6 * pi))" by simp
  have "- 1 / complex_of_real (3 * sqrt (1 / (6 * pi)))
          \<noteq> - 1 / complex_of_real (sqrt (1 / (6 * pi)))"
  proof
    assume "- 1 / complex_of_real (3 * sqrt (1 / (6 * pi)))
              = - 1 / complex_of_real (sqrt (1 / (6 * pi)))"
    then have "complex_of_real (- 1 / (3 * sqrt (1 / (6 * pi))))
                 = complex_of_real (- 1 / sqrt (1 / (6 * pi)))"
      by (simp only: of_real_divide of_real_minus of_real_1)
    then have "- 1 / (3 * sqrt (1 / (6 * pi))) = - 1 / sqrt (1 / (6 * pi))"
      by (simp only: of_real_eq_iff)
    with pos show False by (simp add: field_simps)
  qed
  then show ?thesis
    by (simp add: BMSTransform_test MoreschiIteration_test Mass_test)
qed

subsection \<open>The transformation of one slice\<close>

lemma length_grid_points: "length (grid_points a b) = nat a * nat b"
proof -
  have "length (grid_points a b)
          = sum_list (map (\<lambda>i_theta. length (map (\<lambda>i_phi. (i_theta, i_phi)) [0..b - 1])) [0..a - 1])"
    by (simp add: grid_points_def length_concat comp_def)
  also have "\<dots> = sum_list (map (\<lambda>i_theta. nat b) [0..a - 1])"
    by simp
  also have "\<dots> = nat a * nat b"
    by (simp add: sum_list_triv)
  finally show ?thesis .
qed

lemma length_fill_grid:
  "0 \<le> a \<Longrightarrow> 0 \<le> b \<Longrightarrow> length D = nat a * nat b \<Longrightarrow> length (fill (b * a) D) = nat (a * b)"
  by (simp add: fill_def nat_mult_distrib mult.commute)

lemma sequenceE_defined:
  "(\<And>r. r \<in> set rs \<Longrightarrow> \<exists>x. r = Inr x) \<Longrightarrow> \<exists>xs. sequenceE rs = Inr xs \<and> length xs = length rs"
proof (induction rs)
  case Nil
  then show ?case by simp
next
  case (Cons r rs)
  then obtain x where "r = Inr x" by auto
  moreover obtain xs where "sequenceE rs = Inr xs" and "length xs = length rs"
    using Cons by auto
  ultimately show ?case by simp
qed

lemma rotated_zHat_unit:
  "vec (qtimes (qtimes (Quaternion_of_angles th ph) zHat) (conjugate (Quaternion_of_angles th ph)))
     = [n0, n1, n2] \<Longrightarrow> n0 * n0 + n1 * n1 + n2 * n2 = 1"
proof -
  assume a: "vec (qtimes (qtimes (Quaternion_of_angles th ph) zHat)
                     (conjugate (Quaternion_of_angles th ph))) = [n0, n1, n2]"
  define w where "w = cos (th / 2) * cos (ph / 2)"
  define x where "x = - sin (th / 2) * sin (ph / 2)"
  define y where "y = sin (th / 2) * cos (ph / 2)"
  define z where "z = cos (th / 2) * sin (ph / 2)"
  have R: "Quaternion_of_angles th ph = Quaternion w x y z"
    by (simp add: w_def x_def y_def z_def)
  have n: "n0 = 2 * (x * z + w * y)" "n1 = 2 * (y * z - w * x)" "n2 = w * w - x * x - y * y + z * z"
    using a unfolding R zHat_def by (simp_all add: algebra_simps)
  have alg: "c * c' * (c * c') + (- s * s') * (- s * s') + s * c' * (s * c') + c * s' * (c * s')
               = (c * c + s * s) * (c' * c' + s' * s')" for c s c' s' :: real
    by (simp add: algebra_simps)
  have unit: "w * w + x * x + y * y + z * z = 1"
    unfolding w_def x_def y_def z_def alg by (simp only: sin_cos_squared_add3 mult_1)
  have "n0 * n0 + n1 * n1 + n2 * n2 = (w * w + x * x + y * y + z * z) * (w * w + x * x + y * y + z * z)"
    unfolding n by (simp add: algebra_simps)
  then show ?thesis by (simp add: unit)
qed

text \<open>
  In exact arithmetic \<open>Boost\<close> raises no error on the unit vectors of the grid, whatever
  the velocity.
\<close>

lemma Boost_defined:
  "n ! 0 * n ! 0 + n ! 1 * n ! 1 + n ! 2 * n ! 2 = 1 \<Longrightarrow> \<exists>R. Boost exact_arith v n = Inr R"
  by (simp add: Boost_def Let_def norm3_exact)

lemma boosted_rotor_defined:
  assumes "arith E = exact_arith"
  shows "\<exists>R. boosted_rotor E v nt np p = Inr R"
proof -
  let ?Rp = "Quaternion_of_angles (pi / real_of_int (nt - 1) * real_of_int (fst p))
                                  (2 * pi / real_of_int np * real_of_int (snd p))"
  let ?n = "vec (qtimes (qtimes ?Rp zHat) (conjugate ?Rp))"
  obtain n0 n1 n2 where n: "?n = [n0, n1, n2]"
    by (cases "qtimes (qtimes ?Rp zHat) (conjugate ?Rp)") simp
  have "n0 * n0 + n1 * n1 + n2 * n2 = 1"
    using n by (rule rotated_zHat_unit)
  then have "?n ! 0 * ?n ! 0 + ?n ! 1 * ?n ! 1 + ?n ! 2 * ?n ! 2 = 1"
    unfolding n by simp
  then obtain R where "Boost exact_arith (vminus v) ?n = Inr R"
    using Boost_defined by blast
  then show ?thesis by (simp add: boosted_rotor_def Let_def assms)
qed

lemma DataGrid_boosted_defined:
  assumes "0 \<le> max a (2 * ellMax M + 1)" and "0 \<le> max b (2 * ellMax M + 1)"
    and rotors: "\<And>p. p \<in> set (grid_points (max a (2 * ellMax M + 1)) (max b (2 * ellMax M + 1)))
                  \<Longrightarrow> \<exists>R. boosted_rotor E v (max a (2 * ellMax M + 1))
                                             (max b (2 * ellMax M + 1)) p = Inr R"
  shows "\<exists>G. DataGrid_boosted E M v a b = Inr G \<and> g_s G = m_s M
           \<and> n_theta G = max a (2 * ellMax M + 1) \<and> n_phi G = max b (2 * ellMax M + 1)
           \<and> length (g_data G) = nat (max a (2 * ellMax M + 1) * max b (2 * ellMax M + 1))"
proof -
  let ?nt = "max a (2 * ellMax M + 1)"
  let ?np = "max b (2 * ellMax M + 1)"
  let ?rs = "map (\<lambda>p. bindE (boosted_rotor E v ?nt ?np p) (\<lambda>R. Inr (EvaluateAtPoint E M R)))
                 (grid_points ?nt ?np)"
  have "\<exists>x. r = Inr x" if "r \<in> set ?rs" for r
  proof -
    from that obtain p where p: "p \<in> set (grid_points ?nt ?np)"
      and "r = bindE (boosted_rotor E v ?nt ?np p) (\<lambda>R. Inr (EvaluateAtPoint E M R))"
      by auto
    moreover obtain R where "boosted_rotor E v ?nt ?np p = Inr R"
      using rotors [OF p] by blast
    ultimately show ?thesis by simp
  qed
  then obtain D where D: "sequenceE ?rs = Inr D" and len: "length D = length ?rs"
    using sequenceE_defined [of ?rs] by blast
  have "length D = nat ?nt * nat ?np" using len by (simp add: length_grid_points)
  then have "length (fill (?np * ?nt) D) = nat (?nt * ?np)"
    using assms(1,2) by (rule length_fill_grid [rotated 2])
  then show ?thesis
    by (simp add: DataGrid_boosted_def Let_def D)
qed

lemma DataGrid_functor_defined:
  assumes "0 \<le> a" and "0 \<le> b"
    and rotors: "\<And>p. p \<in> set (grid_points a b) \<Longrightarrow> \<exists>R. boosted_rotor E v a b p = Inr R"
  shows "\<exists>G. DataGrid_functor E s a b v f = Inr G \<and> g_s G = s \<and> n_theta G = a \<and> n_phi G = b
           \<and> length (g_data G) = nat (a * b)"
proof -
  let ?rs = "map (\<lambda>p. bindE (boosted_rotor E v a b p) (\<lambda>R. Inr (complex_of_real (f R))))
                 (grid_points a b)"
  have "\<exists>x. r = Inr x" if "r \<in> set ?rs" for r
  proof -
    from that obtain p where p: "p \<in> set (grid_points a b)"
      and "r = bindE (boosted_rotor E v a b p) (\<lambda>R. Inr (complex_of_real (f R)))"
      by auto
    moreover obtain R where "boosted_rotor E v a b p = Inr R"
      using rotors [OF p] by blast
    ultimately show ?thesis by simp
  qed
  then obtain D where D: "sequenceE ?rs = Inr D" and len: "length D = length ?rs"
    using sequenceE_defined [of ?rs] by blast
  have "length D = nat a * nat b" using len by (simp add: length_grid_points)
  then have "length (fill (b * a) D) = nat (a * b)"
    using assms(1,2) by (rule length_fill_grid [rotated 2])
  then show ?thesis
    by (simp add: DataGrid_functor_def D)
qed

lemma InverseConformalFactorGrid_defined:
  assumes "0 \<le> a" and "0 \<le> b"
  shows "\<exists>G. InverseConformalFactorGrid v a b = Inr G \<and> g_s G = 0 \<and> n_theta G = a \<and> n_phi G = b
           \<and> length (g_data G) = nat (a * b)"
proof -
  have "length (fill (a * b) D) = nat (a * b)" if "length D = nat a * nat b" for D :: "complex list"
    using length_fill_grid [of b a D] assms that by (simp add: mult.commute)
  then show ?thesis
    using assms
    by (simp add: InverseConformalFactorGrid_def Let_def DataGrid_of_data_def length_grid_points
        nat_mult_distrib)
qed

lemma DataGrid_times_pointwise:
  assumes "n_theta B = n \<and> n_phi B = n \<and> length (g_data B) = N"
    and "n_theta A = n \<and> n_phi A = n \<and> length (g_data A) = N"
  shows "\<exists>C. DataGrid_times B A = Inr C
           \<and> (n_theta C = n \<and> n_phi C = n \<and> length (g_data C) = N)
           \<and> (\<forall>i<N. g_data C ! i = g_data B ! i * g_data A ! i)"
  using assms by (simp add: DataGrid_times_def pointwise_def)

lemma DataGrid_divide_pointwise:
  assumes "n_theta B = n \<and> n_phi B = n \<and> length (g_data B) = N"
    and "n_theta A = n \<and> n_phi A = n \<and> length (g_data A) = N"
  shows "\<exists>C. DataGrid_divide B A = Inr C
           \<and> (n_theta C = n \<and> n_phi C = n \<and> length (g_data C) = N)
           \<and> (\<forall>i<N. g_data C ! i = g_data B ! i / g_data A ! i)"
  using assms by (simp add: DataGrid_divide_def pointwise_def)

lemma DataGrid_minus_pointwise:
  assumes "n_theta B = n \<and> n_phi B = n \<and> length (g_data B) = N"
    and "n_theta A = n \<and> n_phi A = n \<and> length (g_data A) = N"
  shows "\<exists>C. DataGrid_minus B A = Inr C
           \<and> (n_theta C = n \<and> n_phi C = n \<and> length (g_data C) = N)
           \<and> (\<forall>i<N. g_data C ! i = g_data B ! i - g_data A ! i)"
  using assms by (simp add: DataGrid_minus_def pointwise_def)

lemma for_first_all: "nat N = length c \<Longrightarrow> for_first N f c = map f c"
  by (simp add: for_first_def)

lemma double_times_DataGrid_pointwise:
  assumes "n_theta b = n \<and> n_phi b = n \<and> length (g_data b) = nat (n * n)"
  shows "(n_theta (double_times_DataGrid a b) = n \<and> n_phi (double_times_DataGrid a b) = n
            \<and> length (g_data (double_times_DataGrid a b)) = nat (n * n))
       \<and> (\<forall>i<nat (n * n). g_data (double_times_DataGrid a b) ! i
                              = complex_of_real a * g_data b ! i)"
  using assms by (simp add: double_times_DataGrid_def for_first_all)

lemma double_minus_DataGrid_dims:
  assumes "n_theta b = n \<and> n_phi b = n \<and> length (g_data b) = nat (n * n)"
  shows "n_theta (double_minus_DataGrid a b) = n \<and> n_phi (double_minus_DataGrid a b) = n
            \<and> length (g_data (double_minus_DataGrid a b)) = nat (n * n)"
  using assms by (simp add: double_minus_DataGrid_def for_first_all)

lemma DataGrid_pow_pointwise:
  assumes "n_theta c = n \<and> n_phi c = n \<and> length (g_data c) = nat (n * n)"
  shows "(n_theta (DataGrid_pow c (int k)) = n \<and> n_phi (DataGrid_pow c (int k)) = n
            \<and> length (g_data (DataGrid_pow c (int k))) = nat (n * n))
       \<and> (\<forall>i<nat (n * n). g_data (DataGrid_pow c (int k)) ! i = g_data c ! i ^ k)"
  using assms by (simp add: DataGrid_pow_def for_first_all)

lemma DataGrid_boosted_square:
  assumes "0 \<le> L" and "ellMax M \<le> L" and "n = 2 * L + 1"
    and rotors: "\<And>p. p \<in> set (grid_points n n) \<Longrightarrow> \<exists>R. boosted_rotor E v n n p = Inr R"
  shows "\<exists>G. DataGrid_boosted E M v n n = Inr G
           \<and> (n_theta G = n \<and> n_phi G = n \<and> length (g_data G) = nat (n * n))"
proof -
  have m: "max n (2 * ellMax M + 1) = n" using assms(1-3) by simp
  have "0 \<le> max n (2 * ellMax M + 1)" using assms(1-3) by simp
  from DataGrid_boosted_defined [of n M n E v, OF this this] rotors show ?thesis
    unfolding m by blast
qed

lemma SliceModes_EllMax_bounds:
  "ellMax (psi0 S) \<le> SliceModes_EllMax S" "ellMax (psi1 S) \<le> SliceModes_EllMax S"
  "ellMax (psi2 S) \<le> SliceModes_EllMax S" "ellMax (psi3 S) \<le> SliceModes_EllMax S"
  "ellMax (psi4 S) \<le> SliceModes_EllMax S" "ellMax (sigma S) \<le> SliceModes_EllMax S"
  "ellMax (sigmadot S) \<le> SliceModes_EllMax S"
  by (simp_all add: SliceModes_EllMax_def le_max_iff_disj)

text \<open>
  C8, as the code has it: on a slice of \<open>EllMax()\<close> at least 1, with a supertranslation
  of no higher degree than \<open>EllMax()\<close> (and a default minimum degree of \<open>Modes(D)\<close> no
  higher either), a velocity below 1, and \<open>Boost\<close> raising its error at no point of the
  grid, \<open>BMSTransformationOnSlice\<close> returns seven grids of \<open>n x n\<close> points,
  \<open>n = 2*EllMax()+1\<close>. With \<open>Kinv\<close> the boosted grid of \<open>1/K\<close>, \<open>P0..P4\<close>, \<open>Sg\<close>,
  \<open>Sd\<close> the boosted grids of the five scalars, the shear and its rate, \<open>DD\<close> the
  boosted grid of \<open>edth(edth(delta))\<close> and \<open>Eg\<close> the grid of \<open>edth(u')/K\<close> (the boosted
  grid of \<open>edth(u')\<close> times \<open>Kinv\<close>, with \<open>u' = (u - delta)/(1/K)\<close> on the unboosted
  grid \<open>Kflat\<close>), the values at each grid point are
  \<open>psi4' = Kinv^3 psi4\<close>, \<open>psi3' = Kinv^3 (psi3 - E psi4)\<close>,
  \<open>psi2' = Kinv^3 (psi2 - E (2 psi3 - E psi4))\<close>,
  \<open>psi1' = Kinv^3 (psi1 - E (3 psi2 - E (3 psi3 - E psi4)))\<close>,
  \<open>psi0' = Kinv^3 (psi0 - E (4 psi1 - E (6 psi2 - E (4 psi3 - E psi4))))\<close>,
  \<open>sigma' = Kinv (sigma - edth^2 delta)\<close> and \<open>sigmadot' = sigmadot Kinv^2\<close>.
  Without the bound on the degree of the supertranslation the function raises an error
  and returns no grid.
\<close>

theorem BMSTransformationOnSlice_cascade:
  assumes L1: "1 \<le> SliceModes_EllMax S"
    and Ld: "ellMax delta \<le> SliceModes_EllMax S"
    and LL: "default_L E \<le> SliceModes_EllMax S"
    and n: "n = 2 * SliceModes_EllMax S + 1"
    and vel: "v ! 0 * v ! 0 + v ! 1 * v ! 1 + v ! 2 * v ! 2 < 1"
    and rotors: "\<forall>p\<in>set (grid_points n n). \<exists>R. boosted_rotor E v n n p = Inr R"
  shows "\<exists>Kinv DD Kflat U Et Eg P0 P1 P2 P3 P4 Sg Sd G.
           InverseConformalFactorBoostedGrid E v n n = Inr Kinv
         \<and> DataGrid_boosted E (Modes_edth (Modes_edth delta)) v n n = Inr DD
         \<and> InverseConformalFactorGrid v n n = Inr Kflat
         \<and> DataGrid_divide (double_minus_DataGrid u (DataGrid_of_Modes E delta n n)) Kflat = Inr U
         \<and> DataGrid_boosted E (Modes_edth (Modes_of_DataGrid E U (default_L E))) v n n = Inr Et
         \<and> DataGrid_times Et Kinv = Inr Eg
         \<and> DataGrid_boosted E (psi0 S) v n n = Inr P0
         \<and> DataGrid_boosted E (psi1 S) v n n = Inr P1
         \<and> DataGrid_boosted E (psi2 S) v n n = Inr P2
         \<and> DataGrid_boosted E (psi3 S) v n n = Inr P3
         \<and> DataGrid_boosted E (psi4 S) v n n = Inr P4
         \<and> DataGrid_boosted E (sigma S) v n n = Inr Sg
         \<and> DataGrid_boosted E (sigmadot S) v n n = Inr Sd
         \<and> BMSTransformationOnSlice E S u v delta = Inr G
         \<and> (n_theta (psi0 G) = n \<and> n_phi (psi0 G) = n
             \<and> length (g_data (psi0 G)) = nat (n * n))
         \<and> (n_theta (psi1 G) = n \<and> n_phi (psi1 G) = n
             \<and> length (g_data (psi1 G)) = nat (n * n))
         \<and> (n_theta (psi2 G) = n \<and> n_phi (psi2 G) = n
             \<and> length (g_data (psi2 G)) = nat (n * n))
         \<and> (n_theta (psi3 G) = n \<and> n_phi (psi3 G) = n
             \<and> length (g_data (psi3 G)) = nat (n * n))
         \<and> (n_theta (psi4 G) = n \<and> n_phi (psi4 G) = n
             \<and> length (g_data (psi4 G)) = nat (n * n))
         \<and> (n_theta (sigma G) = n \<and> n_phi (sigma G) = n
             \<and> length (g_data (sigma G)) = nat (n * n))
         \<and> (n_theta (sigmadot G) = n \<and> n_phi (sigmadot G) = n
             \<and> length (g_data (sigmadot G)) = nat (n * n))
         \<and> (\<forall>i<nat (n * n).
               g_data (psi4 G) ! i = g_data Kinv ! i ^ 3 * g_data P4 ! i
             \<and> g_data (psi3 G) ! i
                 = g_data Kinv ! i ^ 3 * (g_data P3 ! i - g_data Eg ! i * g_data P4 ! i)
             \<and> g_data (psi2 G) ! i
                 = g_data Kinv ! i ^ 3
                   * (g_data P2 ! i
                      - g_data Eg ! i * (2 * g_data P3 ! i - g_data Eg ! i * g_data P4 ! i))
             \<and> g_data (psi1 G) ! i
                 = g_data Kinv ! i ^ 3
                   * (g_data P1 ! i
                      - g_data Eg ! i
                        * (3 * g_data P2 ! i
                           - g_data Eg ! i * (3 * g_data P3 ! i - g_data Eg ! i * g_data P4 ! i)))
             \<and> g_data (psi0 G) ! i
                 = g_data Kinv ! i ^ 3
                   * (g_data P0 ! i
                      - g_data Eg ! i
                        * (4 * g_data P1 ! i
                           - g_data Eg ! i
                             * (6 * g_data P2 ! i
                                - g_data Eg ! i
                                  * (4 * g_data P3 ! i - g_data Eg ! i * g_data P4 ! i))))
             \<and> g_data (sigma G) ! i = g_data Kinv ! i * (g_data Sg ! i - g_data DD ! i)
             \<and> g_data (sigmadot G) ! i = g_data Sd ! i * g_data Kinv ! i ^ 2
             \<and> g_data Eg ! i = g_data Et ! i * g_data Kinv ! i)"
proof -
  let ?L = "SliceModes_EllMax S"
  let ?N = "nat (n * n)"
  have L0: "0 \<le> ?L" using L1 by simp
  have n0: "0 \<le> n" using L0 n by simp
  have rot: "\<exists>R. boosted_rotor E v n n p = Inr R" if "p \<in> set (grid_points n n)" for p
    using rotors that by blast
  obtain Kinv where Kinv: "InverseConformalFactorBoostedGrid E v n n = Inr Kinv"
    and Kok: "n_theta Kinv = n \<and> n_phi Kinv = n \<and> length (g_data Kinv) = ?N"
    using DataGrid_functor_defined [OF n0 n0 rot, of 0 "InverseConformalFactorFunctor v"]
    by (auto simp add: InverseConformalFactorBoostedGrid_def)
  let ?K3 = "DataGrid_pow Kinv 3"
  have K3ok: "n_theta ?K3 = n \<and> n_phi ?K3 = n \<and> length (g_data ?K3) = ?N"
    and K3v: "\<forall>i<?N. g_data ?K3 ! i = g_data Kinv ! i ^ 3"
    using DataGrid_pow_pointwise [OF Kok, of 3] by simp_all
  let ?K2 = "DataGrid_pow Kinv 2"
  have K2ok: "n_theta ?K2 = n \<and> n_phi ?K2 = n \<and> length (g_data ?K2) = ?N"
    and K2v: "\<forall>i<?N. g_data ?K2 ! i = g_data Kinv ! i ^ 2"
    using DataGrid_pow_pointwise [OF Kok, of 2] by simp_all
  obtain DD where DD: "DataGrid_boosted E (Modes_edth (Modes_edth delta)) v n n = Inr DD"
    and DDok: "n_theta DD = n \<and> n_phi DD = n \<and> length (g_data DD) = ?N"
    using DataGrid_boosted_square [OF L0 _ n rot, of "Modes_edth (Modes_edth delta)"] Ld by auto
  obtain Kflat where Kflat: "InverseConformalFactorGrid v n n = Inr Kflat"
    and Kuok: "n_theta Kflat = n \<and> n_phi Kflat = n \<and> length (g_data Kflat) = ?N"
    using InverseConformalFactorGrid_defined [OF n0 n0, of v] by auto
  let ?ud = "double_minus_DataGrid u (DataGrid_of_Modes E delta n n)"
  have "max n (2 * ellMax delta + 1) = n" using Ld n by simp
  then have "n_theta (DataGrid_of_Modes E delta n n) = n \<and> n_phi (DataGrid_of_Modes E delta n n) = n \<and> length (g_data (DataGrid_of_Modes E delta n n)) = ?N"
    by (simp add: DataGrid_of_Modes_dims)
  then have udok: "n_theta ?ud = n \<and> n_phi ?ud = n \<and> length (g_data ?ud) = ?N"
    by (rule double_minus_DataGrid_dims)
  obtain U where U: "DataGrid_divide ?ud Kflat = Inr U"
    and Uok: "n_theta U = n \<and> n_phi U = n \<and> length (g_data U) = ?N"
    and Uv: "\<forall>i<?N. g_data U ! i = g_data ?ud ! i / g_data Kflat ! i"
    using DataGrid_divide_pointwise [OF udok Kuok] by blast
  have "ellMax (Modes_of_DataGrid E U (default_L E)) = ?L"
    using Uok L0 LL n by (simp add: Modes_of_DataGrid_def Let_def sdiv_nonneg_2)
  then have el: "ellMax (Modes_edth (Modes_of_DataGrid E U (default_L E))) \<le> ?L" by simp
  obtain Et where Et: "DataGrid_boosted E (Modes_edth (Modes_of_DataGrid E U (default_L E))) v n n = Inr Et"
    and Etok: "n_theta Et = n \<and> n_phi Et = n \<and> length (g_data Et) = ?N"
    using DataGrid_boosted_square [OF L0 _ n rot, of "Modes_edth (Modes_of_DataGrid E U (default_L E))"] el by auto
  obtain Eg where Eg: "DataGrid_times Et Kinv = Inr Eg"
    and Egok: "n_theta Eg = n \<and> n_phi Eg = n \<and> length (g_data Eg) = ?N"
    and Egv: "\<forall>i<?N. g_data Eg ! i = g_data Et ! i * g_data Kinv ! i"
    using DataGrid_times_pointwise [OF Etok Kok] by blast
  obtain P0 where P0: "DataGrid_boosted E (psi0 S) v n n = Inr P0"
    and P0ok: "n_theta P0 = n \<and> n_phi P0 = n \<and> length (g_data P0) = ?N"
    using DataGrid_boosted_square [OF L0 _ n rot, of "psi0 S"] SliceModes_EllMax_bounds [of S] by auto
  obtain P1 where P1: "DataGrid_boosted E (psi1 S) v n n = Inr P1"
    and P1ok: "n_theta P1 = n \<and> n_phi P1 = n \<and> length (g_data P1) = ?N"
    using DataGrid_boosted_square [OF L0 _ n rot, of "psi1 S"] SliceModes_EllMax_bounds [of S] by auto
  obtain P2 where P2: "DataGrid_boosted E (psi2 S) v n n = Inr P2"
    and P2ok: "n_theta P2 = n \<and> n_phi P2 = n \<and> length (g_data P2) = ?N"
    using DataGrid_boosted_square [OF L0 _ n rot, of "psi2 S"] SliceModes_EllMax_bounds [of S] by auto
  obtain P3 where P3: "DataGrid_boosted E (psi3 S) v n n = Inr P3"
    and P3ok: "n_theta P3 = n \<and> n_phi P3 = n \<and> length (g_data P3) = ?N"
    using DataGrid_boosted_square [OF L0 _ n rot, of "psi3 S"] SliceModes_EllMax_bounds [of S] by auto
  obtain P4 where P4: "DataGrid_boosted E (psi4 S) v n n = Inr P4"
    and P4ok: "n_theta P4 = n \<and> n_phi P4 = n \<and> length (g_data P4) = ?N"
    using DataGrid_boosted_square [OF L0 _ n rot, of "psi4 S"] SliceModes_EllMax_bounds [of S] by auto
  obtain Sg where Sg: "DataGrid_boosted E (sigma S) v n n = Inr Sg"
    and Sgok: "n_theta Sg = n \<and> n_phi Sg = n \<and> length (g_data Sg) = ?N"
    using DataGrid_boosted_square [OF L0 _ n rot, of "sigma S"] SliceModes_EllMax_bounds [of S] by auto
  obtain Sd where Sd: "DataGrid_boosted E (sigmadot S) v n n = Inr Sd"
    and Sdok: "n_theta Sd = n \<and> n_phi Sd = n \<and> length (g_data Sd) = ?N"
    using DataGrid_boosted_square [OF L0 _ n rot, of "sigmadot S"] SliceModes_EllMax_bounds [of S] by auto
  obtain G4 where G4: "DataGrid_times ?K3 P4 = Inr G4"
    and G4ok: "n_theta G4 = n \<and> n_phi G4 = n \<and> length (g_data G4) = ?N"
    and G4v: "\<forall>i<?N. g_data G4 ! i = g_data ?K3 ! i * g_data P4 ! i"
    using DataGrid_times_pointwise [OF K3ok P4ok] by blast
  obtain e4 where e4: "DataGrid_times Eg P4 = Inr e4"
    and e4ok: "n_theta e4 = n \<and> n_phi e4 = n \<and> length (g_data e4) = ?N"
    and e4v: "\<forall>i<?N. g_data e4 ! i = g_data Eg ! i * g_data P4 ! i"
    using DataGrid_times_pointwise [OF Egok P4ok] by blast
  obtain c3 where c3: "DataGrid_minus P3 e4 = Inr c3"
    and c3ok: "n_theta c3 = n \<and> n_phi c3 = n \<and> length (g_data c3) = ?N"
    and c3v: "\<forall>i<?N. g_data c3 ! i = g_data P3 ! i - g_data e4 ! i"
    using DataGrid_minus_pointwise [OF P3ok e4ok] by blast
  obtain G3 where G3: "DataGrid_times ?K3 c3 = Inr G3"
    and G3ok: "n_theta G3 = n \<and> n_phi G3 = n \<and> length (g_data G3) = ?N"
    and G3v: "\<forall>i<?N. g_data G3 ! i = g_data ?K3 ! i * g_data c3 ! i"
    using DataGrid_times_pointwise [OF K3ok c3ok] by blast
  let ?s23 = "double_times_DataGrid 2 P3"
  have s23ok: "n_theta ?s23 = n \<and> n_phi ?s23 = n \<and> length (g_data ?s23) = ?N"
    and s23v: "\<forall>i<?N. g_data ?s23 ! i = 2 * g_data P3 ! i"
    using double_times_DataGrid_pointwise [OF P3ok, of 2] by simp_all
  obtain b2 where b2: "DataGrid_minus ?s23 e4 = Inr b2"
    and b2ok: "n_theta b2 = n \<and> n_phi b2 = n \<and> length (g_data b2) = ?N"
    and b2v: "\<forall>i<?N. g_data b2 ! i = g_data ?s23 ! i - g_data e4 ! i"
    using DataGrid_minus_pointwise [OF s23ok e4ok] by blast
  obtain eb2 where eb2: "DataGrid_times Eg b2 = Inr eb2"
    and eb2ok: "n_theta eb2 = n \<and> n_phi eb2 = n \<and> length (g_data eb2) = ?N"
    and eb2v: "\<forall>i<?N. g_data eb2 ! i = g_data Eg ! i * g_data b2 ! i"
    using DataGrid_times_pointwise [OF Egok b2ok] by blast
  obtain c2 where c2: "DataGrid_minus P2 eb2 = Inr c2"
    and c2ok: "n_theta c2 = n \<and> n_phi c2 = n \<and> length (g_data c2) = ?N"
    and c2v: "\<forall>i<?N. g_data c2 ! i = g_data P2 ! i - g_data eb2 ! i"
    using DataGrid_minus_pointwise [OF P2ok eb2ok] by blast
  obtain G2 where G2: "DataGrid_times ?K3 c2 = Inr G2"
    and G2ok: "n_theta G2 = n \<and> n_phi G2 = n \<and> length (g_data G2) = ?N"
    and G2v: "\<forall>i<?N. g_data G2 ! i = g_data ?K3 ! i * g_data c2 ! i"
    using DataGrid_times_pointwise [OF K3ok c2ok] by blast
  let ?s33 = "double_times_DataGrid 3 P3"
  have s33ok: "n_theta ?s33 = n \<and> n_phi ?s33 = n \<and> length (g_data ?s33) = ?N"
    and s33v: "\<forall>i<?N. g_data ?s33 ! i = 3 * g_data P3 ! i"
    using double_times_DataGrid_pointwise [OF P3ok, of 3] by simp_all
  obtain a1 where a1: "DataGrid_minus ?s33 e4 = Inr a1"
    and a1ok: "n_theta a1 = n \<and> n_phi a1 = n \<and> length (g_data a1) = ?N"
    and a1v: "\<forall>i<?N. g_data a1 ! i = g_data ?s33 ! i - g_data e4 ! i"
    using DataGrid_minus_pointwise [OF s33ok e4ok] by blast
  obtain ea1 where ea1: "DataGrid_times Eg a1 = Inr ea1"
    and ea1ok: "n_theta ea1 = n \<and> n_phi ea1 = n \<and> length (g_data ea1) = ?N"
    and ea1v: "\<forall>i<?N. g_data ea1 ! i = g_data Eg ! i * g_data a1 ! i"
    using DataGrid_times_pointwise [OF Egok a1ok] by blast
  let ?s32 = "double_times_DataGrid 3 P2"
  have s32ok: "n_theta ?s32 = n \<and> n_phi ?s32 = n \<and> length (g_data ?s32) = ?N"
    and s32v: "\<forall>i<?N. g_data ?s32 ! i = 3 * g_data P2 ! i"
    using double_times_DataGrid_pointwise [OF P2ok, of 3] by simp_all
  obtain b1 where b1: "DataGrid_minus ?s32 ea1 = Inr b1"
    and b1ok: "n_theta b1 = n \<and> n_phi b1 = n \<and> length (g_data b1) = ?N"
    and b1v: "\<forall>i<?N. g_data b1 ! i = g_data ?s32 ! i - g_data ea1 ! i"
    using DataGrid_minus_pointwise [OF s32ok ea1ok] by blast
  obtain eb1 where eb1: "DataGrid_times Eg b1 = Inr eb1"
    and eb1ok: "n_theta eb1 = n \<and> n_phi eb1 = n \<and> length (g_data eb1) = ?N"
    and eb1v: "\<forall>i<?N. g_data eb1 ! i = g_data Eg ! i * g_data b1 ! i"
    using DataGrid_times_pointwise [OF Egok b1ok] by blast
  obtain c1 where c1: "DataGrid_minus P1 eb1 = Inr c1"
    and c1ok: "n_theta c1 = n \<and> n_phi c1 = n \<and> length (g_data c1) = ?N"
    and c1v: "\<forall>i<?N. g_data c1 ! i = g_data P1 ! i - g_data eb1 ! i"
    using DataGrid_minus_pointwise [OF P1ok eb1ok] by blast
  obtain G1 where G1: "DataGrid_times ?K3 c1 = Inr G1"
    and G1ok: "n_theta G1 = n \<and> n_phi G1 = n \<and> length (g_data G1) = ?N"
    and G1v: "\<forall>i<?N. g_data G1 ! i = g_data ?K3 ! i * g_data c1 ! i"
    using DataGrid_times_pointwise [OF K3ok c1ok] by blast
  let ?s43 = "double_times_DataGrid 4 P3"
  have s43ok: "n_theta ?s43 = n \<and> n_phi ?s43 = n \<and> length (g_data ?s43) = ?N"
    and s43v: "\<forall>i<?N. g_data ?s43 ! i = 4 * g_data P3 ! i"
    using double_times_DataGrid_pointwise [OF P3ok, of 4] by simp_all
  obtain z0 where z0: "DataGrid_minus ?s43 e4 = Inr z0"
    and z0ok: "n_theta z0 = n \<and> n_phi z0 = n \<and> length (g_data z0) = ?N"
    and z0v: "\<forall>i<?N. g_data z0 ! i = g_data ?s43 ! i - g_data e4 ! i"
    using DataGrid_minus_pointwise [OF s43ok e4ok] by blast
  obtain ez0 where ez0: "DataGrid_times Eg z0 = Inr ez0"
    and ez0ok: "n_theta ez0 = n \<and> n_phi ez0 = n \<and> length (g_data ez0) = ?N"
    and ez0v: "\<forall>i<?N. g_data ez0 ! i = g_data Eg ! i * g_data z0 ! i"
    using DataGrid_times_pointwise [OF Egok z0ok] by blast
  let ?s62 = "double_times_DataGrid 6 P2"
  have s62ok: "n_theta ?s62 = n \<and> n_phi ?s62 = n \<and> length (g_data ?s62) = ?N"
    and s62v: "\<forall>i<?N. g_data ?s62 ! i = 6 * g_data P2 ! i"
    using double_times_DataGrid_pointwise [OF P2ok, of 6] by simp_all
  obtain a0 where a0: "DataGrid_minus ?s62 ez0 = Inr a0"
    and a0ok: "n_theta a0 = n \<and> n_phi a0 = n \<and> length (g_data a0) = ?N"
    and a0v: "\<forall>i<?N. g_data a0 ! i = g_data ?s62 ! i - g_data ez0 ! i"
    using DataGrid_minus_pointwise [OF s62ok ez0ok] by blast
  obtain ea0 where ea0: "DataGrid_times Eg a0 = Inr ea0"
    and ea0ok: "n_theta ea0 = n \<and> n_phi ea0 = n \<and> length (g_data ea0) = ?N"
    and ea0v: "\<forall>i<?N. g_data ea0 ! i = g_data Eg ! i * g_data a0 ! i"
    using DataGrid_times_pointwise [OF Egok a0ok] by blast
  let ?s41 = "double_times_DataGrid 4 P1"
  have s41ok: "n_theta ?s41 = n \<and> n_phi ?s41 = n \<and> length (g_data ?s41) = ?N"
    and s41v: "\<forall>i<?N. g_data ?s41 ! i = 4 * g_data P1 ! i"
    using double_times_DataGrid_pointwise [OF P1ok, of 4] by simp_all
  obtain b0 where b0: "DataGrid_minus ?s41 ea0 = Inr b0"
    and b0ok: "n_theta b0 = n \<and> n_phi b0 = n \<and> length (g_data b0) = ?N"
    and b0v: "\<forall>i<?N. g_data b0 ! i = g_data ?s41 ! i - g_data ea0 ! i"
    using DataGrid_minus_pointwise [OF s41ok ea0ok] by blast
  obtain eb0 where eb0: "DataGrid_times Eg b0 = Inr eb0"
    and eb0ok: "n_theta eb0 = n \<and> n_phi eb0 = n \<and> length (g_data eb0) = ?N"
    and eb0v: "\<forall>i<?N. g_data eb0 ! i = g_data Eg ! i * g_data b0 ! i"
    using DataGrid_times_pointwise [OF Egok b0ok] by blast
  obtain c0 where c0: "DataGrid_minus P0 eb0 = Inr c0"
    and c0ok: "n_theta c0 = n \<and> n_phi c0 = n \<and> length (g_data c0) = ?N"
    and c0v: "\<forall>i<?N. g_data c0 ! i = g_data P0 ! i - g_data eb0 ! i"
    using DataGrid_minus_pointwise [OF P0ok eb0ok] by blast
  obtain G0 where G0: "DataGrid_times ?K3 c0 = Inr G0"
    and G0ok: "n_theta G0 = n \<and> n_phi G0 = n \<and> length (g_data G0) = ?N"
    and G0v: "\<forall>i<?N. g_data G0 ! i = g_data ?K3 ! i * g_data c0 ! i"
    using DataGrid_times_pointwise [OF K3ok c0ok] by blast
  obtain sd where sd: "DataGrid_minus Sg DD = Inr sd"
    and sdok: "n_theta sd = n \<and> n_phi sd = n \<and> length (g_data sd) = ?N"
    and sdv: "\<forall>i<?N. g_data sd ! i = g_data Sg ! i - g_data DD ! i"
    using DataGrid_minus_pointwise [OF Sgok DDok] by blast
  obtain Gs where Gs: "DataGrid_times Kinv sd = Inr Gs"
    and Gsok: "n_theta Gs = n \<and> n_phi Gs = n \<and> length (g_data Gs) = ?N"
    and Gsv: "\<forall>i<?N. g_data Gs ! i = g_data Kinv ! i * g_data sd ! i"
    using DataGrid_times_pointwise [OF Kok sdok] by blast
  obtain Gd where Gd: "DataGrid_times Sd ?K2 = Inr Gd"
    and Gdok: "n_theta Gd = n \<and> n_phi Gd = n \<and> length (g_data Gd) = ?N"
    and Gdv: "\<forall>i<?N. g_data Gd ! i = g_data Sd ! i * g_data ?K2 ! i"
    using DataGrid_times_pointwise [OF Sdok K2ok] by blast
  let ?G = "\<lparr>psi0 = G0, psi1 = G1, psi2 = G2, psi3 = G3, psi4 = G4, sigma = Gs, sigmadot = Gd\<rparr>"
  have run: "BMSTransformationOnSlice E S u v delta = Inr ?G"
    unfolding BMSTransformationOnSlice_def Let_def n [symmetric]
    by (simp only: bindE_simps Kinv DD Kflat U Et Eg P0 P1 P2 P3 P4 Sg Sd G4 e4 c3 G3 b2 eb2 c2 G2
        a1 ea1 b1 eb1 c1 G1 z0 ez0 a0 ea0 b0 eb0 c0 G0 sd Gs Gd)
  have pointwise_values: "\<forall>i<?N.
               g_data (psi4 ?G) ! i = g_data Kinv ! i ^ 3 * g_data P4 ! i
             \<and> g_data (psi3 ?G) ! i
                 = g_data Kinv ! i ^ 3 * (g_data P3 ! i - g_data Eg ! i * g_data P4 ! i)
             \<and> g_data (psi2 ?G) ! i
                 = g_data Kinv ! i ^ 3
                   * (g_data P2 ! i
                      - g_data Eg ! i * (2 * g_data P3 ! i - g_data Eg ! i * g_data P4 ! i))
             \<and> g_data (psi1 ?G) ! i
                 = g_data Kinv ! i ^ 3
                   * (g_data P1 ! i
                      - g_data Eg ! i
                        * (3 * g_data P2 ! i
                           - g_data Eg ! i * (3 * g_data P3 ! i - g_data Eg ! i * g_data P4 ! i)))
             \<and> g_data (psi0 ?G) ! i
                 = g_data Kinv ! i ^ 3
                   * (g_data P0 ! i
                      - g_data Eg ! i
                        * (4 * g_data P1 ! i
                           - g_data Eg ! i
                             * (6 * g_data P2 ! i
                                - g_data Eg ! i
                                  * (4 * g_data P3 ! i - g_data Eg ! i * g_data P4 ! i))))
             \<and> g_data (sigma ?G) ! i = g_data Kinv ! i * (g_data Sg ! i - g_data DD ! i)
             \<and> g_data (sigmadot ?G) ! i = g_data Sd ! i * g_data Kinv ! i ^ 2
             \<and> g_data Eg ! i = g_data Et ! i * g_data Kinv ! i"
    by (simp add: K3v K2v Egv G4v e4v c3v G3v s23v b2v eb2v c2v G2v s33v a1v ea1v s32v b1v
        eb1v c1v G1v s43v z0v ez0v s62v a0v ea0v s41v b0v eb0v c0v G0v sdv Gsv Gdv)
  have dims: "(n_theta (psi0 ?G) = n \<and> n_phi (psi0 ?G) = n
             \<and> length (g_data (psi0 ?G)) = ?N)
         \<and> (n_theta (psi1 ?G) = n \<and> n_phi (psi1 ?G) = n
             \<and> length (g_data (psi1 ?G)) = ?N)
         \<and> (n_theta (psi2 ?G) = n \<and> n_phi (psi2 ?G) = n
             \<and> length (g_data (psi2 ?G)) = ?N)
         \<and> (n_theta (psi3 ?G) = n \<and> n_phi (psi3 ?G) = n
             \<and> length (g_data (psi3 ?G)) = ?N)
         \<and> (n_theta (psi4 ?G) = n \<and> n_phi (psi4 ?G) = n
             \<and> length (g_data (psi4 ?G)) = ?N)
         \<and> (n_theta (sigma ?G) = n \<and> n_phi (sigma ?G) = n
             \<and> length (g_data (sigma ?G)) = ?N)
         \<and> (n_theta (sigmadot ?G) = n \<and> n_phi (sigmadot ?G) = n
             \<and> length (g_data (sigmadot ?G)) = ?N)"
    by (simp add: G0ok G1ok G2ok G3ok G4ok Gsok Gdok)
  from Kinv DD Kflat U Et Eg P0 P1 P2 P3 P4 Sg Sd run dims pointwise_values show ?thesis
    by blast
qed

text \<open>
  The evaluation of the grids of one slice with kernels that answer 1: a boosted grid
  holds the sum of the coefficients at every point, whatever the rotor.
\<close>

lemma lm_list_2:
  "lm_list 2 = [(0, 0), (1, - 1), (1, 0), (1, 1), (2, - 2), (2, - 1), (2, 0), (2, 1), (2, 2)]"
  by (simp add: lm_list_def lm_list_from_def upto_rec1)

lemma EvaluateAtPoint_unit:
  "EvaluateAtPoint unit_externals \<lparr>m_s = s, ellMax = 2, m_data = [a0, a1, a2, a3, a4, a5, a6, a7, a8]\<rparr> R
     = a0 + a1 + a2 + a3 + a4 + a5 + a6 + a7 + a8"
  by (simp add: EvaluateAtPoint_def lm_list_2 unit_externals_kernels enumerate_simps)

lemma Modes_edth_9:
  "Modes_edth \<lparr>m_s = s, ellMax = 2, m_data = [a0, a1, a2, a3, a4, a5, a6, a7, a8]\<rparr>
     = \<lparr>m_s = s + 1, ellMax = 2,
        m_data = [a0 * complex_of_real (if 0 < \<bar>s + 1\<bar> then 0
                                          else sqrt (real_of_int (0 - s) * (real_of_int (0 + s) + 1) / 2)),
                  a1 * complex_of_real (if 1 < \<bar>s + 1\<bar> then 0
                                          else sqrt (real_of_int (1 - s) * (real_of_int (1 + s) + 1) / 2)),
                  a2 * complex_of_real (if 1 < \<bar>s + 1\<bar> then 0
                                          else sqrt (real_of_int (1 - s) * (real_of_int (1 + s) + 1) / 2)),
                  a3 * complex_of_real (if 1 < \<bar>s + 1\<bar> then 0
                                          else sqrt (real_of_int (1 - s) * (real_of_int (1 + s) + 1) / 2)),
                  a4 * complex_of_real (if 2 < \<bar>s + 1\<bar> then 0
                                          else sqrt (real_of_int (2 - s) * (real_of_int (2 + s) + 1) / 2)),
                  a5 * complex_of_real (if 2 < \<bar>s + 1\<bar> then 0
                                          else sqrt (real_of_int (2 - s) * (real_of_int (2 + s) + 1) / 2)),
                  a6 * complex_of_real (if 2 < \<bar>s + 1\<bar> then 0
                                          else sqrt (real_of_int (2 - s) * (real_of_int (2 + s) + 1) / 2)),
                  a7 * complex_of_real (if 2 < \<bar>s + 1\<bar> then 0
                                          else sqrt (real_of_int (2 - s) * (real_of_int (2 + s) + 1) / 2)),
                  a8 * complex_of_real (if 2 < \<bar>s + 1\<bar> then 0
                                          else sqrt (real_of_int (2 - s) * (real_of_int (2 + s) + 1) / 2))]\<rparr>"
  by (simp add: Modes_edth_def Let_def scale_modes_def lm_list_2 enumerate_simps)

lemma edth_edth_cascade_delta:
  "Modes_edth (Modes_edth cascade_delta)
     = \<lparr>m_s = 2, ellMax = 2,
        m_data = [0, 0, 0, 0, complex_of_real (sqrt 3) * complex_of_real (sqrt 2), 0, 0, 0, 0]\<rparr>"
  by (simp add: cascade_delta_def Modes_edth_9)

lemma edth_ones:
  "Modes_edth \<lparr>m_s = 0, ellMax = 2, m_data = replicate 9 1\<rparr>
     = \<lparr>m_s = 1, ellMax = 2,
        m_data = [0, 1, 1, 1, complex_of_real (sqrt 3), complex_of_real (sqrt 3),
                  complex_of_real (sqrt 3), complex_of_real (sqrt 3), complex_of_real (sqrt 3)]\<rparr>"
  by (simp add: Modes_edth_9 eval_nat_numeral)

lemma sequenceE_constant:
  "sequenceE (map (\<lambda>p. bindE (g p) (\<lambda>R. Inr c)) ps) = Inr D \<Longrightarrow> D = replicate (length ps) c"
proof (induction ps arbitrary: D)
  case Nil
  then show ?case by simp
next
  case (Cons p ps)
  then show ?case
    by (cases "g p"; cases "sequenceE (map (\<lambda>p. bindE (g p) (\<lambda>R. Inr c)) ps)") auto
qed

lemma sequenceE_first:
  "sequenceE (map h (p # ps)) = Inr D \<Longrightarrow> h p = Inr x \<Longrightarrow> D ! 0 = x"
  by (cases "sequenceE (map h ps)") auto

lemma fill_replicate: "fill (int n) (replicate n c) = replicate n c"
  by (simp add: fill_def)

lemma DataGrid_boosted_unit:
  assumes "DataGrid_boosted unit_externals
             \<lparr>m_s = s, ellMax = 2, m_data = [a0, a1, a2, a3, a4, a5, a6, a7, a8]\<rparr> v 5 5 = Inr G"
  shows "g_data G = replicate 25 (a0 + a1 + a2 + a3 + a4 + a5 + a6 + a7 + a8)"
proof -
  let ?c = "a0 + a1 + a2 + a3 + a4 + a5 + a6 + a7 + a8"
  let ?rs = "map (\<lambda>p. bindE (boosted_rotor unit_externals v 5 5 p) (\<lambda>R. Inr ?c)) (grid_points 5 5)"
  from assms have run: "bindE (sequenceE ?rs)
      (\<lambda>D. Inr \<lparr>g_s = s, n_theta = 5, n_phi = 5, g_data = fill 25 D\<rparr>) = Inr G"
    by (simp add: DataGrid_boosted_def Let_def EvaluateAtPoint_unit)
  then obtain D where D: "sequenceE ?rs = Inr D" and G: "g_data G = fill 25 D"
    by (cases "sequenceE ?rs") auto
  from D have "D = replicate (length (grid_points 5 5)) ?c"
    by (rule sequenceE_constant)
  then have "D = replicate 25 ?c" by (simp add: length_grid_points)
  then show ?thesis using G fill_replicate [of 25 ?c] by simp
qed

lemma InverseConformalFactorFunctor_zero_velocity:
  "InverseConformalFactorFunctor [0, 0, 0] R = 1"
  by (cases "qtimes (qtimes R zHat) (conjugate R)")
     (simp add: InverseConformalFactorFunctor_def Let_def)

lemma InverseConformalFactorBoostedGrid_zero_velocity:
  assumes "InverseConformalFactorBoostedGrid E [0, 0, 0] 5 5 = Inr G"
  shows "g_data G = replicate 25 1"
proof -
  let ?rs = "map (\<lambda>p. bindE (boosted_rotor E [0, 0, 0] 5 5 p) (\<lambda>R. Inr (1::complex))) (grid_points 5 5)"
  from assms have run: "bindE (sequenceE ?rs)
      (\<lambda>D. Inr \<lparr>g_s = 0, n_theta = 5, n_phi = 5, g_data = fill 25 D\<rparr>) = Inr G"
    by (simp add: InverseConformalFactorBoostedGrid_def DataGrid_functor_def
        InverseConformalFactorFunctor_zero_velocity)
  then obtain D where D: "sequenceE ?rs = Inr D" and G: "g_data G = fill 25 D"
    by (cases "sequenceE ?rs") auto
  from D have "D = replicate (length (grid_points 5 5)) 1"
    by (rule sequenceE_constant)
  then have "D = replicate 25 1" by (simp add: length_grid_points)
  then show ?thesis using G fill_replicate [of 25 1] by simp
qed

lemma Boost_antiparallel:
  "Boost exact_arith (vminus [0, 0, 3 / 5]) [0, 0, 1] = Inr (Quaternion 1 0 0 0)"
proof -
  have v: "vminus [0, 0, 3 / 5] = [0, 0, - (3 / 5) :: real]" by (simp add: vminus_def)
  have absv: "norm3 exact_arith [0, 0, - (3 / 5)] = 3 / 5"
    by (simp add: norm3_exact sqrt_9_25)
  have alpha: "Rapidity exact_arith [0, 0, - (3 / 5)] = ln 2"
    using absv by (rule Rapidity_exact_three_fifths)
  have absn: "norm3 exact_arith [0, 0, 1] = 1" by (simp add: norm3_exact)
  show ?thesis
    unfolding v Boost_def Let_def absv alpha absn
    by simp
qed

lemma boosted_rotor_pole:
  "boosted_rotor unit_externals [0, 0, 3 / 5] 5 5 (0, 0) = Inr (Quaternion 1 0 0 0)"
  by (simp add: boosted_rotor_def Let_def unit_externals_fields zHat_def Boost_antiparallel)

lemma InverseConformalFactorFunctor_pole:
  "InverseConformalFactorFunctor [0, 0, 3 / 5] (Quaternion 1 0 0 0) = 1 / 2"
  by (simp add: InverseConformalFactorFunctor_def Let_def zHat_def sqrt_16_25)

lemma grid_points_first: "0 < a \<Longrightarrow> 0 < b \<Longrightarrow> \<exists>ps. grid_points a b = (0, 0) # ps"
  by (simp add: grid_points_def upto_rec1 [of 0])

lemma InverseConformalFactorBoostedGrid_pole:
  assumes "InverseConformalFactorBoostedGrid unit_externals [0, 0, 3 / 5] 5 5 = Inr G"
  shows "g_data G ! 0 = 1 / 2"
proof -
  let ?h = "\<lambda>p. bindE (boosted_rotor unit_externals [0, 0, 3 / 5] 5 5 p)
                   (\<lambda>R. Inr (complex_of_real (InverseConformalFactorFunctor [0, 0, 3 / 5] R)))"
  obtain ps where ps: "grid_points 5 5 = (0, 0) # ps"
    using grid_points_first [of 5 5] by auto
  from assms have run: "bindE (sequenceE (map ?h ((0, 0) # ps)))
      (\<lambda>D. Inr \<lparr>g_s = 0, n_theta = 5, n_phi = 5, g_data = fill 25 D\<rparr>) = Inr G"
    by (simp add: InverseConformalFactorBoostedGrid_def DataGrid_functor_def ps)
  then obtain D where D: "sequenceE (map ?h ((0, 0) # ps)) = Inr D" and G: "g_data G = fill 25 D"
    by (cases "sequenceE (map ?h ((0, 0) # ps))") auto
  have "?h (0, 0) = Inr (1 / 2)"
    by (simp add: boosted_rotor_pole InverseConformalFactorFunctor_pole)
  with D have "D ! 0 = 1 / 2" by (rule sequenceE_first)
  moreover have "D \<noteq> []" using D by (cases "?h (0, 0)"; cases "sequenceE (map ?h ps)") auto
  ultimately show ?thesis using G by (cases D) (simp_all add: fill_def)
qed

lemma InverseConformalFactorGrid_fields:
  "InverseConformalFactorGrid v a b = Inr G \<Longrightarrow> g_s G = 0 \<and> n_theta G = a \<and> n_phi G = b"
  by (auto simp add: InverseConformalFactorGrid_def DataGrid_of_data_def Let_def split: if_splits)

lemma DataGrid_divide_fields:
  "DataGrid_divide B A = Inr C \<Longrightarrow>
   g_s C = g_s B - g_s A \<and> n_theta C = n_theta B \<and> n_phi C = n_phi B"
  by (auto simp add: DataGrid_divide_def split: if_splits)

lemma uprime_modes:
  assumes "InverseConformalFactorGrid v 5 5 = Inr Kflat"
    and "DataGrid_divide (double_minus_DataGrid u (DataGrid_of_Modes unit_externals cascade_delta 5 5))
           Kflat = Inr U"
  shows "Modes_edth (Modes_of_DataGrid unit_externals U (default_L unit_externals))
     = \<lparr>m_s = 1, ellMax = 2,
        m_data = [0, 1, 1, 1, complex_of_real (sqrt 3), complex_of_real (sqrt 3),
                  complex_of_real (sqrt 3), complex_of_real (sqrt 3), complex_of_real (sqrt 3)]\<rparr>"
proof -
  have "g_s U = 0 \<and> n_theta U = 5 \<and> n_phi U = 5"
    using InverseConformalFactorGrid_fields [OF assms(1)] DataGrid_divide_fields [OF assms(2)]
    by (simp add: double_minus_DataGrid_def DataGrid_of_Modes_def cascade_delta_def Let_def)
  then have "Modes_of_DataGrid unit_externals U (default_L unit_externals)
               = \<lparr>m_s = 0, ellMax = 2, m_data = replicate 9 1\<rparr>"
    by (simp add: Modes_of_DataGrid_unit unit_externals_fields sdiv_nonneg_2 N_lm_def)
  then show ?thesis by (simp only: edth_ones)
qed

lemma replicate_from_nth: "length xs = n \<Longrightarrow> \<forall>i<n. xs ! i = c \<Longrightarrow> xs = replicate n c"
  by (simp add: list_eq_iff_nth_eq)

lemma cascade_slice_EllMax: "SliceModes_EllMax cascade_slice = 2"
  by (simp add: SliceModes_EllMax_def cascade_slice_def)

lemma cascade_slice_fields:
  "psi0 cascade_slice = \<lparr>m_s = 2, ellMax = 2, m_data = [1, 0, 0, 0, 0, 0, 0, 0, 0]\<rparr>"
  "psi1 cascade_slice = \<lparr>m_s = 1, ellMax = 2, m_data = [2, 0, 0, 0, 0, 0, 0, 0, 0]\<rparr>"
  "psi2 cascade_slice = \<lparr>m_s = 0, ellMax = 2, m_data = [3, 0, 0, 0, 0, 0, 0, 0, 0]\<rparr>"
  "psi3 cascade_slice = \<lparr>m_s = - 1, ellMax = 2, m_data = [4, 0, 0, 0, 0, 0, 0, 0, 0]\<rparr>"
  "psi4 cascade_slice = \<lparr>m_s = - 2, ellMax = 2, m_data = [5, 0, 0, 0, 0, 0, 0, 0, 0]\<rparr>"
  "sigma cascade_slice = \<lparr>m_s = 2, ellMax = 2, m_data = [6, 0, 0, 0, 0, 0, 0, 0, 0]\<rparr>"
  "sigmadot cascade_slice = \<lparr>m_s = 2, ellMax = 2, m_data = [7, 0, 0, 0, 0, 0, 0, 0, 0]\<rparr>"
  by (simp_all add: cascade_slice_def)

text \<open>
  C8 at two inputs, with kernels that answer 1. The slice has the coefficients 1..7 at
  degree 0 in its seven fields, the supertranslation one coefficient 1 of degree 2, so
  that the boosted grids of the fields are 1..7 at every point, that of \<open>edth(u')\<close> is
  \<open>3 + 5 sqrt 3\<close> and that of \<open>edth(edth(delta))\<close> is \<open>sqrt 3 * sqrt 2\<close>. At velocity
  zero \<open>1/K = 1\<close> and the seven grids have 25 equal values. At the velocity
  \<open>(0, 0, 3/5)\<close> and \<open>u = 1\<close>, \<open>1/K = 1/2\<close> at the first grid point, the north pole.
\<close>

theorem BMSTransformationOnSlice_cascade_witness:
  "(1 \<le> SliceModes_EllMax cascade_slice
    \<and> ellMax cascade_delta \<le> SliceModes_EllMax cascade_slice
    \<and> default_L unit_externals \<le> SliceModes_EllMax cascade_slice
    \<and> (5::int) = 2 * SliceModes_EllMax cascade_slice + 1)
   \<and> (let e = 3 + 5 * complex_of_real (sqrt 3);
           d = complex_of_real (sqrt 3) * complex_of_real (sqrt 2)
       in \<exists>G. BMSTransformationOnSlice unit_externals cascade_slice 0 [0, 0, 0] cascade_delta = Inr G
            \<and> n_theta (psi0 G) = 5 \<and> n_phi (psi0 G) = 5
            \<and> n_theta (sigmadot G) = 5 \<and> n_phi (sigmadot G) = 5
            \<and> g_data (psi4 G) = replicate 25 5
            \<and> g_data (psi3 G) = replicate 25 (4 - e * 5)
            \<and> g_data (psi2 G) = replicate 25 (3 - e * (2 * 4 - e * 5))
            \<and> g_data (psi1 G) = replicate 25 (2 - e * (3 * 3 - e * (3 * 4 - e * 5)))
            \<and> g_data (psi0 G)
                = replicate 25 (1 - e * (4 * 2 - e * (6 * 3 - e * (4 * 4 - e * 5))))
            \<and> g_data (sigma G) = replicate 25 (6 - d)
            \<and> g_data (sigmadot G) = replicate 25 7)
   \<and> (let k = 1 / 2;
           e = (3 + 5 * complex_of_real (sqrt 3)) * k;
           d = complex_of_real (sqrt 3) * complex_of_real (sqrt 2)
       in \<exists>G. BMSTransformationOnSlice unit_externals cascade_slice 1 [0, 0, 3 / 5] cascade_delta
                = Inr G
            \<and> length (g_data (psi0 G)) = 25 \<and> length (g_data (sigmadot G)) = 25
            \<and> g_data (psi4 G) ! 0 = k ^ 3 * 5
            \<and> g_data (psi3 G) ! 0 = k ^ 3 * (4 - e * 5)
            \<and> g_data (psi2 G) ! 0 = k ^ 3 * (3 - e * (2 * 4 - e * 5))
            \<and> g_data (psi1 G) ! 0 = k ^ 3 * (2 - e * (3 * 3 - e * (3 * 4 - e * 5)))
            \<and> g_data (psi0 G) ! 0
                = k ^ 3 * (1 - e * (4 * 2 - e * (6 * 3 - e * (4 * 4 - e * 5))))
            \<and> g_data (sigma G) ! 0 = k * (6 - d)
            \<and> g_data (sigmadot G) ! 0 = 7 * k ^ 2)"
proof -
  let ?E = unit_externals
  let ?S = cascade_slice
  let ?e = "3 + 5 * complex_of_real (sqrt 3)"
  let ?d = "complex_of_real (sqrt 3) * complex_of_real (sqrt 2)"
  have h1: "1 \<le> SliceModes_EllMax ?S" by (simp add: cascade_slice_EllMax)
  have h2: "ellMax cascade_delta \<le> SliceModes_EllMax ?S"
    by (simp add: cascade_slice_EllMax cascade_delta_def)
  have h3: "default_L ?E \<le> SliceModes_EllMax ?S"
    by (simp add: cascade_slice_EllMax unit_externals_fields)
  have h4: "(5::int) = 2 * SliceModes_EllMax ?S + 1" by (simp add: cascade_slice_EllMax)
  have rot: "\<forall>p\<in>set (grid_points 5 5). \<exists>R. boosted_rotor ?E v 5 5 p = Inr R" for v
    using boosted_rotor_defined [of ?E v 5 5] by (simp add: unit_externals_fields)
  have N: "nat (5 * 5) = (25::nat)" by simp
  have first: "(0::nat) < 25" by simp
  have vel0: "[0, 0, 0] ! 0 * [0, 0, 0] ! 0 + [0, 0, 0] ! 1 * [0, 0, 0] ! 1
                + [0, 0, 0] ! 2 * [0, 0, 0] ! 2 < (1::real)"
    by simp
  have vel1: "[0, 0, 3 / 5] ! 0 * [0, 0, 3 / 5] ! 0 + [0, 0, 3 / 5] ! 1 * [0, 0, 3 / 5] ! 1
                + [0, 0, 3 / 5] ! 2 * [0, 0, 3 / 5] ! 2 < (1::real)"
    by simp
  have at_rest: "\<exists>G. BMSTransformationOnSlice ?E ?S 0 [0, 0, 0] cascade_delta = Inr G
            \<and> n_theta (psi0 G) = 5 \<and> n_phi (psi0 G) = 5
            \<and> n_theta (sigmadot G) = 5 \<and> n_phi (sigmadot G) = 5
            \<and> g_data (psi4 G) = replicate 25 5
            \<and> g_data (psi3 G) = replicate 25 (4 - ?e * 5)
            \<and> g_data (psi2 G) = replicate 25 (3 - ?e * (2 * 4 - ?e * 5))
            \<and> g_data (psi1 G) = replicate 25 (2 - ?e * (3 * 3 - ?e * (3 * 4 - ?e * 5)))
            \<and> g_data (psi0 G)
                = replicate 25 (1 - ?e * (4 * 2 - ?e * (6 * 3 - ?e * (4 * 4 - ?e * 5))))
            \<and> g_data (sigma G) = replicate 25 (6 - ?d)
            \<and> g_data (sigmadot G) = replicate 25 7"
  proof -
    from BMSTransformationOnSlice_cascade [OF h1 h2 h3 h4 vel0 rot, of 0]
    obtain Kinv DD Kflat U Et Eg P0 P1 P2 P3 P4 Sg Sd G where
      all: "InverseConformalFactorBoostedGrid ?E [0, 0, 0] 5 5 = Inr Kinv
         \<and> DataGrid_boosted ?E (Modes_edth (Modes_edth cascade_delta)) [0, 0, 0] 5 5 = Inr DD
         \<and> InverseConformalFactorGrid [0, 0, 0] 5 5 = Inr Kflat
         \<and> DataGrid_divide (double_minus_DataGrid 0 (DataGrid_of_Modes ?E cascade_delta 5 5))
               Kflat = Inr U
         \<and> DataGrid_boosted ?E (Modes_edth (Modes_of_DataGrid ?E U (default_L ?E))) [0, 0, 0] 5 5
             = Inr Et
         \<and> DataGrid_times Et Kinv = Inr Eg
         \<and> DataGrid_boosted ?E (psi0 ?S) [0, 0, 0] 5 5 = Inr P0
         \<and> DataGrid_boosted ?E (psi1 ?S) [0, 0, 0] 5 5 = Inr P1
         \<and> DataGrid_boosted ?E (psi2 ?S) [0, 0, 0] 5 5 = Inr P2
         \<and> DataGrid_boosted ?E (psi3 ?S) [0, 0, 0] 5 5 = Inr P3
         \<and> DataGrid_boosted ?E (psi4 ?S) [0, 0, 0] 5 5 = Inr P4
         \<and> DataGrid_boosted ?E (sigma ?S) [0, 0, 0] 5 5 = Inr Sg
         \<and> DataGrid_boosted ?E (sigmadot ?S) [0, 0, 0] 5 5 = Inr Sd
         \<and> BMSTransformationOnSlice ?E ?S 0 [0, 0, 0] cascade_delta = Inr G
         \<and> (n_theta (psi0 G) = 5 \<and> n_phi (psi0 G) = 5 \<and> length (g_data (psi0 G)) = 25)
         \<and> (n_theta (psi1 G) = 5 \<and> n_phi (psi1 G) = 5 \<and> length (g_data (psi1 G)) = 25)
         \<and> (n_theta (psi2 G) = 5 \<and> n_phi (psi2 G) = 5 \<and> length (g_data (psi2 G)) = 25)
         \<and> (n_theta (psi3 G) = 5 \<and> n_phi (psi3 G) = 5 \<and> length (g_data (psi3 G)) = 25)
         \<and> (n_theta (psi4 G) = 5 \<and> n_phi (psi4 G) = 5 \<and> length (g_data (psi4 G)) = 25)
         \<and> (n_theta (sigma G) = 5 \<and> n_phi (sigma G) = 5 \<and> length (g_data (sigma G)) = 25)
         \<and> (n_theta (sigmadot G) = 5 \<and> n_phi (sigmadot G) = 5 \<and> length (g_data (sigmadot G)) = 25)
         \<and> (\<forall>i<25.
               g_data (psi4 G) ! i = g_data Kinv ! i ^ 3 * g_data P4 ! i
             \<and> g_data (psi3 G) ! i
                 = g_data Kinv ! i ^ 3 * (g_data P3 ! i - g_data Eg ! i * g_data P4 ! i)
             \<and> g_data (psi2 G) ! i
                 = g_data Kinv ! i ^ 3
                   * (g_data P2 ! i
                      - g_data Eg ! i * (2 * g_data P3 ! i - g_data Eg ! i * g_data P4 ! i))
             \<and> g_data (psi1 G) ! i
                 = g_data Kinv ! i ^ 3
                   * (g_data P1 ! i
                      - g_data Eg ! i
                        * (3 * g_data P2 ! i
                           - g_data Eg ! i * (3 * g_data P3 ! i - g_data Eg ! i * g_data P4 ! i)))
             \<and> g_data (psi0 G) ! i
                 = g_data Kinv ! i ^ 3
                   * (g_data P0 ! i
                      - g_data Eg ! i
                        * (4 * g_data P1 ! i
                           - g_data Eg ! i
                             * (6 * g_data P2 ! i
                                - g_data Eg ! i
                                  * (4 * g_data P3 ! i - g_data Eg ! i * g_data P4 ! i))))
             \<and> g_data (sigma G) ! i = g_data Kinv ! i * (g_data Sg ! i - g_data DD ! i)
             \<and> g_data (sigmadot G) ! i = g_data Sd ! i * g_data Kinv ! i ^ 2
             \<and> g_data Eg ! i = g_data Et ! i * g_data Kinv ! i)"
      unfolding N by (elim exE) (rule that)
    note Kinv = all [THEN conjunct1] and r0 = all [THEN conjunct2]
    note DD = r0 [THEN conjunct1] and r1 = r0 [THEN conjunct2]
    note Kflat = r1 [THEN conjunct1] and r2 = r1 [THEN conjunct2]
    note U = r2 [THEN conjunct1] and r3 = r2 [THEN conjunct2]
    note Et = r3 [THEN conjunct1] and r4 = r3 [THEN conjunct2]
    note Egdef = r4 [THEN conjunct1] and r5 = r4 [THEN conjunct2]
    note P0 = r5 [THEN conjunct1] and r6 = r5 [THEN conjunct2]
    note P1 = r6 [THEN conjunct1] and r7 = r6 [THEN conjunct2]
    note P2 = r7 [THEN conjunct1] and r8 = r7 [THEN conjunct2]
    note P3 = r8 [THEN conjunct1] and r9 = r8 [THEN conjunct2]
    note P4 = r9 [THEN conjunct1] and r10 = r9 [THEN conjunct2]
    note Sg = r10 [THEN conjunct1] and r11 = r10 [THEN conjunct2]
    note Sd = r11 [THEN conjunct1] and r12 = r11 [THEN conjunct2]
    note G = r12 [THEN conjunct1] and r13 = r12 [THEN conjunct2]
    note d0 = r13 [THEN conjunct1] and r14 = r13 [THEN conjunct2]
    note d1 = r14 [THEN conjunct1] and r15 = r14 [THEN conjunct2]
    note d2 = r15 [THEN conjunct1] and r16 = r15 [THEN conjunct2]
    note d3 = r16 [THEN conjunct1] and r17 = r16 [THEN conjunct2]
    note d4 = r17 [THEN conjunct1] and r18 = r17 [THEN conjunct2]
    note ds = r18 [THEN conjunct1] and r19 = r18 [THEN conjunct2]
    note dd = r19 [THEN conjunct1] and r20 = r19 [THEN conjunct2]
    note cascade = r20
    have Kv: "g_data Kinv = replicate 25 1"
      using Kinv by (rule InverseConformalFactorBoostedGrid_zero_velocity)
    have "g_data P0 = replicate 25 (1 + 0 + 0 + 0 + 0 + 0 + 0 + 0 + 0)"
      using P0 [unfolded cascade_slice_fields] by (rule DataGrid_boosted_unit)
    then have P0v: "g_data P0 = replicate 25 1" by simp
    have "g_data P1 = replicate 25 (2 + 0 + 0 + 0 + 0 + 0 + 0 + 0 + 0)"
      using P1 [unfolded cascade_slice_fields] by (rule DataGrid_boosted_unit)
    then have P1v: "g_data P1 = replicate 25 2" by simp
    have "g_data P2 = replicate 25 (3 + 0 + 0 + 0 + 0 + 0 + 0 + 0 + 0)"
      using P2 [unfolded cascade_slice_fields] by (rule DataGrid_boosted_unit)
    then have P2v: "g_data P2 = replicate 25 3" by simp
    have "g_data P3 = replicate 25 (4 + 0 + 0 + 0 + 0 + 0 + 0 + 0 + 0)"
      using P3 [unfolded cascade_slice_fields] by (rule DataGrid_boosted_unit)
    then have P3v: "g_data P3 = replicate 25 4" by simp
    have "g_data P4 = replicate 25 (5 + 0 + 0 + 0 + 0 + 0 + 0 + 0 + 0)"
      using P4 [unfolded cascade_slice_fields] by (rule DataGrid_boosted_unit)
    then have P4v: "g_data P4 = replicate 25 5" by simp
    have "g_data Sg = replicate 25 (6 + 0 + 0 + 0 + 0 + 0 + 0 + 0 + 0)"
      using Sg [unfolded cascade_slice_fields] by (rule DataGrid_boosted_unit)
    then have Sgv: "g_data Sg = replicate 25 6" by simp
    have "g_data Sd = replicate 25 (7 + 0 + 0 + 0 + 0 + 0 + 0 + 0 + 0)"
      using Sd [unfolded cascade_slice_fields] by (rule DataGrid_boosted_unit)
    then have Sdv: "g_data Sd = replicate 25 7" by simp
    have "g_data DD = replicate 25 (0 + 0 + 0 + 0 + ?d + 0 + 0 + 0 + 0)"
      using DD [unfolded edth_edth_cascade_delta] by (rule DataGrid_boosted_unit)
    then have DDv: "g_data DD = replicate 25 ?d" by simp
    have "g_data Et = replicate 25 (0 + 1 + 1 + 1 + complex_of_real (sqrt 3)
             + complex_of_real (sqrt 3) + complex_of_real (sqrt 3) + complex_of_real (sqrt 3)
             + complex_of_real (sqrt 3))"
      using Et [unfolded uprime_modes [OF Kflat U]] by (rule DataGrid_boosted_unit)
    then have Etv: "g_data Et = replicate 25 ?e" by simp
    have constant_values: "\<forall>i<25.
               g_data (psi4 G) ! i = 5
             \<and> g_data (psi3 G) ! i = 4 - ?e * 5
             \<and> g_data (psi2 G) ! i = 3 - ?e * (2 * 4 - ?e * 5)
             \<and> g_data (psi1 G) ! i = 2 - ?e * (3 * 3 - ?e * (3 * 4 - ?e * 5))
             \<and> g_data (psi0 G) ! i = 1 - ?e * (4 * 2 - ?e * (6 * 3 - ?e * (4 * 4 - ?e * 5)))
             \<and> g_data (sigma G) ! i = 6 - ?d
             \<and> g_data (sigmadot G) ! i = 7"
    proof (intro allI impI)
      fix i :: nat
      assume i: "i < 25"
      have at: "g_data Kinv ! i = 1" "g_data P0 ! i = 1" "g_data P1 ! i = 2" "g_data P2 ! i = 3"
        "g_data P3 ! i = 4" "g_data P4 ! i = 5" "g_data Sg ! i = 6" "g_data Sd ! i = 7"
        "g_data DD ! i = ?d" "g_data Et ! i = ?e"
        using i by (simp_all add: Kv P0v P1v P2v P3v P4v Sgv Sdv DDv Etv)
      from cascade i have c: "g_data (psi4 G) ! i = g_data Kinv ! i ^ 3 * g_data P4 ! i
             \<and> g_data (psi3 G) ! i
                 = g_data Kinv ! i ^ 3 * (g_data P3 ! i - g_data Eg ! i * g_data P4 ! i)
             \<and> g_data (psi2 G) ! i
                 = g_data Kinv ! i ^ 3
                   * (g_data P2 ! i
                      - g_data Eg ! i * (2 * g_data P3 ! i - g_data Eg ! i * g_data P4 ! i))
             \<and> g_data (psi1 G) ! i
                 = g_data Kinv ! i ^ 3
                   * (g_data P1 ! i
                      - g_data Eg ! i
                        * (3 * g_data P2 ! i
                           - g_data Eg ! i * (3 * g_data P3 ! i - g_data Eg ! i * g_data P4 ! i)))
             \<and> g_data (psi0 G) ! i
                 = g_data Kinv ! i ^ 3
                   * (g_data P0 ! i
                      - g_data Eg ! i
                        * (4 * g_data P1 ! i
                           - g_data Eg ! i
                             * (6 * g_data P2 ! i
                                - g_data Eg ! i
                                  * (4 * g_data P3 ! i - g_data Eg ! i * g_data P4 ! i))))
             \<and> g_data (sigma G) ! i = g_data Kinv ! i * (g_data Sg ! i - g_data DD ! i)
             \<and> g_data (sigmadot G) ! i = g_data Sd ! i * g_data Kinv ! i ^ 2
             \<and> g_data Eg ! i = g_data Et ! i * g_data Kinv ! i"
        by blast
      then have Eg: "g_data Eg ! i = ?e" by (simp only: at) simp
      from c show "g_data (psi4 G) ! i = 5
             \<and> g_data (psi3 G) ! i = 4 - ?e * 5
             \<and> g_data (psi2 G) ! i = 3 - ?e * (2 * 4 - ?e * 5)
             \<and> g_data (psi1 G) ! i = 2 - ?e * (3 * 3 - ?e * (3 * 4 - ?e * 5))
             \<and> g_data (psi0 G) ! i = 1 - ?e * (4 * 2 - ?e * (6 * 3 - ?e * (4 * 4 - ?e * 5)))
             \<and> g_data (sigma G) ! i = 6 - ?d
             \<and> g_data (sigmadot G) ! i = 7"
        unfolding Eg at by simp
    qed
    have "g_data (psi4 G) = replicate 25 5"
      using d4 constant_values by (intro replicate_from_nth) simp_all
    moreover have "g_data (psi3 G) = replicate 25 (4 - ?e * 5)"
      using d3 constant_values by (intro replicate_from_nth) simp_all
    moreover have "g_data (psi2 G) = replicate 25 (3 - ?e * (2 * 4 - ?e * 5))"
      using d2 constant_values by (intro replicate_from_nth) simp_all
    moreover have "g_data (psi1 G) = replicate 25 (2 - ?e * (3 * 3 - ?e * (3 * 4 - ?e * 5)))"
      using d1 constant_values by (intro replicate_from_nth) simp_all
    moreover have "g_data (psi0 G)
                     = replicate 25 (1 - ?e * (4 * 2 - ?e * (6 * 3 - ?e * (4 * 4 - ?e * 5))))"
      using d0 constant_values by (intro replicate_from_nth) simp_all
    moreover have "g_data (sigma G) = replicate 25 (6 - ?d)"
      using ds constant_values by (intro replicate_from_nth) simp_all
    moreover have "g_data (sigmadot G) = replicate 25 7"
      using dd constant_values by (intro replicate_from_nth) simp_all
    ultimately show ?thesis using G d0 dd by blast
  qed
  let ?k = "1 / 2 :: complex"
  let ?f = "(3 + 5 * complex_of_real (sqrt 3)) * ?k"
  have boosted: "\<exists>G. BMSTransformationOnSlice ?E ?S 1 [0, 0, 3 / 5] cascade_delta = Inr G
            \<and> length (g_data (psi0 G)) = 25 \<and> length (g_data (sigmadot G)) = 25
            \<and> g_data (psi4 G) ! 0 = ?k ^ 3 * 5
            \<and> g_data (psi3 G) ! 0 = ?k ^ 3 * (4 - ?f * 5)
            \<and> g_data (psi2 G) ! 0 = ?k ^ 3 * (3 - ?f * (2 * 4 - ?f * 5))
            \<and> g_data (psi1 G) ! 0 = ?k ^ 3 * (2 - ?f * (3 * 3 - ?f * (3 * 4 - ?f * 5)))
            \<and> g_data (psi0 G) ! 0
                = ?k ^ 3 * (1 - ?f * (4 * 2 - ?f * (6 * 3 - ?f * (4 * 4 - ?f * 5))))
            \<and> g_data (sigma G) ! 0 = ?k * (6 - ?d)
            \<and> g_data (sigmadot G) ! 0 = 7 * ?k ^ 2"
  proof -
    from BMSTransformationOnSlice_cascade [OF h1 h2 h3 h4 vel1 rot, of 1]
    obtain Kinv DD Kflat U Et Eg P0 P1 P2 P3 P4 Sg Sd G where
      all: "InverseConformalFactorBoostedGrid ?E [0, 0, 3 / 5] 5 5 = Inr Kinv
         \<and> DataGrid_boosted ?E (Modes_edth (Modes_edth cascade_delta)) [0, 0, 3 / 5] 5 5 = Inr DD
         \<and> InverseConformalFactorGrid [0, 0, 3 / 5] 5 5 = Inr Kflat
         \<and> DataGrid_divide (double_minus_DataGrid 1 (DataGrid_of_Modes ?E cascade_delta 5 5))
               Kflat = Inr U
         \<and> DataGrid_boosted ?E (Modes_edth (Modes_of_DataGrid ?E U (default_L ?E))) [0, 0, 3 / 5] 5 5
             = Inr Et
         \<and> DataGrid_times Et Kinv = Inr Eg
         \<and> DataGrid_boosted ?E (psi0 ?S) [0, 0, 3 / 5] 5 5 = Inr P0
         \<and> DataGrid_boosted ?E (psi1 ?S) [0, 0, 3 / 5] 5 5 = Inr P1
         \<and> DataGrid_boosted ?E (psi2 ?S) [0, 0, 3 / 5] 5 5 = Inr P2
         \<and> DataGrid_boosted ?E (psi3 ?S) [0, 0, 3 / 5] 5 5 = Inr P3
         \<and> DataGrid_boosted ?E (psi4 ?S) [0, 0, 3 / 5] 5 5 = Inr P4
         \<and> DataGrid_boosted ?E (sigma ?S) [0, 0, 3 / 5] 5 5 = Inr Sg
         \<and> DataGrid_boosted ?E (sigmadot ?S) [0, 0, 3 / 5] 5 5 = Inr Sd
         \<and> BMSTransformationOnSlice ?E ?S 1 [0, 0, 3 / 5] cascade_delta = Inr G
         \<and> (n_theta (psi0 G) = 5 \<and> n_phi (psi0 G) = 5 \<and> length (g_data (psi0 G)) = 25)
         \<and> (n_theta (psi1 G) = 5 \<and> n_phi (psi1 G) = 5 \<and> length (g_data (psi1 G)) = 25)
         \<and> (n_theta (psi2 G) = 5 \<and> n_phi (psi2 G) = 5 \<and> length (g_data (psi2 G)) = 25)
         \<and> (n_theta (psi3 G) = 5 \<and> n_phi (psi3 G) = 5 \<and> length (g_data (psi3 G)) = 25)
         \<and> (n_theta (psi4 G) = 5 \<and> n_phi (psi4 G) = 5 \<and> length (g_data (psi4 G)) = 25)
         \<and> (n_theta (sigma G) = 5 \<and> n_phi (sigma G) = 5 \<and> length (g_data (sigma G)) = 25)
         \<and> (n_theta (sigmadot G) = 5 \<and> n_phi (sigmadot G) = 5 \<and> length (g_data (sigmadot G)) = 25)
         \<and> (\<forall>i<25.
               g_data (psi4 G) ! i = g_data Kinv ! i ^ 3 * g_data P4 ! i
             \<and> g_data (psi3 G) ! i
                 = g_data Kinv ! i ^ 3 * (g_data P3 ! i - g_data Eg ! i * g_data P4 ! i)
             \<and> g_data (psi2 G) ! i
                 = g_data Kinv ! i ^ 3
                   * (g_data P2 ! i
                      - g_data Eg ! i * (2 * g_data P3 ! i - g_data Eg ! i * g_data P4 ! i))
             \<and> g_data (psi1 G) ! i
                 = g_data Kinv ! i ^ 3
                   * (g_data P1 ! i
                      - g_data Eg ! i
                        * (3 * g_data P2 ! i
                           - g_data Eg ! i * (3 * g_data P3 ! i - g_data Eg ! i * g_data P4 ! i)))
             \<and> g_data (psi0 G) ! i
                 = g_data Kinv ! i ^ 3
                   * (g_data P0 ! i
                      - g_data Eg ! i
                        * (4 * g_data P1 ! i
                           - g_data Eg ! i
                             * (6 * g_data P2 ! i
                                - g_data Eg ! i
                                  * (4 * g_data P3 ! i - g_data Eg ! i * g_data P4 ! i))))
             \<and> g_data (sigma G) ! i = g_data Kinv ! i * (g_data Sg ! i - g_data DD ! i)
             \<and> g_data (sigmadot G) ! i = g_data Sd ! i * g_data Kinv ! i ^ 2
             \<and> g_data Eg ! i = g_data Et ! i * g_data Kinv ! i)"
      unfolding N by (elim exE) (rule that)
    note Kinv = all [THEN conjunct1] and r0 = all [THEN conjunct2]
    note DD = r0 [THEN conjunct1] and r1 = r0 [THEN conjunct2]
    note Kflat = r1 [THEN conjunct1] and r2 = r1 [THEN conjunct2]
    note U = r2 [THEN conjunct1] and r3 = r2 [THEN conjunct2]
    note Et = r3 [THEN conjunct1] and r4 = r3 [THEN conjunct2]
    note Egdef = r4 [THEN conjunct1] and r5 = r4 [THEN conjunct2]
    note P0 = r5 [THEN conjunct1] and r6 = r5 [THEN conjunct2]
    note P1 = r6 [THEN conjunct1] and r7 = r6 [THEN conjunct2]
    note P2 = r7 [THEN conjunct1] and r8 = r7 [THEN conjunct2]
    note P3 = r8 [THEN conjunct1] and r9 = r8 [THEN conjunct2]
    note P4 = r9 [THEN conjunct1] and r10 = r9 [THEN conjunct2]
    note Sg = r10 [THEN conjunct1] and r11 = r10 [THEN conjunct2]
    note Sd = r11 [THEN conjunct1] and r12 = r11 [THEN conjunct2]
    note G = r12 [THEN conjunct1] and r13 = r12 [THEN conjunct2]
    note d0 = r13 [THEN conjunct1] and r14 = r13 [THEN conjunct2]
    note d1 = r14 [THEN conjunct1] and r15 = r14 [THEN conjunct2]
    note d2 = r15 [THEN conjunct1] and r16 = r15 [THEN conjunct2]
    note d3 = r16 [THEN conjunct1] and r17 = r16 [THEN conjunct2]
    note d4 = r17 [THEN conjunct1] and r18 = r17 [THEN conjunct2]
    note ds = r18 [THEN conjunct1] and r19 = r18 [THEN conjunct2]
    note dd = r19 [THEN conjunct1] and r20 = r19 [THEN conjunct2]
    note cascade = r20
    have Kv: "g_data Kinv ! 0 = ?k"
      using Kinv by (rule InverseConformalFactorBoostedGrid_pole)
    have "g_data P0 = replicate 25 (1 + 0 + 0 + 0 + 0 + 0 + 0 + 0 + 0)"
      using P0 [unfolded cascade_slice_fields] by (rule DataGrid_boosted_unit)
    then have P0v: "g_data P0 ! 0 = 1" by simp
    have "g_data P1 = replicate 25 (2 + 0 + 0 + 0 + 0 + 0 + 0 + 0 + 0)"
      using P1 [unfolded cascade_slice_fields] by (rule DataGrid_boosted_unit)
    then have P1v: "g_data P1 ! 0 = 2" by simp
    have "g_data P2 = replicate 25 (3 + 0 + 0 + 0 + 0 + 0 + 0 + 0 + 0)"
      using P2 [unfolded cascade_slice_fields] by (rule DataGrid_boosted_unit)
    then have P2v: "g_data P2 ! 0 = 3" by simp
    have "g_data P3 = replicate 25 (4 + 0 + 0 + 0 + 0 + 0 + 0 + 0 + 0)"
      using P3 [unfolded cascade_slice_fields] by (rule DataGrid_boosted_unit)
    then have P3v: "g_data P3 ! 0 = 4" by simp
    have "g_data P4 = replicate 25 (5 + 0 + 0 + 0 + 0 + 0 + 0 + 0 + 0)"
      using P4 [unfolded cascade_slice_fields] by (rule DataGrid_boosted_unit)
    then have P4v: "g_data P4 ! 0 = 5" by simp
    have "g_data Sg = replicate 25 (6 + 0 + 0 + 0 + 0 + 0 + 0 + 0 + 0)"
      using Sg [unfolded cascade_slice_fields] by (rule DataGrid_boosted_unit)
    then have Sgv: "g_data Sg ! 0 = 6" by simp
    have "g_data Sd = replicate 25 (7 + 0 + 0 + 0 + 0 + 0 + 0 + 0 + 0)"
      using Sd [unfolded cascade_slice_fields] by (rule DataGrid_boosted_unit)
    then have Sdv: "g_data Sd ! 0 = 7" by simp
    have "g_data DD = replicate 25 (0 + 0 + 0 + 0 + ?d + 0 + 0 + 0 + 0)"
      using DD [unfolded edth_edth_cascade_delta] by (rule DataGrid_boosted_unit)
    then have DDv: "g_data DD ! 0 = ?d" by simp
    have "g_data Et = replicate 25 (0 + 1 + 1 + 1 + complex_of_real (sqrt 3)
             + complex_of_real (sqrt 3) + complex_of_real (sqrt 3) + complex_of_real (sqrt 3)
             + complex_of_real (sqrt 3))"
      using Et [unfolded uprime_modes [OF Kflat U]] by (rule DataGrid_boosted_unit)
    then have Etv: "g_data Et ! 0 = 3 + 5 * complex_of_real (sqrt 3)" by simp
    from cascade first have c: "g_data (psi4 G) ! 0 = g_data Kinv ! 0 ^ 3 * g_data P4 ! 0
             \<and> g_data (psi3 G) ! 0
                 = g_data Kinv ! 0 ^ 3 * (g_data P3 ! 0 - g_data Eg ! 0 * g_data P4 ! 0)
             \<and> g_data (psi2 G) ! 0
                 = g_data Kinv ! 0 ^ 3
                   * (g_data P2 ! 0
                      - g_data Eg ! 0 * (2 * g_data P3 ! 0 - g_data Eg ! 0 * g_data P4 ! 0))
             \<and> g_data (psi1 G) ! 0
                 = g_data Kinv ! 0 ^ 3
                   * (g_data P1 ! 0
                      - g_data Eg ! 0
                        * (3 * g_data P2 ! 0
                           - g_data Eg ! 0 * (3 * g_data P3 ! 0 - g_data Eg ! 0 * g_data P4 ! 0)))
             \<and> g_data (psi0 G) ! 0
                 = g_data Kinv ! 0 ^ 3
                   * (g_data P0 ! 0
                      - g_data Eg ! 0
                        * (4 * g_data P1 ! 0
                           - g_data Eg ! 0
                             * (6 * g_data P2 ! 0
                                - g_data Eg ! 0
                                  * (4 * g_data P3 ! 0 - g_data Eg ! 0 * g_data P4 ! 0))))
             \<and> g_data (sigma G) ! 0 = g_data Kinv ! 0 * (g_data Sg ! 0 - g_data DD ! 0)
             \<and> g_data (sigmadot G) ! 0 = g_data Sd ! 0 * g_data Kinv ! 0 ^ 2
             \<and> g_data Eg ! 0 = g_data Et ! 0 * g_data Kinv ! 0"
      by blast
    then have Eg: "g_data Eg ! 0 = ?f" by (simp only: Etv Kv)
    from c have "g_data (psi4 G) ! 0 = ?k ^ 3 * 5
            \<and> g_data (psi3 G) ! 0 = ?k ^ 3 * (4 - ?f * 5)
            \<and> g_data (psi2 G) ! 0 = ?k ^ 3 * (3 - ?f * (2 * 4 - ?f * 5))
            \<and> g_data (psi1 G) ! 0 = ?k ^ 3 * (2 - ?f * (3 * 3 - ?f * (3 * 4 - ?f * 5)))
            \<and> g_data (psi0 G) ! 0
                = ?k ^ 3 * (1 - ?f * (4 * 2 - ?f * (6 * 3 - ?f * (4 * 4 - ?f * 5))))
            \<and> g_data (sigma G) ! 0 = ?k * (6 - ?d)
            \<and> g_data (sigmadot G) ! 0 = 7 * ?k ^ 2"
      unfolding Eg Kv P0v P1v P2v P3v P4v Sgv Sdv DDv by blast
    with G d0 dd show ?thesis by blast
  qed
  from h1 h2 h3 h4 at_rest boosted show ?thesis
    unfolding Let_def by blast
qed

text \<open>
  A supertranslation of higher degree than the slice is refused: its grid is finer
  than the grid of the conformal factor.
\<close>

lemma BMSTransformationOnSlice_finer_delta:
  assumes A: "arith E = exact_arith"
    and L0: "0 \<le> SliceModes_EllMax S" and Ld: "SliceModes_EllMax S < ellMax delta"
  shows "BMSTransformationOnSlice E S u v delta = Inl GWFrames_VectorSizeMismatch"
proof -
  define n where "n = 2 * SliceModes_EllMax S + 1"
  have n0: "0 \<le> n" using L0 by (simp add: n_def)
  obtain Kinv where K: "InverseConformalFactorBoostedGrid E v n n = Inr Kinv"
    using DataGrid_functor_defined
            [where E = E and v = v and s = 0 and f = "InverseConformalFactorFunctor v",
             OF n0 n0 boosted_rotor_defined [OF A]]
    by (auto simp add: InverseConformalFactorBoostedGrid_def)
  have "0 \<le> max n (2 * ellMax (Modes_edth (Modes_edth delta)) + 1)" using n0 by simp
  from DataGrid_boosted_defined [where E = E and v = v, OF this this boosted_rotor_defined [OF A]]
  obtain DD where DD: "DataGrid_boosted E (Modes_edth (Modes_edth delta)) v n n = Inr DD"
    by blast
  obtain Kflat where Ku: "InverseConformalFactorGrid v n n = Inr Kflat" and "n_theta Kflat = n"
    using InverseConformalFactorGrid_defined [OF n0 n0, of v] by auto
  moreover have "n_theta (double_minus_DataGrid u (DataGrid_of_Modes E delta n n)) \<noteq> n"
    using Ld by (simp add: double_minus_DataGrid_def DataGrid_of_Modes_dims n_def)
  ultimately have
    "DataGrid_divide (double_minus_DataGrid u (DataGrid_of_Modes E delta n n)) Kflat
       = Inl GWFrames_VectorSizeMismatch"
    by (simp add: DataGrid_divide_def)
  then show ?thesis
    unfolding BMSTransformationOnSlice_def Let_def n_def [symmetric]
    by (simp only: bindE_simps K DD Ku)
qed

text \<open>
  C8, the counterexample: the slice of \<open>EllMax() = 2\<close> above with a supertranslation of
  \<open>ellMax = 3\<close>, at velocity zero and \<open>u = 0\<close>. The grid of \<open>delta\<close> has 7 x 7 points,
  that of the conformal factor 5 x 5, the quotient \<open>(u - delta)/(1/K)\<close> raises
  \<^verbatim>\<open>GWFrames_VectorSizeMismatch\<close> and no grid is produced.
\<close>

theorem BMSTransformationOnSlice_refuses_finer_delta:
  "SliceModes_EllMax cascade_slice = 2 \<and> ellMax fine_delta = 3
   \<and> BMSTransformationOnSlice unit_externals cascade_slice 0 [0, 0, 0] fine_delta
       = Inl GWFrames_VectorSizeMismatch"
proof -
  have "BMSTransformationOnSlice unit_externals cascade_slice 0 [0, 0, 0] fine_delta
          = Inl GWFrames_VectorSizeMismatch"
    by (rule BMSTransformationOnSlice_finer_delta)
       (simp_all add: unit_externals_fields cascade_slice_EllMax fine_delta_def)
  then show ?thesis by (simp add: cascade_slice_EllMax fine_delta_def)
qed

end
